theory Spec2Isabelle
  imports Complex_Main
begin

section \<open>C arithmetic\<close>

text \<open>
  What is stored in a \<^verbatim>\<open>float\<close> is rounded to the nearest binary32 number, ties to the
  even significand: 24 significant bits, least exponent -126 (below it the spacing is
  that of the subnormal numbers). Overflow to infinity and NaN are not
  modelled; no value computed here from an \<^verbatim>\<open>int\<close> and from sines and cosines comes
  near the largest binary32 number. The arithmetic in \<^verbatim>\<open>double\<close> and the library's
  \<^verbatim>\<open>sin\<close> and \<^verbatim>\<open>cos\<close> are taken as exact.
\<close>

definition round_half_even :: "real \<Rightarrow> int" where
  "round_half_even y =
     (if y - of_int \<lfloor>y\<rfloor> < 1 / 2 then \<lfloor>y\<rfloor>
      else if 1 / 2 < y - of_int \<lfloor>y\<rfloor> then \<lfloor>y\<rfloor> + 1
      else if even \<lfloor>y\<rfloor> then \<lfloor>y\<rfloor> else \<lfloor>y\<rfloor> + 1)"

definition c_float :: "real \<Rightarrow> real" where
  "c_float v =
     (if v = 0 then 0
      else (let e = max \<lfloor>log 2 \<bar>v\<bar>\<rfloor> (- 126);
                ulp = 2 powr of_int (e - 23)
            in of_int (round_half_even (v / ulp)) * ulp))"

text \<open>
  The cast \<^verbatim>\<open>(int)x\<close> of a \<^verbatim>\<open>float\<close> truncates toward zero. When the truncated value
  is not an \<^verbatim>\<open>int\<close> the C standard leaves the result undefined; the model gives
  \<^verbatim>\<open>INT_MIN\<close> there, which is what the conversion instruction of x86 yields.
\<close>

definition c_int_cast :: "real \<Rightarrow> int" where
  "c_int_cast v =
     (let z = (if 0 \<le> v then \<lfloor>v\<rfloor> else \<lceil>v\<rceil>)
      in if - (2 ^ 31) \<le> z \<and> z < 2 ^ 31 then z else - (2 ^ 31))"

text \<open>
  The conversion of a \<^verbatim>\<open>gdouble\<close> to the \<^verbatim>\<open>guint interval\<close> of \<^verbatim>\<open>g_timeout_add\<close>
  truncates toward zero. Outside the open interval from -1 to 4294967296 the C standard
  leaves the result undefined; the model gives what the x86-64 code does there, which
  converts to a 64-bit integer and keeps its low 32 bits, so that -1.5 becomes 4294967295
  (the low 32 bits are 0 when the value is no 64-bit integer either).
\<close>

definition c_double_to_guint :: "real \<Rightarrow> nat" where
  "c_double_to_guint v =
     (let z = (if 0 \<le> v then \<lfloor>v\<rfloor> else \<lceil>v\<rceil>)
      in if - (2 ^ 63) \<le> z \<and> z < 2 ^ 63 then nat (z mod 2 ^ 32) else 0)"

text \<open>
  The conversion of a \<^verbatim>\<open>gint\<close> to a \<^verbatim>\<open>guint\<close> parameter wraps.
\<close>

definition c_int_to_guint :: "int \<Rightarrow> nat" where
  "c_int_to_guint z = nat (z mod 2 ^ 32)"

section \<open>Easing functions\<close>

text \<open>
  The four easing functions of \<^verbatim>\<open>hd-transition.c\<close>, with the source's literal
  \<^verbatim>\<open>3.141592\<close> (not \<open>pi\<close>). Their parameter is a \<^verbatim>\<open>float\<close>; the locals
  \<^verbatim>\<open>amt\<close>, \<^verbatim>\<open>smooth_ramp\<close> and \<^verbatim>\<open>converge\<close> of \<open>hd_transition_overshoot\<close> are
  \<^verbatim>\<open>float\<close>s, and so are the differences \<^verbatim>\<open>x-offset\<close>, \<^verbatim>\<open>1-amt\<close> and
  \<^verbatim>\<open>1-converge\<close> of an \<^verbatim>\<open>int\<close> and a \<^verbatim>\<open>float\<close>, and every value returned.
\<close>

definition hd_transition_overshoot :: "real \<Rightarrow> real" where
  "hd_transition_overshoot v =
     (let offset = c_int_cast v;
          amt = c_float (v - c_float (of_int offset));
          smooth_ramp = c_float (1 - cos (amt * 3.141592));
          converge = c_float (sin (0.5 * 3.141592 * c_float (1 - amt)))
      in c_float (of_int offset + (smooth_ramp * 0.675) * converge + c_float (1 - converge)))"

definition hd_transition_smooth_ramp :: "real \<Rightarrow> real" where
  "hd_transition_smooth_ramp amt =
     (if amt > 0 \<and> amt < 1 then c_float ((1 - cos (amt * 3.141592)) * 0.5) else amt)"

definition hd_transition_ease_in :: "real \<Rightarrow> real" where
  "hd_transition_ease_in amt =
     (if amt > 0 \<and> amt < 1 then c_float (1 - cos (amt * 3.141592 * 0.5)) else amt)"

definition hd_transition_ease_out :: "real \<Rightarrow> real" where
  "hd_transition_ease_out amt =
     (if amt > 0 \<and> amt < 1 then c_float (cos (c_float (1 - amt) * 3.141592 * 0.5)) else amt)"

section \<open>Data model\<close>

text \<open>
  Pointers are numbers. A record of type \<open>HDEffectData\<close> lives in the heap \<open>effects\<close>
  under the number \<open>g_new0\<close> gave it; numbers are never reused, so a number names one
  allocation for ever. The timeline created for a record is stored
  under the record's own number. Decoration actors are named after the record and the slot
  of \<^verbatim>\<open>particles[]\<close> they are created for.
\<close>

type_synonym client_id = nat
type_synonym effect_id = nat
type_synonym timeline_id = nat

datatype actor_id =
    ClientActor nat
  | ParticleActor effect_id nat
  | HdRenderManagerActor
  | FrontGroupActor
  | StageActor

datatype MBWMCompMgrClientEvent = MBWMCompMgrClientEventMap | MBWMCompMgrClientEventUnmap

datatype client_flag =
    MBWMCompMgrClutterClientDontUpdate
  | MBWMCompMgrClutterClientEffectRunning
  | MBWMCompMgrClutterClientDontShow

datatype MBWMClientType = MBWMClientTypeApp | MBWMClientTypeOther

text \<open>
  \<^verbatim>\<open>HDRMStateEnum\<close> is declared in \<^verbatim>\<open>hd-render-manager.h\<close>, which is not part of the
  sources at hand. The two values this file names are constructors; every other value
  is \<open>HDRM_STATE_other n\<close>. The macros \<^verbatim>\<open>STATE_IS_PORTRAIT\<close>, \<^verbatim>\<open>STATE_IS_PORTRAIT_CAPABLE\<close>
  and \<^verbatim>\<open>STATE_IS_APP\<close> of that header are parameters of the model (fields of \<open>config\<close>).
\<close>

datatype HDRMStateEnum = HDRM_STATE_UNDEFINED | HDRM_STATE_TASK_NAV | HDRM_STATE_other nat

record ClutterGeometry =
  geo_x :: int
  geo_y :: int
  geo_width :: int
  geo_height :: int

record ClutterActor =
  anchor_x :: real
  anchor_y :: real
  opacity :: int
  scale_x :: real
  scale_y :: real
  visible :: bool
  parent :: "actor_id option"
  geometry :: ClutterGeometry
  ref_count :: int

record HDEffectData =
  event :: MBWMCompMgrClientEvent
  timeline :: "timeline_id option"
  cclient :: "client_id option"
  cclient_actor :: "actor_id option"
  cclient2 :: "client_id option"
  cclient2_actor :: "actor_id option"
  hmgr :: bool
  geo :: ClutterGeometry
  angle :: real
  particles :: "actor_id option list"

text \<open>
  A window-manager client together with its compositing client (\<^verbatim>\<open>c->cm_client\<close>):
  the flags and the \<^verbatim>\<open>effect\<close> back pointer of \<^verbatim>\<open>HdCompMgrClient\<close>, the actor that
  \<^verbatim>\<open>mb_wm_comp_mgr_clutter_client_get_actor\<close> returns, and what
  \<^verbatim>\<open>hd_transition_close_app\<close> asks of the client.
\<close>

record HdCompMgrClient =
  flags :: "client_flag set"
  effect :: "effect_id option"
  client_actor :: "actor_id option"
  client_refs :: int
  has_cm_client :: bool
  client_type :: MBWMClientType
  stack_index :: int
  is_leader :: bool

datatype frame_handler =
    on_popup_timeline_new_frame
  | on_fade_timeline_new_frame
  | on_close_timeline_new_frame
  | on_notification_timeline_new_frame
  | on_subview_timeline_new_frame
  | on_rotate_screen_timeline_new_frame

text \<open>
  A timeline with the handlers this file connects to it: the "new-frame" handler, the
  data pointer both handlers get, and whether \<open>hd_transition_rotating_fsm\<close> is
  connected to "completed" after \<open>hd_transition_completed\<close>.
\<close>

record ClutterTimeline =
  n_frames :: nat
  running :: bool
  new_frame_handler :: frame_handler
  handler_data :: effect_id
  finished_callback :: bool
  timeline_refs :: int

datatype direction_t = GOTO_LANDSCAPE | GOTO_PORTRAIT

datatype phase_t = IDLE | FADE_OUT | WAITING | FADE_IN

record orientation_change_t =
  wm :: nat
  direction :: direction_t
  new_direction :: direction_t
  phase :: phase_t
  goto_state :: HDRMStateEnum
  timeout_id :: nat
  timer :: "real option"
  effects_waiting :: "effect_id list"

text \<open>
  Calls that leave this file, in the order they are made. \<open>Completed d\<close> is written by
  every entry of \<open>hd_transition_completed\<close> with data \<open>d\<close>; \<open>Fsm_debug\<close> is the
  \<^verbatim>\<open>g_debug\<close> line at every entry of \<open>hd_transition_rotating_fsm\<close>; \<open>Set_effect_running d b\<close>
  is \<^verbatim>\<open>hd_comp_mgr_set_effect_running(hmgr, b)\<close> made for record \<open>d\<close>.
\<close>

datatype call =
    New_frame frame_handler effect_id nat
  | Timeline_start timeline_id
  | Timeline_stop timeline_id
  | Completed effect_id
  | Particle_unref actor_id
  | Set_effect_running effect_id bool
  | Fsm_debug phase_t direction_t direction_t
  | Change_screen_orientation bool
  | Render_manager_set_state HDRMStateEnum
  | Render_manager_restack
  | Play_sound
  | G_critical

text \<open>
  What the module reads and never writes: the contents of \<^verbatim>\<open>transitions.ini\<close>, clutter's
  frame rate, the current screen width, and the three macros of
  \<^verbatim>\<open>hd-render-manager.h\<close>.
\<close>

record config =
  ini_int :: "string \<times> string \<Rightarrow> int option"
  ini_double :: "string \<times> string \<Rightarrow> real option"
  frame_rate :: nat
  screen_width :: int
  STATE_IS_PORTRAIT :: "HDRMStateEnum \<Rightarrow> bool"
  STATE_IS_PORTRAIT_CAPABLE :: "HDRMStateEnum \<Rightarrow> bool"
  STATE_IS_APP :: "HDRMStateEnum \<Rightarrow> bool"

record world =
  clients :: "client_id \<Rightarrow> HdCompMgrClient"
  actors :: "actor_id \<Rightarrow> ClutterActor"
  effects :: "effect_id \<Rightarrow> HDEffectData option"
  next_effect :: nat
  timelines :: "timeline_id \<Rightarrow> ClutterTimeline option"
  Orientation_change :: orientation_change_t
  timeout_sources :: "nat \<Rightarrow> real option"
  source_count :: nat
  effects_running :: int
  cfg :: config
  trace :: "call list"

section \<open>Collaborators\<close>

text \<open>
  The statements of a C function body, run in order.
\<close>

definition steps :: "('s \<Rightarrow> 's) list \<Rightarrow> 's \<Rightarrow> 's" where
  "steps fs s = fold (\<lambda>f. f) fs s"

definition skip :: "'s \<Rightarrow> 's" where
  "skip s = s"

definition call_out :: "call \<Rightarrow> world \<Rightarrow> world" where
  "call_out e w = w\<lparr>trace := trace w @ [e]\<rparr>"

definition upd_client :: "client_id \<Rightarrow> (HdCompMgrClient \<Rightarrow> HdCompMgrClient) \<Rightarrow> world \<Rightarrow> world" where
  "upd_client c f w = w\<lparr>clients := (clients w)(c := f (clients w c))\<rparr>"

definition upd_actor :: "actor_id \<Rightarrow> (ClutterActor \<Rightarrow> ClutterActor) \<Rightarrow> world \<Rightarrow> world" where
  "upd_actor a f w = w\<lparr>actors := (actors w)(a := f (actors w a))\<rparr>"

text \<open>
  Clutter and GLib check their object argument and return at once on \<^verbatim>\<open>NULL\<close>.
\<close>

definition on_actor :: "actor_id option \<Rightarrow> (ClutterActor \<Rightarrow> ClutterActor) \<Rightarrow> world \<Rightarrow> world" where
  "on_actor a f w = (case a of None \<Rightarrow> w | Some i \<Rightarrow> upd_actor i f w)"

definition upd_oc :: "(orientation_change_t \<Rightarrow> orientation_change_t) \<Rightarrow> world \<Rightarrow> world" where
  "upd_oc f w = w\<lparr>Orientation_change := f (Orientation_change w)\<rparr>"

definition mb_wm_comp_mgr_clutter_client_set_flags :: "client_id \<Rightarrow> client_flag set \<Rightarrow> world \<Rightarrow> world" where
  "mb_wm_comp_mgr_clutter_client_set_flags c fs = upd_client c (\<lambda>r. r\<lparr>flags := flags r \<union> fs\<rparr>)"

definition mb_wm_comp_mgr_clutter_client_unset_flags :: "client_id \<Rightarrow> client_flag set \<Rightarrow> world \<Rightarrow> world" where
  "mb_wm_comp_mgr_clutter_client_unset_flags c fs = upd_client c (\<lambda>r. r\<lparr>flags := flags r - fs\<rparr>)"

definition set_effect_pointer :: "client_id \<Rightarrow> effect_id option \<Rightarrow> world \<Rightarrow> world" where
  "set_effect_pointer c p = upd_client c (\<lambda>r. r\<lparr>effect := p\<rparr>)"

definition mb_wm_object_ref :: "client_id \<Rightarrow> world \<Rightarrow> world" where
  "mb_wm_object_ref c = upd_client c (\<lambda>r. r\<lparr>client_refs := client_refs r + 1\<rparr>)"

definition mb_wm_object_unref :: "client_id \<Rightarrow> world \<Rightarrow> world" where
  "mb_wm_object_unref c = upd_client c (\<lambda>r. r\<lparr>client_refs := client_refs r - 1\<rparr>)"

definition g_object_ref :: "actor_id option \<Rightarrow> world \<Rightarrow> world" where
  "g_object_ref a = on_actor a (\<lambda>r. r\<lparr>ref_count := ref_count r + 1\<rparr>)"

definition g_object_unref :: "actor_id option \<Rightarrow> world \<Rightarrow> world" where
  "g_object_unref a = on_actor a (\<lambda>r. r\<lparr>ref_count := ref_count r - 1\<rparr>)"

definition clutter_actor_show :: "actor_id option \<Rightarrow> world \<Rightarrow> world" where
  "clutter_actor_show a = on_actor a (\<lambda>r. r\<lparr>visible := True\<rparr>)"

definition clutter_actor_hide :: "actor_id option \<Rightarrow> world \<Rightarrow> world" where
  "clutter_actor_hide a = on_actor a (\<lambda>r. r\<lparr>visible := False\<rparr>)"

definition clutter_actor_set_anchor_point :: "actor_id option \<Rightarrow> real \<Rightarrow> real \<Rightarrow> world \<Rightarrow> world" where
  "clutter_actor_set_anchor_point a ax ay = on_actor a (\<lambda>r. r\<lparr>anchor_x := ax, anchor_y := ay\<rparr>)"

definition clutter_container_add_actor :: "actor_id \<Rightarrow> actor_id option \<Rightarrow> world \<Rightarrow> world" where
  "clutter_container_add_actor container a = on_actor a (\<lambda>r. r\<lparr>parent := Some container\<rparr>)"

text \<open>
  \<^verbatim>\<open>if (CLUTTER_IS_CONTAINER(parent)) clutter_container_remove_actor(parent, a)\<close>:
  every parent of the model is a container.
\<close>

definition remove_from_parent :: "actor_id option \<Rightarrow> world \<Rightarrow> world" where
  "remove_from_parent a = on_actor a (\<lambda>r. r\<lparr>parent := None\<rparr>)"

definition clutter_actor_reparent :: "actor_id option \<Rightarrow> actor_id \<Rightarrow> world \<Rightarrow> world" where
  "clutter_actor_reparent a container = on_actor a (\<lambda>r. r\<lparr>parent := Some container\<rparr>)"

definition new_actor :: ClutterActor where
  "new_actor = \<lparr>anchor_x = 0, anchor_y = 0, opacity = 255, scale_x = 1, scale_y = 1,
     visible = False, parent = None,
     geometry = \<lparr>geo_x = 0, geo_y = 0, geo_width = 0, geo_height = 0\<rparr>, ref_count = 1\<rparr>"

text \<open>
  A constructor of the actor system (\<^verbatim>\<open>clutter_rectangle_new\<close>,
  \<^verbatim>\<open>hd_clutter_cache_get_texture\<close>, \<^verbatim>\<open>hd_title_bar_create_fake\<close>) returned the new
  actor \<open>a\<close>.
\<close>

definition actor_created :: "actor_id \<Rightarrow> world \<Rightarrow> world" where
  "actor_created a = upd_actor a (\<lambda>r. new_actor)"

text \<open>
  Modelled from the spec: \<^verbatim>\<open>hd_comp_mgr_set_effect_running\<close> is defined in
  \<^verbatim>\<open>hd-comp-mgr.c\<close>, not at hand; the spec says a transition "increments a global
  effect(s) running counter" and teardown "notifies the owning manager that one fewer
  global effect is running".
\<close>

definition hd_comp_mgr_set_effect_running :: "effect_id \<Rightarrow> bool \<Rightarrow> world \<Rightarrow> world" where
  "hd_comp_mgr_set_effect_running d b w =
     call_out (Set_effect_running d b)
       (w\<lparr>effects_running := effects_running w + (if b then 1 else - 1)\<rparr>)"

definition hd_transition_play_sound :: "world \<Rightarrow> world" where
  "hd_transition_play_sound = call_out Play_sound"

subsection \<open>Configuration\<close>

text \<open>
  \<open>ini_int\<close> and \<open>ini_double\<close> hold what \<^verbatim>\<open>transitions.ini\<close> gives for a
  (transition, key) pair; \<open>None\<close> covers a missing file and a read error, where the C
  functions return the default. Loading and watching the file is not modelled.
\<close>

definition hd_transition_get_int :: "world \<Rightarrow> string \<Rightarrow> string \<Rightarrow> int \<Rightarrow> int" where
  "hd_transition_get_int w transition key default_val =
     (case ini_int (cfg w) (transition, key) of None \<Rightarrow> default_val | Some v \<Rightarrow> v)"

definition hd_transition_get_double :: "world \<Rightarrow> string \<Rightarrow> string \<Rightarrow> real \<Rightarrow> real" where
  "hd_transition_get_double w transition key default_val =
     (case ini_double (cfg w) (transition, key) of None \<Rightarrow> default_val | Some v \<Rightarrow> v)"

subsection \<open>Timelines and timers\<close>

text \<open>
  Clutter's \<^verbatim>\<open>clutter_timeline_new_for_duration (guint msecs)\<close>: the number of frames
  of a timeline of \<open>msecs\<close> milliseconds at the frame rate of the world. Both callers pass
  the \<^verbatim>\<open>gint\<close> that \<open>hd_transition_get_int\<close> returns.
\<close>

definition clutter_timeline_new_for_duration :: "world \<Rightarrow> int \<Rightarrow> nat" where
  "clutter_timeline_new_for_duration w msecs =
     c_int_to_guint msecs * frame_rate (cfg w) div 1000"

definition hd_transition_timeline_new :: "world \<Rightarrow> string \<Rightarrow> MBWMCompMgrClientEvent \<Rightarrow> int \<Rightarrow> nat" where
  "hd_transition_timeline_new w transition ev default_length =
     (let key = (if ev = MBWMCompMgrClientEventMap then ''duration_in'' else ''duration_out'')
      in clutter_timeline_new_for_duration w (hd_transition_get_int w transition key default_length))"

text \<open>
  \<^verbatim>\<open>data->timeline = g_object_ref(<new timeline>)\<close> followed by the
  \<^verbatim>\<open>g_signal_connect\<close> calls: the timeline \<open>t\<close> exists with two references, is not
  running, and carries its handlers.
\<close>

definition timeline_connected ::
  "timeline_id \<Rightarrow> nat \<Rightarrow> frame_handler \<Rightarrow> effect_id \<Rightarrow> bool \<Rightarrow> world \<Rightarrow> world" where
  "timeline_connected t nf h d cb w =
     w\<lparr>timelines := (timelines w)(t := Some \<lparr>n_frames = nf, running = False,
          new_frame_handler = h, handler_data = d, finished_callback = cb,
          timeline_refs = 2\<rparr>)\<rparr>"

definition upd_timeline :: "timeline_id option \<Rightarrow> (ClutterTimeline \<Rightarrow> ClutterTimeline) \<Rightarrow> world \<Rightarrow> world" where
  "upd_timeline t f w =
     (case t of None \<Rightarrow> w
      | Some i \<Rightarrow> (case timelines w i of None \<Rightarrow> w
          | Some tln \<Rightarrow> w\<lparr>timelines := (timelines w)(i := Some (f tln))\<rparr>))"

definition clutter_timeline_get_n_frames :: "world \<Rightarrow> timeline_id option \<Rightarrow> nat" where
  "clutter_timeline_get_n_frames w t =
     (case t of None \<Rightarrow> 0
      | Some i \<Rightarrow> (case timelines w i of None \<Rightarrow> 0 | Some tln \<Rightarrow> n_frames tln))"

definition clutter_timeline_start :: "timeline_id \<Rightarrow> world \<Rightarrow> world" where
  "clutter_timeline_start t w =
     call_out (Timeline_start t) (upd_timeline (Some t) (\<lambda>tln. tln\<lparr>running := True\<rparr>) w)"

definition clutter_timeline_stop :: "timeline_id option \<Rightarrow> world \<Rightarrow> world" where
  "clutter_timeline_stop t w =
     (case t of None \<Rightarrow> w
      | Some i \<Rightarrow> call_out (Timeline_stop i) (upd_timeline t (\<lambda>tln. tln\<lparr>running := False\<rparr>) w))"

definition timeline_unref :: "timeline_id option \<Rightarrow> world \<Rightarrow> world" where
  "timeline_unref t = upd_timeline t (\<lambda>tln. tln\<lparr>timeline_refs := timeline_refs tln - 1\<rparr>)"

text \<open>
  GLib's \<^verbatim>\<open>g_timeout_add(interval, hd_transition_rotating_fsm, NULL)\<close> at time \<open>now\<close>
  (in seconds): a new source with a positive id and its deadline. The id is stored
  in \<open>Orientation_change.timeout_id\<close>, as both call sites do.
\<close>

definition g_timeout_add :: "real \<Rightarrow> nat \<Rightarrow> world \<Rightarrow> world" where
  "g_timeout_add now interval w =
     (let sid = Suc (source_count w)
      in upd_oc (\<lambda>oc. oc\<lparr>timeout_id := sid\<rparr>)
           (w\<lparr>timeout_sources := (timeout_sources w)(sid := Some (now + real interval / 1000)),
              source_count := sid\<rparr>))"

definition g_source_remove :: "nat \<Rightarrow> world \<Rightarrow> world" where
  "g_source_remove sid w = w\<lparr>timeout_sources := (timeout_sources w)(sid := None)\<rparr>"

definition g_timer_elapsed :: "real \<Rightarrow> real option \<Rightarrow> real" where
  "g_timer_elapsed now tm = (case tm of None \<Rightarrow> 0 | Some t0 \<Rightarrow> now - t0)"

section \<open>Per-frame handlers\<close>

text \<open>
  \<open>on_subview_timeline_new_frame\<close> is modelled in full: the anchor points are kept in
  pixels (the fixed-point conversion of \<^verbatim>\<open>CLUTTER_FLOAT_TO_FIXED\<close> is clutter's), the
  quotient of the frame numbers and the corner are computed in the reals. The handlers
  of the other transitions shape opacity, scale and position with floating-point sines
  and cosines; of them the model keeps the call itself, with its frame number, in the
  trace.
\<close>

definition subview_new_frame :: "timeline_id \<Rightarrow> nat \<Rightarrow> effect_id \<Rightarrow> world \<Rightarrow> world" where
  "subview_new_frame t frame_num d w =
     (case effects w d of
        None \<Rightarrow> w
      | Some data \<Rightarrow>
          (let subview_actor = (if cclient data \<noteq> None then cclient_actor data else None);
               main_actor = (if cclient2 data \<noteq> None then cclient2_actor data else None);
               nf = clutter_timeline_get_n_frames w (Some t);
               amt = hd_transition_smooth_ramp (real frame_num / real nf);
               amt = (if event data = MBWMCompMgrClientEventUnmap then 1 - amt else amt);
               corner_x = (1 - amt) * real_of_int (screen_width (cfg w))
           in steps [
                clutter_actor_set_anchor_point subview_actor (- corner_x) 0,
                clutter_actor_show subview_actor,
                clutter_actor_set_anchor_point main_actor
                  (- (corner_x - real_of_int (screen_width (cfg w)))) 0,
                clutter_actor_show main_actor,
                (if frame_num = nf then steps [
                   clutter_actor_set_anchor_point subview_actor 0 0,
                   (if event data = MBWMCompMgrClientEventUnmap
                    then clutter_actor_hide subview_actor else skip),
                   clutter_actor_set_anchor_point main_actor 0 0,
                   (if event data = MBWMCompMgrClientEventMap
                    then clutter_actor_hide main_actor else skip)]
                 else skip)] w))"

text \<open>
  A "new-frame" handler runs with the timeline, the frame number and its data.
\<close>

definition new_frame :: "frame_handler \<Rightarrow> timeline_id \<Rightarrow> nat \<Rightarrow> effect_id \<Rightarrow> world \<Rightarrow> world" where
  "new_frame h t frame_num d w =
     (let w' = call_out (New_frame h d frame_num) w
      in if h = on_subview_timeline_new_frame then subview_new_frame t frame_num d w' else w')"

text \<open>
  \<^verbatim>\<open>g_signal_emit_by_name(timeline, "new-frame", frame_num)\<close>: the handler connected
  to the timeline runs.
\<close>

definition emit_new_frame :: "timeline_id option \<Rightarrow> nat \<Rightarrow> world \<Rightarrow> world" where
  "emit_new_frame t frame_num w =
     (case t of None \<Rightarrow> w
      | Some i \<Rightarrow> (case timelines w i of None \<Rightarrow> w
          | Some tln \<Rightarrow> new_frame (new_frame_handler tln) i frame_num (handler_data tln) w))"

section \<open>Teardown\<close>

definition release_particle :: "actor_id option \<Rightarrow> world \<Rightarrow> world" where
  "release_particle p w =
     (case p of None \<Rightarrow> w
      | Some a \<Rightarrow> steps [
          remove_from_parent (Some a),
          call_out (Particle_unref a),
          g_object_unref (Some a)] w)"

definition g_free :: "effect_id \<Rightarrow> world \<Rightarrow> world" where
  "g_free d w = w\<lparr>effects := (effects w)(d := None)\<rparr>"

text \<open>
  \<open>hd_transition_completed\<close> with its two arguments, the timeline (\<^verbatim>\<open>NULL\<close> when
  called for a waiting effect) and the data. On a record that is no longer in the heap
  the C code would read freed memory; the model records the call and stops.
  The disconnection of \<^verbatim>\<open>on_screen_size_changed\<close> is left out, as that handler is.
\<close>

definition hd_transition_completed :: "timeline_id option \<Rightarrow> effect_id \<Rightarrow> world \<Rightarrow> world" where
  "hd_transition_completed tln d w0 =
     (let w = call_out (Completed d) w0
      in case effects w d of
           None \<Rightarrow> w
         | Some data \<Rightarrow> steps [
             (case cclient data of
                None \<Rightarrow> skip
              | Some c \<Rightarrow> steps [
                  set_effect_pointer c None,
                  mb_wm_comp_mgr_clutter_client_unset_flags c
                    {MBWMCompMgrClutterClientDontUpdate, MBWMCompMgrClutterClientEffectRunning},
                  mb_wm_object_unref c,
                  (if event data = MBWMCompMgrClientEventUnmap
                   then remove_from_parent (cclient_actor data) else skip)]),
             g_object_unref (cclient_actor data),
             (case cclient2 data of
                None \<Rightarrow> skip
              | Some c \<Rightarrow> steps [
                  set_effect_pointer c None,
                  mb_wm_comp_mgr_clutter_client_unset_flags c
                    {MBWMCompMgrClutterClientDontUpdate, MBWMCompMgrClutterClientEffectRunning},
                  mb_wm_object_unref c]),
             g_object_unref (cclient2_actor data),
             timeline_unref tln,
             (if hmgr data then hd_comp_mgr_set_effect_running d False else skip),
             steps (map release_particle (particles data)),
             g_free d] w)"

section \<open>Starting transitions\<close>

definition g_new0 :: "world \<Rightarrow> world" where
  "g_new0 w = w\<lparr>next_effect := Suc (next_effect w)\<rparr>"

definition store_effect :: "effect_id \<Rightarrow> HDEffectData \<Rightarrow> world \<Rightarrow> world" where
  "store_effect d data w = w\<lparr>effects := (effects w)(d := Some data)\<rparr>"

definition no_geometry :: ClutterGeometry where
  "no_geometry = \<lparr>geo_x = 0, geo_y = 0, geo_width = 0, geo_height = 0\<rparr>"

definition effect_flags :: "client_flag set" where
  "effect_flags = {MBWMCompMgrClutterClientDontUpdate, MBWMCompMgrClutterClientEffectRunning}"

definition hd_transition_popup :: "client_id \<Rightarrow> MBWMCompMgrClientEvent \<Rightarrow> world \<Rightarrow> world" where
  "hd_transition_popup c ev w =
     (case client_actor (clients w c) of
        None \<Rightarrow> w
      | Some actor \<Rightarrow>
          (let d = next_effect w;
               data = \<lparr>event = ev, timeline = Some d, cclient = Some c,
                 cclient_actor = Some actor, cclient2 = None, cclient2_actor = None,
                 hmgr = True, geo = geometry (actors w actor), angle = 0,
                 particles = [Some (ParticleActor d 0)]\<rparr>
           in steps [
                g_new0,
                mb_wm_object_ref c,
                g_object_ref (Some actor),
                timeline_connected d (hd_transition_timeline_new w ''popup'' ev 250)
                  on_popup_timeline_new_frame d False,
                store_effect d data,
                mb_wm_comp_mgr_clutter_client_set_flags c effect_flags,
                hd_comp_mgr_set_effect_running d True,
                actor_created (ParticleActor d 0),
                g_object_ref (Some (ParticleActor d 0)),
                new_frame on_popup_timeline_new_frame d 0 d,
                clutter_timeline_start d] w))"

definition hd_transition_fade :: "client_id \<Rightarrow> MBWMCompMgrClientEvent \<Rightarrow> world \<Rightarrow> world" where
  "hd_transition_fade c ev w =
     (let d = next_effect w;
          data = \<lparr>event = ev, timeline = Some d, cclient = Some c,
            cclient_actor = client_actor (clients w c), cclient2 = None, cclient2_actor = None,
            hmgr = True, geo = no_geometry, angle = 0, particles = []\<rparr>
      in steps [
           g_new0,
           mb_wm_object_ref c,
           g_object_ref (client_actor (clients w c)),
           timeline_connected d (hd_transition_timeline_new w ''fade'' ev 250)
             on_fade_timeline_new_frame d False,
           store_effect d data,
           mb_wm_comp_mgr_clutter_client_set_flags c effect_flags,
           hd_comp_mgr_set_effect_running d True,
           new_frame on_fade_timeline_new_frame d 0 d,
           clutter_timeline_start d] w)"

text \<open>
  \<open>textures\<close> says, for each \<open>i < HDCM_UNMAP_PARTICLES\<close>, whether
  \<^verbatim>\<open>hd_clutter_cache_get_texture\<close> returned a texture; its length is that constant,
  which \<^verbatim>\<open>hd-comp-mgr.h\<close> defines. \<open>state\<close> is what \<^verbatim>\<open>hd_render_manager_get_state()\<close>
  returns. Lowering the actor and moving its anchor point to its centre are left out.
\<close>

definition close_particle :: "effect_id \<Rightarrow> nat \<Rightarrow> world \<Rightarrow> world" where
  "close_particle d i = steps [
     actor_created (ParticleActor d i),
     g_object_ref (Some (ParticleActor d i)),
     clutter_container_add_actor FrontGroupActor (Some (ParticleActor d i)),
     clutter_actor_hide (Some (ParticleActor d i))]"

definition hd_transition_close_app ::
  "HDRMStateEnum \<Rightarrow> bool list \<Rightarrow> client_id \<Rightarrow> world \<Rightarrow> world" where
  "hd_transition_close_app state textures c w =
     (if client_type (clients w c) \<noteq> MBWMClientTypeApp then w
      else if state = HDRM_STATE_TASK_NAV then w
      else if stack_index (clients w c) > 0 \<and> \<not> is_leader (clients w c) then w
      else case client_actor (clients w c) of
        None \<Rightarrow> w
      | Some actor \<Rightarrow>
          if \<not> visible (actors w actor) then w
          else if geo_width (geometry (actors w actor)) < 16
                  \<or> geo_height (geometry (actors w actor)) < 16 then w
          else
            (let d = next_effect w;
                 slots = [0 ..< length textures];
                 data = \<lparr>event = MBWMCompMgrClientEventUnmap, timeline = Some d,
                   cclient = Some c, cclient_actor = Some actor, cclient2 = None,
                   cclient2_actor = None, hmgr = True, geo = geometry (actors w actor),
                   angle = 0,
                   particles = map (\<lambda>i. if textures ! i then Some (ParticleActor d i) else None)
                     slots\<rparr>
             in steps [
                  g_new0,
                  mb_wm_object_ref c,
                  g_object_ref (Some actor),
                  timeline_connected d
                    (clutter_timeline_new_for_duration w
                       (hd_transition_get_int w ''app_close'' ''duration'' 500))
                    on_close_timeline_new_frame d False,
                  store_effect d data,
                  mb_wm_comp_mgr_clutter_client_set_flags c effect_flags,
                  clutter_actor_reparent (Some actor) FrontGroupActor,
                  steps (map (\<lambda>i. if textures ! i then close_particle d i else skip) slots),
                  hd_comp_mgr_set_effect_running d True,
                  clutter_timeline_start d,
                  hd_transition_play_sound] w))"

definition hd_transition_close_app_before_rotate ::
  "HDRMStateEnum \<Rightarrow> client_id \<Rightarrow> world \<Rightarrow> world" where
  "hd_transition_close_app_before_rotate state c w =
     (if client_type (clients w c) \<noteq> MBWMClientTypeApp then w
      else if state = HDRM_STATE_TASK_NAV then w
      else case client_actor (clients w c) of
        None \<Rightarrow> w
      | Some actor \<Rightarrow>
          if \<not> visible (actors w actor) then w
          else
            (let d = next_effect w;
                 data = \<lparr>event = MBWMCompMgrClientEventUnmap, timeline = None,
                   cclient = Some c, cclient_actor = Some actor, cclient2 = None,
                   cclient2_actor = None, hmgr = True, geo = no_geometry, angle = 0,
                   particles = [Some (ParticleActor d 0)]\<rparr>
             in steps [
                  g_new0,
                  mb_wm_object_ref c,
                  g_object_ref (Some actor),
                  store_effect d data,
                  mb_wm_comp_mgr_clutter_client_set_flags c
                    {MBWMCompMgrClutterClientDontUpdate, MBWMCompMgrClutterClientDontShow,
                     MBWMCompMgrClutterClientEffectRunning},
                  clutter_actor_reparent (Some actor) FrontGroupActor,
                  actor_created (ParticleActor d 0),
                  clutter_container_add_actor FrontGroupActor (Some (ParticleActor d 0)),
                  upd_oc (\<lambda>oc. oc\<lparr>effects_waiting := effects_waiting oc @ [d]\<rparr>),
                  hd_comp_mgr_set_effect_running d True,
                  hd_transition_play_sound] w))"

definition hd_transition_notification :: "client_id \<Rightarrow> MBWMCompMgrClientEvent \<Rightarrow> world \<Rightarrow> world" where
  "hd_transition_notification c ev w =
     (let d = next_effect w;
          data = \<lparr>event = ev, timeline = Some d, cclient = Some c,
            cclient_actor = client_actor (clients w c), cclient2 = None, cclient2_actor = None,
            hmgr = True, geo = no_geometry, angle = 0, particles = []\<rparr>
      in steps [
           g_new0,
           mb_wm_object_ref c,
           g_object_ref (client_actor (clients w c)),
           timeline_connected d (hd_transition_timeline_new w ''notification'' ev 500)
             on_notification_timeline_new_frame d False,
           store_effect d data,
           mb_wm_comp_mgr_clutter_client_set_flags c effect_flags,
           hd_comp_mgr_set_effect_running d True,
           new_frame on_notification_timeline_new_frame d 0 d,
           clutter_timeline_start d] w)"

subsection \<open>Subview transitions\<close>

text \<open>
  The first special case of \<open>hd_transition_subview\<close>: the running effect \<open>d\<close> gives up
  its \<^verbatim>\<open>cclient\<close> (the mainview of the request) for the subview of the request.
\<close>

definition subview_replace_cclient ::
  "effect_id \<Rightarrow> HDEffectData \<Rightarrow> client_id \<Rightarrow> world \<Rightarrow> world" where
  "subview_replace_cclient d data cclient_subview w =
     steps [
       clutter_actor_hide (cclient_actor data),
       clutter_actor_set_anchor_point (cclient_actor data) 0 0,
       g_object_unref (cclient_actor data),
       (case cclient data of None \<Rightarrow> skip | Some c \<Rightarrow> steps [
          set_effect_pointer c None,
          mb_wm_comp_mgr_clutter_client_unset_flags c effect_flags,
          mb_wm_object_unref c]),
       mb_wm_object_ref cclient_subview,
       g_object_ref (client_actor (clients w cclient_subview)),
       store_effect d (data\<lparr>cclient := Some cclient_subview,
         cclient_actor := client_actor (clients w cclient_subview)\<rparr>),
       mb_wm_comp_mgr_clutter_client_set_flags cclient_subview effect_flags,
       set_effect_pointer cclient_subview (Some d)] w"

text \<open>
  The second special case: the running effect \<open>d\<close> gives up its \<^verbatim>\<open>cclient2\<close> (the
  subview of the request) for the mainview of the request.
\<close>

definition subview_replace_cclient2 ::
  "effect_id \<Rightarrow> HDEffectData \<Rightarrow> client_id \<Rightarrow> world \<Rightarrow> world" where
  "subview_replace_cclient2 d data cclient_mainview w =
     steps [
       clutter_actor_hide (cclient2_actor data),
       clutter_actor_set_anchor_point (cclient2_actor data) 0 0,
       g_object_unref (cclient2_actor data),
       (case cclient2 data of None \<Rightarrow> skip | Some c \<Rightarrow> steps [
          set_effect_pointer c None,
          mb_wm_comp_mgr_clutter_client_unset_flags c effect_flags,
          mb_wm_object_unref c]),
       mb_wm_object_ref cclient_mainview,
       g_object_ref (client_actor (clients w cclient_mainview)),
       store_effect d (data\<lparr>cclient2 := Some cclient_mainview,
         cclient2_actor := client_actor (clients w cclient_mainview)\<rparr>),
       mb_wm_comp_mgr_clutter_client_set_flags cclient_mainview effect_flags,
       set_effect_pointer cclient_mainview (Some d)] w"

definition subview_start ::
  "client_id \<Rightarrow> client_id \<Rightarrow> MBWMCompMgrClientEvent \<Rightarrow> world \<Rightarrow> world" where
  "subview_start cclient_subview cclient_mainview ev w =
     (let d = next_effect w;
          data = \<lparr>event = ev, timeline = Some d, cclient = Some cclient_subview,
            cclient_actor = client_actor (clients w cclient_subview),
            cclient2 = Some cclient_mainview,
            cclient2_actor = client_actor (clients w cclient_mainview),
            hmgr = True, geo = no_geometry, angle = 0, particles = []\<rparr>
      in steps [
           g_new0,
           mb_wm_object_ref cclient_subview,
           g_object_ref (client_actor (clients w cclient_subview)),
           mb_wm_object_ref cclient_mainview,
           g_object_ref (client_actor (clients w cclient_mainview)),
           timeline_connected d (hd_transition_timeline_new w ''subview'' ev 250)
             on_subview_timeline_new_frame d False,
           store_effect d data,
           mb_wm_comp_mgr_clutter_client_set_flags cclient_subview effect_flags,
           mb_wm_comp_mgr_clutter_client_set_flags cclient_mainview effect_flags,
           hd_comp_mgr_set_effect_running d True,
           set_effect_pointer cclient_mainview (Some d),
           set_effect_pointer cclient_subview (Some d),
           new_frame on_subview_timeline_new_frame d 0 d,
           clutter_timeline_start d] w)"

text \<open>
  \<open>subview\<close> and \<open>mainview\<close> are the two client pointers (\<open>None\<close> is \<^verbatim>\<open>NULL\<close>);
  \<open>state\<close> is what \<^verbatim>\<open>hd_render_manager_get_state()\<close> returns.
\<close>

definition hd_transition_subview ::
  "HDRMStateEnum \<Rightarrow> client_id option \<Rightarrow> client_id option \<Rightarrow> MBWMCompMgrClientEvent \<Rightarrow>
     world \<Rightarrow> world" where
  "hd_transition_subview state subview mainview ev w =
     (if subview = mainview then call_out G_critical w
      else case subview of
        None \<Rightarrow> w
      | Some sv \<Rightarrow>
         (case mainview of
            None \<Rightarrow> w
          | Some mv \<Rightarrow>
             if \<not> has_cm_client (clients w sv) \<or> \<not> has_cm_client (clients w mv)
                \<or> \<not> STATE_IS_APP (cfg w) state then w
             else
               (let subview_in_trans =
                      (MBWMCompMgrClutterClientEffectRunning \<in> flags (clients w sv));
                    mainview_in_trans =
                      (MBWMCompMgrClutterClientEffectRunning \<in> flags (clients w mv))
                in if subview_in_trans \<and> mainview_in_trans then w
                   else if mainview_in_trans then
                     (if ev = MBWMCompMgrClientEventMap then
                        (case effect (clients w mv) of
                           None \<Rightarrow> w
                         | Some d \<Rightarrow>
                            (case effects w d of
                               None \<Rightarrow> w
                             | Some data \<Rightarrow>
                                if event data = MBWMCompMgrClientEventMap
                                   \<and> cclient data = Some mv
                                then subview_replace_cclient d data sv w else w))
                      else w)
                   else if subview_in_trans then
                     (if ev = MBWMCompMgrClientEventUnmap then
                        (case effect (clients w sv) of
                           None \<Rightarrow> w
                         | Some d \<Rightarrow>
                            (case effects w d of
                               None \<Rightarrow> w
                             | Some data \<Rightarrow>
                                if event data = MBWMCompMgrClientEventUnmap
                                   \<and> cclient2 data = Some sv
                                then subview_replace_cclient2 d data mv w else w))
                      else w)
                   else subview_start sv mv ev w)))"

section \<open>Forced stop\<close>

text \<open>
  A dangling \<^verbatim>\<open>effect\<close> pointer would make the C code run the teardown on freed
  memory; the model then records that teardown.
\<close>

definition hd_transition_stop :: "client_id \<Rightarrow> world \<Rightarrow> world" where
  "hd_transition_stop c w =
     (case effect (clients w c) of
        None \<Rightarrow> w
      | Some d \<Rightarrow>
         (case effects w d of
            None \<Rightarrow> hd_transition_completed None d w
          | Some data \<Rightarrow>
             (let nf = clutter_timeline_get_n_frames w (timeline data)
              in steps [
                   clutter_timeline_stop (timeline data),
                   emit_new_frame (timeline data) nf,
                   hd_transition_completed (timeline data) d] w)))"

section \<open>The rotation state machine\<close>

text \<open>
  \<open>with_callback\<close> says whether a finished callback is given; the only callback ever given is
  \<open>hd_transition_rotating_fsm\<close>. Size, colour and position of the dimming rectangles
  are left out.
\<close>

definition hd_transition_fade_and_rotate :: "bool \<Rightarrow> bool \<Rightarrow> bool \<Rightarrow> world \<Rightarrow> world" where
  "hd_transition_fade_and_rotate first_part goto_portrait with_callback w =
     (let d = next_effect w;
          ev = (if first_part then MBWMCompMgrClientEventMap else MBWMCompMgrClientEventUnmap);
          a = hd_transition_get_double w ''rotate'' ''angle'' 40;
          data = \<lparr>event = ev, timeline = Some d, cclient = None, cclient_actor = None,
            cclient2 = None, cclient2_actor = None, hmgr = False, geo = no_geometry,
            angle = (if first_part = goto_portrait then a * (- 1) else a),
            particles = Some (ParticleActor d 0) #
              (if \<not> goto_portrait \<and> first_part then [Some (ParticleActor d 1)] else [])\<rparr>
      in steps [
           g_new0,
           timeline_connected d (hd_transition_timeline_new w ''rotate'' ev 300)
             on_rotate_screen_timeline_new_frame d with_callback,
           store_effect d data,
           actor_created (ParticleActor d 0),
           g_object_ref (Some (ParticleActor d 0)),
           clutter_container_add_actor StageActor (Some (ParticleActor d 0)),
           clutter_actor_show (Some (ParticleActor d 0)),
           (if \<not> goto_portrait \<and> first_part then steps [
              actor_created (ParticleActor d 1),
              g_object_ref (Some (ParticleActor d 1)),
              clutter_container_add_actor HdRenderManagerActor (Some (ParticleActor d 1)),
              clutter_actor_show (Some (ParticleActor d 1))]
            else skip),
           new_frame on_rotate_screen_timeline_new_frame d 0 d,
           clutter_timeline_start d] w)"

text \<open>
  The pieces of \<open>hd_transition_rotating_fsm\<close> that do not call it again.
\<close>

definition fsm_enter :: "world \<Rightarrow> world" where
  "fsm_enter w =
     upd_oc (\<lambda>oc. oc\<lparr>timeout_id := 0, timer := None\<rparr>)
       (call_out (Fsm_debug (phase (Orientation_change w))
          (new_direction (Orientation_change w)) (direction (Orientation_change w))) w)"

definition fsm_case_IDLE :: "world \<Rightarrow> world" where
  "fsm_case_IDLE w =
     (let w1 = upd_oc (\<lambda>oc. oc\<lparr>phase := FADE_OUT, direction := new_direction oc\<rparr>) w
      in hd_transition_fade_and_rotate True
           (direction (Orientation_change w1) = GOTO_PORTRAIT) True w1)"

definition fsm_change_state :: "world \<Rightarrow> world" where
  "fsm_change_state w =
     (let state = goto_state (Orientation_change w);
          change_state =
            (if new_direction (Orientation_change w) = GOTO_PORTRAIT
             then STATE_IS_PORTRAIT (cfg w) state \<or> STATE_IS_PORTRAIT_CAPABLE (cfg w) state
             else \<not> STATE_IS_PORTRAIT (cfg w) state \<and> state \<noteq> HDRM_STATE_UNDEFINED)
      in if change_state
         then call_out (Render_manager_set_state state)
                (upd_oc (\<lambda>oc. oc\<lparr>goto_state := HDRM_STATE_UNDEFINED\<rparr>) w)
         else w)"

text \<open>
  The loop over \<open>Orientation_change.effects_waiting\<close>: complete the first, move on to
  the next.
\<close>

primrec complete_effects_waiting :: "effect_id list \<Rightarrow> world \<Rightarrow> world" where
  "complete_effects_waiting [] w = w"
| "complete_effects_waiting (d # ds) w =
     complete_effects_waiting ds
       (upd_oc (\<lambda>oc. oc\<lparr>effects_waiting := ds\<rparr>) (hd_transition_completed None d w))"

definition fsm_complete_waiting :: "world \<Rightarrow> world" where
  "fsm_complete_waiting w =
     upd_oc (\<lambda>oc. oc\<lparr>effects_waiting := []\<rparr>)
       (complete_effects_waiting (effects_waiting (Orientation_change w)) w)"

definition fsm_start_WAITING :: "real \<Rightarrow> world \<Rightarrow> world" where
  "fsm_start_WAITING now w =
     steps [
       upd_oc (\<lambda>oc. oc\<lparr>phase := WAITING\<rparr>),
       clutter_actor_hide (Some HdRenderManagerActor),
       call_out (Change_screen_orientation
         (direction (Orientation_change w) = GOTO_PORTRAIT)),
       g_timeout_add now
         (c_double_to_guint (hd_transition_get_double w ''rotate'' ''damage_timeout'' 50)),
       upd_oc (\<lambda>oc. oc\<lparr>timer := Some now\<rparr>)] w"

definition fsm_fade_back_in :: "world \<Rightarrow> world" where
  "fsm_fade_back_in w =
     steps [
       upd_oc (\<lambda>oc. oc\<lparr>phase := FADE_IN\<rparr>),
       clutter_actor_show (Some HdRenderManagerActor),
       hd_transition_fade_and_rotate False
         (direction (Orientation_change w) = GOTO_PORTRAIT) True,
       call_out Render_manager_restack] w"

definition fsm_divert :: "world \<Rightarrow> world" where
  "fsm_divert = upd_oc (\<lambda>oc. oc\<lparr>direction := new_direction oc, phase := FADE_OUT\<rparr>)"

definition fsm_rank :: "world \<Rightarrow> nat" where
  "fsm_rank w =
     (case phase (Orientation_change w) of
        IDLE \<Rightarrow> 0 | FADE_OUT \<Rightarrow> 0 | WAITING \<Rightarrow> 1 | FADE_IN \<Rightarrow> 1)"

text \<open>
  \<open>hd_transition_rotating_fsm\<close> at time \<open>now\<close> (read by \<^verbatim>\<open>g_timeout_add\<close> and
  \<^verbatim>\<open>g_timer_new\<close>). Case \<^verbatim>\<open>FADE_OUT\<close> falls through into the code of case
  \<^verbatim>\<open>WAITING\<close> after setting \<open>direction\<close>; that code is written out there again.
\<close>

function hd_transition_rotating_fsm :: "real \<Rightarrow> world \<Rightarrow> world" where
  "hd_transition_rotating_fsm now w0 =
     (let w = fsm_enter w0
      in case phase (Orientation_change w) of
           IDLE \<Rightarrow> fsm_case_IDLE w
         | FADE_OUT \<Rightarrow>
             (let w1 = fsm_complete_waiting (fsm_change_state w)
              in if direction (Orientation_change w1) = new_direction (Orientation_change w1)
                 then fsm_start_WAITING now w1
                 else
                   (let w2 = upd_oc (\<lambda>oc. oc\<lparr>direction := new_direction oc\<rparr>) w1
                    in if direction (Orientation_change w2) = new_direction (Orientation_change w2)
                       then fsm_fade_back_in w2
                       else hd_transition_rotating_fsm now (fsm_divert w2)))
         | WAITING \<Rightarrow>
             (if direction (Orientation_change w) = new_direction (Orientation_change w)
              then fsm_fade_back_in w
              else hd_transition_rotating_fsm now (fsm_divert w))
         | FADE_IN \<Rightarrow>
             (let w1 = upd_oc (\<lambda>oc. oc\<lparr>phase := IDLE\<rparr>) w
              in if direction (Orientation_change w1) \<noteq> new_direction (Orientation_change w1)
                 then hd_transition_rotating_fsm now w1
                 else w1))"
  by pat_completeness auto
termination
  by (relation "measure (\<lambda>(now, w). fsm_rank w)")
    (auto simp add: fsm_rank_def fsm_enter_def fsm_divert_def upd_oc_def call_out_def)

declare hd_transition_rotating_fsm.simps [simp del]

text \<open>
  \<open>is_portrait\<close> is what \<^verbatim>\<open>hd_comp_mgr_is_portrait()\<close> returns, \<open>wm_ptr\<close> the
  window manager pointer of the call.
\<close>

definition hd_transition_rotate_screen :: "real \<Rightarrow> bool \<Rightarrow> nat \<Rightarrow> bool \<Rightarrow> world \<Rightarrow> bool \<times> world" where
  "hd_transition_rotate_screen now is_portrait wm_ptr goto_portrait w0 =
     (let w = upd_oc (\<lambda>oc. oc\<lparr>wm := wm_ptr,
                new_direction := (if goto_portrait then GOTO_PORTRAIT else GOTO_LANDSCAPE)\<rparr>) w0
      in if phase (Orientation_change w) = IDLE
         then (if goto_portrait = is_portrait then (False, w)
               else (True, hd_transition_rotating_fsm now w))
         else (True, w))"

definition hd_transition_rotate_screen_and_change_state :: "HDRMStateEnum \<Rightarrow> world \<Rightarrow> world" where
  "hd_transition_rotate_screen_and_change_state state = upd_oc (\<lambda>oc. oc\<lparr>goto_state := state\<rparr>)"

definition hd_transition_rotate_ignore_damage :: "real \<Rightarrow> world \<Rightarrow> bool \<times> world" where
  "hd_transition_rotate_ignore_damage now w =
     (if phase (Orientation_change w) = WAITING
      then (True,
        if g_timer_elapsed now (timer (Orientation_change w))
             < hd_transition_get_double w ''rotate'' ''damage_timeout_max'' 1000 / 1000
        then steps [
               (if timeout_id (Orientation_change w) \<noteq> 0
                then g_source_remove (timeout_id (Orientation_change w)) else skip),
               g_timeout_add now
                 (c_double_to_guint
                    (hd_transition_get_double w ''rotate'' ''damage_timeout'' 50))] w
        else w)
      else (False, w))"

section \<open>The main loop\<close>

text \<open>
  What clutter and GLib do with the timelines and timeout sources this file creates.
  A running timeline emits "new-frame" for the frames it reaches; on reaching its end
  it stops, emits "new-frame" with its last frame number and then "completed", whose
  handlers run in the order they were connected: \<open>hd_transition_completed\<close>, then the
  finished callback. A timeout source whose deadline has passed runs
  \<open>hd_transition_rotating_fsm\<close> and is destroyed, as the callback returns \<^verbatim>\<open>FALSE\<close>.
\<close>

definition timeline_new_frame :: "timeline_id \<Rightarrow> nat \<Rightarrow> world \<Rightarrow> world" where
  "timeline_new_frame t frame_num w =
     (case timelines w t of
        None \<Rightarrow> w
      | Some tln \<Rightarrow> if running tln \<and> frame_num < n_frames tln
                   then emit_new_frame (Some t) frame_num w else w)"

definition timeline_completed :: "real \<Rightarrow> timeline_id \<Rightarrow> world \<Rightarrow> world" where
  "timeline_completed now t w =
     (case timelines w t of
        None \<Rightarrow> w
      | Some tln \<Rightarrow>
          if running tln
          then steps [
                 upd_timeline (Some t) (\<lambda>r. r\<lparr>running := False\<rparr>),
                 emit_new_frame (Some t) (n_frames tln),
                 hd_transition_completed (Some t) (handler_data tln),
                 (if finished_callback tln then hd_transition_rotating_fsm now else skip)] w
          else w)"

definition timeout_dispatch :: "real \<Rightarrow> nat \<Rightarrow> world \<Rightarrow> world" where
  "timeout_dispatch now sid w =
     (case timeout_sources w sid of
        None \<Rightarrow> w
      | Some deadline \<Rightarrow>
          if now < deadline then w
          else g_source_remove sid (hd_transition_rotating_fsm now w))"

section \<open>Runs of the module\<close>

text \<open>
  The state at start-up: no effect, no timeline, no timeout source, the static
  \<open>Orientation_change\<close> zero-initialised, no client with an \<^verbatim>\<open>effect\<close> pointer.
\<close>

definition Orientation_change_initial :: orientation_change_t where
  "Orientation_change_initial =
     \<lparr>wm = 0, direction = GOTO_LANDSCAPE, new_direction = GOTO_LANDSCAPE, phase = IDLE,
      goto_state = HDRM_STATE_UNDEFINED, timeout_id = 0, timer = None, effects_waiting = []\<rparr>"

definition initial_world ::
  "config \<Rightarrow> (client_id \<Rightarrow> HdCompMgrClient) \<Rightarrow> (actor_id \<Rightarrow> ClutterActor) \<Rightarrow> world" where
  "initial_world cf cs acs =
     \<lparr>clients = (\<lambda>c. (cs c)\<lparr>effect := None\<rparr>), actors = acs,
      effects = (\<lambda>d. None), next_effect = 0, timelines = (\<lambda>t. None),
      Orientation_change = Orientation_change_initial,
      timeout_sources = (\<lambda>s. None), source_count = 0, effects_running = 0,
      cfg = cf, trace = []\<rparr>"

datatype happening =
    Popup client_id MBWMCompMgrClientEvent
  | Fade client_id MBWMCompMgrClientEvent
  | Close_app HDRMStateEnum "bool list" client_id
  | Close_app_before_rotate HDRMStateEnum client_id
  | Notification client_id MBWMCompMgrClientEvent
  | Subview HDRMStateEnum "client_id option" "client_id option" MBWMCompMgrClientEvent
  | Stop client_id
  | Timeline_frame timeline_id nat
  | Timeline_end real timeline_id
  | Rotate_screen real bool nat bool
  | Change_state HDRMStateEnum
  | Damage real
  | Timeout real nat

fun happen :: "happening \<Rightarrow> world \<Rightarrow> world" where
  "happen (Popup c ev) w = hd_transition_popup c ev w"
| "happen (Fade c ev) w = hd_transition_fade c ev w"
| "happen (Close_app state textures c) w = hd_transition_close_app state textures c w"
| "happen (Close_app_before_rotate state c) w = hd_transition_close_app_before_rotate state c w"
| "happen (Notification c ev) w = hd_transition_notification c ev w"
| "happen (Subview state sv mv ev) w = hd_transition_subview state sv mv ev w"
| "happen (Stop c) w = hd_transition_stop c w"
| "happen (Timeline_frame t f) w = timeline_new_frame t f w"
| "happen (Timeline_end now t) w = timeline_completed now t w"
| "happen (Rotate_screen now is_portrait wm_ptr goto_portrait) w =
     snd (hd_transition_rotate_screen now is_portrait wm_ptr goto_portrait w)"
| "happen (Change_state state) w = hd_transition_rotate_screen_and_change_state state w"
| "happen (Damage now) w = snd (hd_transition_rotate_ignore_damage now w)"
| "happen (Timeout now sid) w = timeout_dispatch now sid w"

inductive reachable :: "world \<Rightarrow> bool" where
  start: "reachable (initial_world cf cs acs)"
| step: "reachable w \<Longrightarrow> reachable (happen h w)"

section \<open>Reading the trace\<close>

definition fsm_entries :: "call list \<Rightarrow> (phase_t \<times> direction_t \<times> direction_t) list" where
  "fsm_entries cs =
     List.map_filter (\<lambda>e. case e of Fsm_debug p nd dr \<Rightarrow> Some (p, nd, dr) | _ \<Rightarrow> None) cs"

definition orientation_changes :: "call list \<Rightarrow> bool list" where
  "orientation_changes cs =
     List.map_filter (\<lambda>e. case e of Change_screen_orientation b \<Rightarrow> Some b | _ \<Rightarrow> None) cs"

definition particle_unrefs :: "actor_id option list \<Rightarrow> call list" where
  "particle_unrefs ps =
     concat (map (\<lambda>p. case p of None \<Rightarrow> [] | Some a \<Rightarrow> [Particle_unref a]) ps)"

text \<open>
  The calls one run of \<open>hd_transition_completed\<close> on \<open>d\<close> adds to the trace.
\<close>

definition completed_calls :: "world \<Rightarrow> effect_id \<Rightarrow> call list" where
  "completed_calls w d =
     Completed d #
     (case effects w d of
        None \<Rightarrow> []
      | Some data \<Rightarrow> (if hmgr data then [Set_effect_running d False] else [])
          @ particle_unrefs (particles data))"

section \<open>Damage while waiting\<close>

text \<open>
  A series of damage queries at the given times, and what it means that the machine is
  waiting since \<open>t0\<close> with its debounce timeout armed for a deadline no later than
  \<open>bound\<close>.
\<close>

definition damage_queries :: "real list \<Rightarrow> world \<Rightarrow> world" where
  "damage_queries ts w = fold (\<lambda>t v. snd (hd_transition_rotate_ignore_damage t v)) ts w"

definition waiting_armed :: "real \<Rightarrow> real \<Rightarrow> world \<Rightarrow> bool" where
  "waiting_armed t0 bound w =
     (phase (Orientation_change w) = WAITING \<and> timer (Orientation_change w) = Some t0
      \<and> 0 < timeout_id (Orientation_change w)
      \<and> timeout_id (Orientation_change w) \<le> source_count w
      \<and> (case timeout_sources w (timeout_id (Orientation_change w)) of
            None \<Rightarrow> False | Some deadline \<Rightarrow> deadline \<le> bound))"

definition damage_timeout_max :: "world \<Rightarrow> real" where
  "damage_timeout_max w = hd_transition_get_double w ''rotate'' ''damage_timeout_max'' 1000 / 1000"

definition damage_timeout :: "world \<Rightarrow> real" where
  "damage_timeout w =
     real (c_double_to_guint (hd_transition_get_double w ''rotate'' ''damage_timeout'' 50)) / 1000"

section \<open>The invariant of the effect heap\<close>

text \<open>
  The teardowns, the releases of decoration actors and the decrements of the counter that
  a trace holds, in order.
\<close>

definition completed_log :: "call list \<Rightarrow> effect_id list" where
  "completed_log cs =
     List.map_filter (\<lambda>e. case e of Completed d \<Rightarrow> Some d | _ \<Rightarrow> None) cs"

definition unref_log :: "call list \<Rightarrow> actor_id list" where
  "unref_log cs =
     List.map_filter (\<lambda>e. case e of Particle_unref a \<Rightarrow> Some a | _ \<Rightarrow> None) cs"

definition decrement_log :: "call list \<Rightarrow> effect_id list" where
  "decrement_log cs =
     List.map_filter (\<lambda>e. case e of Set_effect_running d b \<Rightarrow> (if b then None else Some d)
                          | _ \<Rightarrow> None) cs"

text \<open>
  A decoration actor in slot \<open>i\<close> of record \<open>d\<close> is the one created for that slot.
\<close>

definition own_particles :: "effect_id \<Rightarrow> actor_id option list \<Rightarrow> bool" where
  "own_particles d ps =
     (\<forall>i < length ps. ps ! i = None \<or> ps ! i = Some (ParticleActor d i))"

text \<open>
  Records and timelines carry numbers that have been allocated; a record's timeline is
  its own or none; a timeline's handlers get the record it was created for.
\<close>

definition heap_ok :: "world \<Rightarrow> bool" where
  "heap_ok w =
     ((\<forall>d data. effects w d = Some data \<longrightarrow>
          d < next_effect w
          \<and> (timeline data = Some d \<or> timeline data = None \<and> timelines w d = None)
          \<and> own_particles d (particles data))
      \<and> (\<forall>t r. timelines w t = Some r \<longrightarrow> t < next_effect w \<and> handler_data r = t))"

text \<open>
  An \<^verbatim>\<open>effect\<close> pointer of a client points to a record in the heap that names the
  client as \<^verbatim>\<open>cclient\<close> or \<^verbatim>\<open>cclient2\<close> and has a timeline with the subview handlers.
\<close>

definition pointers_ok :: "world \<Rightarrow> bool" where
  "pointers_ok w =
     (\<forall>c d. effect (clients w c) = Some d \<longrightarrow>
        (\<exists>data r. effects w d = Some data
           \<and> (cclient data = Some c \<or> cclient2 data = Some c)
           \<and> timeline data = Some d \<and> timelines w d = Some r
           \<and> new_frame_handler r = on_subview_timeline_new_frame
           \<and> \<not> finished_callback r))"

text \<open>
  A running timeline belongs to a record in the heap.
\<close>

definition running_ok :: "world \<Rightarrow> bool" where
  "running_ok w =
     (\<forall>t r. timelines w t = Some r \<and> running r \<longrightarrow>
        (\<exists>data. effects w t = Some data \<and> timeline data = Some t))"

text \<open>
  The waiting effects are different records in the heap, without a timeline.
\<close>

definition waiting_ok :: "world \<Rightarrow> bool" where
  "waiting_ok w =
     (distinct (effects_waiting (Orientation_change w))
      \<and> (\<forall>d \<in> set (effects_waiting (Orientation_change w)).
            \<exists>data. effects w d = Some data \<and> timeline data = None))"

text \<open>
  Every record torn down is gone from the heap and was torn down once; every decoration
  actor released belongs to a record torn down and was released once; the counter was
  decremented once at most for a record, in its teardown.
\<close>

definition log_ok :: "world \<Rightarrow> bool" where
  "log_ok w =
     ((\<forall>d \<in> set (completed_log (trace w)). effects w d = None \<and> d < next_effect w)
      \<and> distinct (completed_log (trace w))
      \<and> (\<forall>a \<in> set (unref_log (trace w)).
            \<exists>d i. a = ParticleActor d i \<and> d \<in> set (completed_log (trace w)))
      \<and> distinct (unref_log (trace w))
      \<and> distinct (decrement_log (trace w))
      \<and> set (decrement_log (trace w)) \<subseteq> set (completed_log (trace w)))"

definition invariant :: "world \<Rightarrow> bool" where
  "invariant w = (heap_ok w \<and> pointers_ok w \<and> running_ok w \<and> waiting_ok w \<and> log_ok w)"

text \<open>
  What the eight fields and logs the invariant reads look like after a new record has
  been allocated by one of the operations that start an effect.
\<close>

definition allocated :: "world \<Rightarrow> world \<Rightarrow> bool" where
  "allocated w w' =
     (\<exists>data.
        next_effect w' = Suc (next_effect w)
        \<and> effects w' = (effects w)(next_effect w := Some data)
        \<and> own_particles (next_effect w) (particles data)
        \<and> (timeline data = None \<and> timelines w' = timelines w
            \<or> timeline data = Some (next_effect w)
              \<and> (\<exists>r. timelines w' = (timelines w)(next_effect w := Some r)
                     \<and> handler_data r = next_effect w
                     \<and> (new_frame_handler r = on_subview_timeline_new_frame
                          \<and> \<not> finished_callback r
                        \<or> (\<forall>c. effect (clients w' c) = effect (clients w c)))))
        \<and> (\<forall>c. effect (clients w' c) = effect (clients w c)
               \<or> effect (clients w' c) = Some (next_effect w)
                 \<and> (cclient data = Some c \<or> cclient2 data = Some c)
                 \<and> timeline data = Some (next_effect w))
        \<and> (effects_waiting (Orientation_change w') = effects_waiting (Orientation_change w)
            \<or> timeline data = None
              \<and> effects_waiting (Orientation_change w') =
                  effects_waiting (Orientation_change w) @ [next_effect w])
        \<and> completed_log (trace w') = completed_log (trace w)
        \<and> unref_log (trace w') = unref_log (trace w)
        \<and> decrement_log (trace w') = decrement_log (trace w))"

section \<open>A configuration for examples\<close>

definition demo_config :: config where
  "demo_config =
     \<lparr>ini_int = (\<lambda>k. None), ini_double = (\<lambda>k. None), frame_rate = 60, screen_width = 800,
      STATE_IS_PORTRAIT = (\<lambda>s. s = HDRM_STATE_other 1),
      STATE_IS_PORTRAIT_CAPABLE = (\<lambda>s. s = HDRM_STATE_other 0),
      STATE_IS_APP = (\<lambda>s. s = HDRM_STATE_other 0 \<or> s = HDRM_STATE_other 1)\<rparr>"

definition demo_client :: "client_id \<Rightarrow> HdCompMgrClient" where
  "demo_client c =
     \<lparr>flags = {}, effect = None, client_actor = Some (ClientActor c), client_refs = 1,
      has_cm_client = True, client_type = MBWMClientTypeApp, stack_index = 0,
      is_leader = True\<rparr>"

definition demo_actor :: "actor_id \<Rightarrow> ClutterActor" where
  "demo_actor a =
     \<lparr>anchor_x = 0, anchor_y = 0, opacity = 255, scale_x = 1, scale_y = 1, visible = True,
      parent = None, geometry = \<lparr>geo_x = 0, geo_y = 0, geo_width = 800, geo_height = 480\<rparr>,
      ref_count = 1\<rparr>"

definition demo_world :: world where
  "demo_world = initial_world demo_config demo_client demo_actor"

text \<open>
  A run for examples: portrait is requested at start-up, the fade-out ends, the debounce
  timeout fires, and while the machine fades in, landscape is requested.
\<close>

definition fading_in_world :: world where
  "fading_in_world =
     snd (hd_transition_rotate_screen 3 True 0 False
       (timeout_dispatch 2 1
         (timeline_completed 1 0
           (snd (hd_transition_rotate_screen 0 False 0 True demo_world)))))"

text \<open>
  A run for examples: portrait is requested at start-up and the fade-out has ended at
  time 1, so the machine waits since then.
\<close>

definition waiting_world :: world where
  "waiting_world =
     timeline_completed 1 0 (snd (hd_transition_rotate_screen 0 False 0 True demo_world))"

text \<open>
  A run for examples: as before, and while the machine waits, landscape is requested at
  time 2.
\<close>

definition redirected_waiting_world :: world where
  "redirected_waiting_world =
     snd (hd_transition_rotate_screen 2 True 0 False waiting_world)"

text \<open>
  The rotation angle as the specification words it: negated exactly when
  (phase is fade-out) = (direction is portrait) is false.
\<close>

definition spec_rotation_angle :: "real \<Rightarrow> bool \<Rightarrow> bool \<Rightarrow> real" where
  "spec_rotation_angle a phase_is_fade_out direction_is_portrait =
     (if \<not> (phase_is_fade_out = direction_is_portrait) then a * (- 1) else a)"

section \<open>Theorems: easing functions\<close>

text \<open>Rounding to binary32.\<close>

lemma round_half_even_of_int [simp]: "round_half_even (of_int n) = n"
  by (simp add: round_half_even_def)

lemma round_half_even_numeral [simp]: "round_half_even (numeral n) = numeral n"
  using round_half_even_of_int [of "numeral n"] by simp

lemma round_half_even_error: "\<bar>of_int (round_half_even y) - y\<bar> \<le> 1 / 2"
proof -
  have "of_int \<lfloor>y\<rfloor> \<le> y" "y < of_int \<lfloor>y\<rfloor> + 1" by linarith+
  then show ?thesis unfolding round_half_even_def by (simp add: abs_le_iff)
qed

lemma round_half_even_up:
  assumes "of_int n - 1 / 2 < y" "y \<le> of_int n"
  shows "round_half_even y = n"
proof (cases "y = of_int n")
  case True
  then show ?thesis by simp
next
  case False
  with assms have "\<lfloor>y\<rfloor> = n - 1" by linarith
  then show ?thesis using assms by (simp add: round_half_even_def)
qed

lemma c_float_0 [simp]: "c_float 0 = 0"
  by (simp add: c_float_def)

lemma c_float_binade:
  assumes "2 powr of_int k \<le> \<bar>v\<bar>" "\<bar>v\<bar> < 2 powr of_int (k + 1)" "- 126 \<le> k"
  shows "c_float v = of_int (round_half_even (v / 2 powr of_int (k - 23))) * 2 powr of_int (k - 23)"
proof -
  have pos: "0 < \<bar>v\<bar>" using assms(1) by (smt (verit) powr_gt_zero)
  have "\<lfloor>log 2 \<bar>v\<bar>\<rfloor> = k"
    using assms by (subst floor_log_eq_powr_iff [OF pos]) simp_all
  then show ?thesis using pos assms(3) by (simp add: c_float_def Let_def max_def)
qed

lemma c_float_1 [simp]: "c_float 1 = 1"
  using c_float_binade [of 0 1] by (simp add: powr_neg_numeral)

lemma c_float_half [simp]: "c_float (1 / 2) = 1 / 2"
  using c_float_binade [of "-1" "1 / 2"] by (simp add: powr_neg_numeral)

text \<open>Values just below 1 round to 1.\<close>

lemma c_float_near_one:
  assumes "1 - 1 / 2 ^ 25 < v" "v \<le> 1"
  shows "c_float v = 1"
proof (cases "v = 1")
  case True
  then show ?thesis by simp
next
  case False
  with assms have v: "1 / 2 \<le> v" "v < 1" by simp_all
  have b: "c_float v = of_int (round_half_even (v / 2 powr of_int (- 1 - 23))) * 2 powr of_int (- 1 - 23)"
    using v by (intro c_float_binade) (simp_all add: powr_neg_numeral)
  have p: "(2::real) powr of_int (- 1 - 23) = 1 / 2 ^ 24" by (simp add: powr_neg_numeral)
  have "round_half_even (v * 2 ^ 24) = 2 ^ 24"
    using assms v by (intro round_half_even_up) (simp_all add: field_simps)
  then show ?thesis unfolding b p by simp
qed

text \<open>The relative error of rounding a value in the normal range.\<close>

lemma c_float_error:
  assumes "2 powr (- 126) \<le> \<bar>v\<bar>"
  shows "\<bar>c_float v - v\<bar> \<le> \<bar>v\<bar> / 2 ^ 24"
proof -
  have pos: "0 < \<bar>v\<bar>" using assms by (smt (verit) powr_gt_zero)
  define e where "e = \<lfloor>log 2 \<bar>v\<bar>\<rfloor>"
  have e: "2 powr of_int e \<le> \<bar>v\<bar>" "\<bar>v\<bar> < 2 powr of_int (e + 1)"
    using floor_log_eq_powr_iff [OF pos, of 2 e] by (simp_all add: e_def)
  have "2 powr of_int (- 126) \<le> \<bar>v\<bar>" using assms by simp
  then have "2 powr of_int (- 126) < (2::real) powr of_int (e + 1)" using e(2) by linarith
  then have ge: "- 126 \<le> e" by simp
  define ulp :: real where "ulp = 2 powr of_int (e - 23)"
  have ulp: "0 < ulp" by (simp add: ulp_def)
  have c: "c_float v = of_int (round_half_even (v / ulp)) * ulp"
    unfolding ulp_def by (rule c_float_binade [OF e ge])
  have "c_float v - v = (of_int (round_half_even (v / ulp)) - v / ulp) * ulp"
    unfolding c using ulp by (simp add: left_diff_distrib)
  then have "\<bar>c_float v - v\<bar> = \<bar>of_int (round_half_even (v / ulp)) - v / ulp\<bar> * ulp"
    using ulp by (simp add: abs_mult)
  also have "\<dots> \<le> 1 / 2 * ulp"
    using round_half_even_error [of "v / ulp"] ulp by (intro mult_right_mono) simp_all
  also have "1 / 2 * ulp = 2 powr of_int e / 2 ^ 24"
    unfolding ulp_def by (simp add: powr_diff)
  also have "\<dots> \<le> \<bar>v\<bar> / 2 ^ 24" using e(1) by (simp add: divide_right_mono)
  finally show ?thesis .
qed


text \<open>
  Sines and cosines at the multiples of the literal \<^verbatim>\<open>3.141592\<close> that the proofs need,
  from their Maclaurin polynomials.
\<close>


lemma sum_4: "(\<Sum>m<4. f m) = f 0 + f 1 + f 2 + f (3 :: nat)" for f :: "nat \<Rightarrow> real"
  by (simp add: eval_nat_numeral)

lemma sum_14:
  "(\<Sum>m<14. f m) = f 0 + f 1 + f 2 + f 3 + f 4 + f 5 + f 6 + f 7 + f 8 + f 9 + f 10
      + f 11 + f 12 + f (13 :: nat)" for f :: "nat \<Rightarrow> real"
  by (simp add: eval_nat_numeral)

lemma sin_sum_4: "(\<Sum>m<4. sin_coeff m * x ^ m) = x - x ^ 3 / 6"
  unfolding sum_4 by (simp add: sin_coeff_def fact_numeral)

lemma sin_sum_14:
  "(\<Sum>m<14. sin_coeff m * x ^ m) =
     x - x ^ 3 / 6 + x ^ 5 / 120 - x ^ 7 / 5040 + x ^ 9 / 362880 - x ^ 11 / 39916800
       + x ^ 13 / 6227020800"
  unfolding sum_14 by (simp add: sin_coeff_def fact_numeral)

lemma sin_quarter_bounds:
  "3 / 5 \<le> sin (0.785398 :: real)" "sin (0.785398 :: real) \<le> 4 / 5"
proof -
  define s where "s = sin (0.785398 :: real)"
  have "\<bar>s - (\<Sum>m<4. sin_coeff m * 0.785398 ^ m)\<bar> \<le> inverse (fact 4) * \<bar>0.785398\<bar> ^ 4"
    unfolding s_def by (rule Maclaurin_sin_bound)
  then have "(0.785398 - 0.785398 ^ 3 / 6) - inverse (fact 4) * \<bar>0.785398\<bar> ^ 4 \<le> s"
    unfolding sin_sum_4 by linarith
  moreover have "(3 / 5 :: real) \<le> (0.785398 - 0.785398 ^ 3 / 6) - inverse (fact 4) * \<bar>0.785398\<bar> ^ 4"
    by (simp add: fact_numeral power_divide)
  ultimately show "3 / 5 \<le> sin (0.785398 :: real)" unfolding s_def by linarith
  have "sin (0.785398 :: real) \<le> 0.785398" by (rule sin_x_le_x) simp
  then show "sin (0.785398 :: real) \<le> 4 / 5" by simp
qed

lemma sin_half_literal_near_one: "1 - 1 / 2 ^ 25 < sin (1.570796 :: real)"
proof -
  define s where "s = sin (1.570796 :: real)"
  define x :: real where "x = 1.570796"
  define P where "P = x - x ^ 3 / 6 + x ^ 5 / 120 - x ^ 7 / 5040 + x ^ 9 / 362880
       - x ^ 11 / 39916800 + x ^ 13 / 6227020800"
  define E where "E = inverse (fact 14) * \<bar>x\<bar> ^ 14"
  have "\<bar>s - (\<Sum>m<14. sin_coeff m * x ^ m)\<bar> \<le> E"
    unfolding s_def x_def E_def by (rule Maclaurin_sin_bound)
  then have "P - E \<le> s" unfolding sin_sum_14 P_def by linarith
  moreover have "1 - 1 / 2 ^ 25 < P - E"
    unfolding P_def E_def x_def by (simp add: fact_numeral power_divide)
  ultimately show ?thesis unfolding s_def by linarith
qed

lemma cos_half_literal_small: "\<bar>cos (1.570796 :: real)\<bar> \<le> 1 / 10"
proof -
  define s where "s = sin (1.570796 :: real)"
  define c where "c = cos (1.570796 :: real)"
  have sc: "c\<^sup>2 = 1 - s\<^sup>2"
    using sin_cos_squared_add [of "1.570796 :: real"] unfolding s_def c_def by linarith
  have "999 / 1000 \<le> s" using sin_half_literal_near_one unfolding s_def by simp
  then have "(999 / 1000)\<^sup>2 \<le> s\<^sup>2" by (intro power_mono) simp_all
  then have "c\<^sup>2 \<le> (1 / 10)\<^sup>2" unfolding sc by (simp add: power2_eq_square)
  then have "\<bar>c\<bar> \<le> \<bar>1 / 10 :: real\<bar>" by (simp only: abs_le_square_iff)
  then show ?thesis unfolding c_def by simp
qed


text \<open>\<open>hd_transition_overshoot\<close> at the integers and at 3/2.\<close>


lemma c_int_cast_of_int:
  "- (2 ^ 31) \<le> z \<Longrightarrow> z < 2 ^ 31 \<Longrightarrow> c_int_cast (of_int z) = z"
  by (simp add: c_int_cast_def)

lemma c_int_cast_three_halves: "c_int_cast (3 / 2) = 1"
proof -
  have "\<lfloor>3 / 2 :: real\<rfloor> = 1" by linarith
  then show ?thesis by (simp add: c_int_cast_def)
qed

lemma overshoot_of_int:
  assumes "- (2 ^ 31) \<le> z" "z < 2 ^ 31" "c_float (of_int z) = of_int z"
  shows "hd_transition_overshoot (of_int z) = of_int z"
proof -
  have "sin (0.5 * 3.141592 :: real) = sin 1.570796" by simp
  then have "c_float (sin (0.5 * 3.141592)) = 1"
    using sin_half_literal_near_one by (simp only: c_float_near_one sin_le_one)
  then show ?thesis
    using assms by (simp add: hd_transition_overshoot_def c_int_cast_of_int Let_def)
qed

lemma c_float_close:
  assumes "1 / 8 \<le> v" "v \<le> 4"
  shows "v - 1 / 2 ^ 22 \<le> c_float v" "c_float v \<le> v + 1 / 2 ^ 22"
proof -
  have "(2 :: real) powr (- 126) \<le> 1 / 8" by (simp add: powr_neg_numeral)
  then have "2 powr (- 126) \<le> \<bar>v\<bar>" using assms by linarith
  then have "\<bar>c_float v - v\<bar> \<le> \<bar>v\<bar> / 2 ^ 24" by (rule c_float_error)
  moreover have "\<bar>v\<bar> / 2 ^ 24 \<le> 1 / 2 ^ 22" using assms by simp
  ultimately show "v - 1 / 2 ^ 22 \<le> c_float v" "c_float v \<le> v + 1 / 2 ^ 22" by linarith+
qed

lemma overshoot_three_halves_above: "3 / 2 < hd_transition_overshoot (3 / 2)"
proof -
  define s where "s = c_float (1 - cos (1.570796 :: real))"
  define c where "c = c_float (sin (0.785398 :: real))"
  define u where "u = c_float (1 - c)"
  have unfolded: "hd_transition_overshoot (3 / 2) = c_float (1 + s * 0.675 * c + u)"
    by (simp add: hd_transition_overshoot_def c_int_cast_three_halves Let_def s_def c_def u_def)
  have "9 / 10 \<le> 1 - cos (1.570796 :: real)" "1 - cos (1.570796 :: real) \<le> 11 / 10"
    using cos_half_literal_small by linarith+
  then have s: "89 / 100 \<le> s" "s \<le> 12 / 10"
    unfolding s_def
    using c_float_close [of "1 - cos (1.570796 :: real)"] by simp_all
  have c: "59 / 100 \<le> c" "c \<le> 81 / 100"
    unfolding c_def
    using c_float_close [of "sin (0.785398 :: real)"] sin_quarter_bounds by simp_all
  have u: "18 / 100 \<le> u" "u \<le> 42 / 100"
    unfolding u_def
    using c_float_close [of "1 - c"] c by simp_all
  define p where "p = s * c"
  have "(89 / 100) * (59 / 100) \<le> s * c"
    using s c by (intro mult_mono) simp_all
  moreover have "s * c \<le> (12 / 10) * (81 / 100)"
    using s c by (intro mult_mono) simp_all
  ultimately have p: "5251 / 10000 \<le> p" "p \<le> 972 / 1000"
    unfolding p_def by simp_all
  define Y where "Y = 1 + s * 0.675 * c + u"
  have eq: "Y = 1 + 0.675 * p + u" unfolding Y_def p_def by simp
  have y: "153 / 100 \<le> Y" "Y \<le> 4"
    unfolding eq using p u by simp_all
  then have "Y - 1 / 2 ^ 22 \<le> c_float Y"
    by (intro c_float_close) simp_all
  then have "3 / 2 < c_float Y" using y(1) by simp
  then show ?thesis unfolding unfolded Y_def .
qed


text \<open>
  C8 (as stated, refuted): the claim says every easing function returns \<open>x\<close> unmodified
  for every \<open>x\<close> outside the open interval (0,1). \<open>hd_transition_overshoot\<close> has no such
  guard: at \<open>x = 3/2\<close>, outside (0,1), it does not return \<open>3/2\<close>.
\<close>

theorem overshoot_not_identity_outside_unit_interval:
  "\<not> (0 < (3 / 2 :: real) \<and> (3 / 2 :: real) < 1) \<and> hd_transition_overshoot (3 / 2) \<noteq> 3 / 2"
  using overshoot_three_halves_above by simp

text \<open>
  C8 (amended): the three guarded easing functions, \<open>hd_transition_smooth_ramp\<close>,
  \<open>hd_transition_ease_in\<close> and \<open>hd_transition_ease_out\<close>, return their argument unmodified
  for every argument outside the open interval (0,1). \<open>hd_transition_overshoot\<close> returns
  its argument unmodified when it is an integer that an \<^verbatim>\<open>int\<close> holds (and a
  \<^verbatim>\<open>float\<close>, as every argument of the C function is), so at the boundary frames 0
  and 1: there the fraction is 0, \<^verbatim>\<open>smooth_ramp\<close> is 0 and \<^verbatim>\<open>converge\<close>, the sine of
  half of \<^verbatim>\<open>3.141592\<close>, is rounded to 1 when stored in a \<^verbatim>\<open>float\<close>. All four
  functions are pure HOL functions of their argument, as the C functions read and write
  nothing but their parameter and locals.
\<close>

theorem easing_identity_outside_unit_interval:
  "(\<not> (0 < v \<and> v < 1) \<longrightarrow>
      hd_transition_smooth_ramp v = v \<and> hd_transition_ease_in v = v
      \<and> hd_transition_ease_out v = v)
   \<and> (- (2 ^ 31) \<le> z \<and> z < 2 ^ 31 \<and> c_float (of_int z) = of_int z \<longrightarrow>
      hd_transition_overshoot (of_int z) = of_int z)"
  using overshoot_of_int [of z]
  by (auto simp add: hd_transition_smooth_ramp_def hd_transition_ease_in_def
      hd_transition_ease_out_def)

theorem easing_identity_witness:
  "\<not> (0 < (1 :: real) \<and> (1 :: real) < 1) \<and> \<not> (0 < (-2 :: real) \<and> (-2 :: real) < 1) \<and>
   hd_transition_smooth_ramp 1 = 1 \<and> hd_transition_ease_in 1 = 1 \<and> hd_transition_ease_out 1 = 1 \<and>
   hd_transition_smooth_ramp (-2) = -2 \<and> hd_transition_ease_in (-2) = -2 \<and>
   hd_transition_ease_out (-2) = -2 \<and>
   c_float 0 = 0 \<and> c_float 1 = 1 \<and>
   hd_transition_overshoot 0 = 0 \<and> hd_transition_overshoot 1 = 1"
  using easing_identity_outside_unit_interval [of 1 0]
    easing_identity_outside_unit_interval [of "-2" 1]
  by simp

section \<open>Lemmas: how each operation changes the world\<close>

lemma steps_Nil [simp]: "steps [] s = s"
  by (simp add: steps_def)

lemma steps_Cons [simp]: "steps (f # fs) s = steps fs (f s)"
  by (simp add: steps_def)

lemma skip_apply [simp]: "skip s = s"
  by (simp add: skip_def)

lemma if_apply [simp]: "(if b then f else g) s = (if b then f s else g s)"
  by simp

lemma case_option_apply [simp]:
  "(case x of None \<Rightarrow> f | Some y \<Rightarrow> g y) s = (case x of None \<Rightarrow> f s | Some y \<Rightarrow> g y s)"
  by (cases x) simp_all

lemma case_option_same [simp]: "(case x of None \<Rightarrow> a | Some y \<Rightarrow> a) = a"
  by (cases x) simp_all

lemma call_out_proj [simp]:
  "clients (call_out e w) = clients w"
  "actors (call_out e w) = actors w"
  "effects (call_out e w) = effects w"
  "next_effect (call_out e w) = next_effect w"
  "timelines (call_out e w) = timelines w"
  "Orientation_change (call_out e w) = Orientation_change w"
  "timeout_sources (call_out e w) = timeout_sources w"
  "source_count (call_out e w) = source_count w"
  "effects_running (call_out e w) = effects_running w"
  "cfg (call_out e w) = cfg w"
  "trace (call_out e w) = trace w @ [e]"
  by (simp_all add: call_out_def)

lemma upd_client_proj [simp]:
  "clients (upd_client c f w) = (clients w)(c := f (clients w c))"
  "actors (upd_client c f w) = actors w"
  "effects (upd_client c f w) = effects w"
  "next_effect (upd_client c f w) = next_effect w"
  "timelines (upd_client c f w) = timelines w"
  "Orientation_change (upd_client c f w) = Orientation_change w"
  "timeout_sources (upd_client c f w) = timeout_sources w"
  "source_count (upd_client c f w) = source_count w"
  "effects_running (upd_client c f w) = effects_running w"
  "cfg (upd_client c f w) = cfg w"
  "trace (upd_client c f w) = trace w"
  by (simp_all add: upd_client_def)

lemma upd_actor_proj [simp]:
  "clients (upd_actor a f w) = clients w"
  "actors (upd_actor a f w) = (actors w)(a := f (actors w a))"
  "effects (upd_actor a f w) = effects w"
  "next_effect (upd_actor a f w) = next_effect w"
  "timelines (upd_actor a f w) = timelines w"
  "Orientation_change (upd_actor a f w) = Orientation_change w"
  "timeout_sources (upd_actor a f w) = timeout_sources w"
  "source_count (upd_actor a f w) = source_count w"
  "effects_running (upd_actor a f w) = effects_running w"
  "cfg (upd_actor a f w) = cfg w"
  "trace (upd_actor a f w) = trace w"
  by (simp_all add: upd_actor_def)

lemma on_actor_proj [simp]:
  "clients (on_actor ao f w) = clients w"
  "actors (on_actor ao f w) = (case ao of None \<Rightarrow> actors w | Some a \<Rightarrow> (actors w)(a := f (actors w a)))"
  "effects (on_actor ao f w) = effects w"
  "next_effect (on_actor ao f w) = next_effect w"
  "timelines (on_actor ao f w) = timelines w"
  "Orientation_change (on_actor ao f w) = Orientation_change w"
  "timeout_sources (on_actor ao f w) = timeout_sources w"
  "source_count (on_actor ao f w) = source_count w"
  "effects_running (on_actor ao f w) = effects_running w"
  "cfg (on_actor ao f w) = cfg w"
  "trace (on_actor ao f w) = trace w"
  by (simp_all add: on_actor_def upd_actor_def split: option.splits)

lemma upd_oc_proj [simp]:
  "clients (upd_oc f w) = clients w"
  "actors (upd_oc f w) = actors w"
  "effects (upd_oc f w) = effects w"
  "next_effect (upd_oc f w) = next_effect w"
  "timelines (upd_oc f w) = timelines w"
  "Orientation_change (upd_oc f w) = f (Orientation_change w)"
  "timeout_sources (upd_oc f w) = timeout_sources w"
  "source_count (upd_oc f w) = source_count w"
  "effects_running (upd_oc f w) = effects_running w"
  "cfg (upd_oc f w) = cfg w"
  "trace (upd_oc f w) = trace w"
  by (simp_all add: upd_oc_def)

lemma timeline_connected_proj [simp]:
  "clients (timeline_connected t nf h d cb w) = clients w"
  "actors (timeline_connected t nf h d cb w) = actors w"
  "effects (timeline_connected t nf h d cb w) = effects w"
  "next_effect (timeline_connected t nf h d cb w) = next_effect w"
  "timelines (timeline_connected t nf h d cb w) = (timelines w)(t := Some \<lparr>n_frames = nf, running = False, new_frame_handler = h, handler_data = d, finished_callback = cb, timeline_refs = 2\<rparr>)"
  "Orientation_change (timeline_connected t nf h d cb w) = Orientation_change w"
  "timeout_sources (timeline_connected t nf h d cb w) = timeout_sources w"
  "source_count (timeline_connected t nf h d cb w) = source_count w"
  "effects_running (timeline_connected t nf h d cb w) = effects_running w"
  "cfg (timeline_connected t nf h d cb w) = cfg w"
  "trace (timeline_connected t nf h d cb w) = trace w"
  by (simp_all add: timeline_connected_def)

lemma upd_timeline_proj [simp]:
  "clients (upd_timeline t f w) = clients w"
  "actors (upd_timeline t f w) = actors w"
  "effects (upd_timeline t f w) = effects w"
  "next_effect (upd_timeline t f w) = next_effect w"
  "timelines (upd_timeline t f w) = (case t of None \<Rightarrow> timelines w | Some i \<Rightarrow> (case timelines w i of None \<Rightarrow> timelines w | Some r \<Rightarrow> (timelines w)(i := Some (f r))))"
  "Orientation_change (upd_timeline t f w) = Orientation_change w"
  "timeout_sources (upd_timeline t f w) = timeout_sources w"
  "source_count (upd_timeline t f w) = source_count w"
  "effects_running (upd_timeline t f w) = effects_running w"
  "cfg (upd_timeline t f w) = cfg w"
  "trace (upd_timeline t f w) = trace w"
  by (simp_all add: upd_timeline_def split: option.splits)

lemma g_new0_proj [simp]:
  "clients (g_new0 w) = clients w"
  "actors (g_new0 w) = actors w"
  "effects (g_new0 w) = effects w"
  "next_effect (g_new0 w) = Suc (next_effect w)"
  "timelines (g_new0 w) = timelines w"
  "Orientation_change (g_new0 w) = Orientation_change w"
  "timeout_sources (g_new0 w) = timeout_sources w"
  "source_count (g_new0 w) = source_count w"
  "effects_running (g_new0 w) = effects_running w"
  "cfg (g_new0 w) = cfg w"
  "trace (g_new0 w) = trace w"
  by (simp_all add: g_new0_def)

lemma store_effect_proj [simp]:
  "clients (store_effect d data w) = clients w"
  "actors (store_effect d data w) = actors w"
  "effects (store_effect d data w) = (effects w)(d := Some data)"
  "next_effect (store_effect d data w) = next_effect w"
  "timelines (store_effect d data w) = timelines w"
  "Orientation_change (store_effect d data w) = Orientation_change w"
  "timeout_sources (store_effect d data w) = timeout_sources w"
  "source_count (store_effect d data w) = source_count w"
  "effects_running (store_effect d data w) = effects_running w"
  "cfg (store_effect d data w) = cfg w"
  "trace (store_effect d data w) = trace w"
  by (simp_all add: store_effect_def)

lemma g_free_proj [simp]:
  "clients (g_free d w) = clients w"
  "actors (g_free d w) = actors w"
  "effects (g_free d w) = (effects w)(d := None)"
  "next_effect (g_free d w) = next_effect w"
  "timelines (g_free d w) = timelines w"
  "Orientation_change (g_free d w) = Orientation_change w"
  "timeout_sources (g_free d w) = timeout_sources w"
  "source_count (g_free d w) = source_count w"
  "effects_running (g_free d w) = effects_running w"
  "cfg (g_free d w) = cfg w"
  "trace (g_free d w) = trace w"
  by (simp_all add: g_free_def)

lemma set_effect_running_proj [simp]:
  "clients (hd_comp_mgr_set_effect_running d b w) = clients w"
  "actors (hd_comp_mgr_set_effect_running d b w) = actors w"
  "effects (hd_comp_mgr_set_effect_running d b w) = effects w"
  "next_effect (hd_comp_mgr_set_effect_running d b w) = next_effect w"
  "timelines (hd_comp_mgr_set_effect_running d b w) = timelines w"
  "Orientation_change (hd_comp_mgr_set_effect_running d b w) = Orientation_change w"
  "timeout_sources (hd_comp_mgr_set_effect_running d b w) = timeout_sources w"
  "source_count (hd_comp_mgr_set_effect_running d b w) = source_count w"
  "effects_running (hd_comp_mgr_set_effect_running d b w) = effects_running w + (if b then 1 else - 1)"
  "cfg (hd_comp_mgr_set_effect_running d b w) = cfg w"
  "trace (hd_comp_mgr_set_effect_running d b w) = trace w @ [Set_effect_running d b]"
  by (simp_all add: hd_comp_mgr_set_effect_running_def call_out_def)

lemma g_timeout_add_proj [simp]:
  "clients (g_timeout_add now interval w) = clients w"
  "actors (g_timeout_add now interval w) = actors w"
  "effects (g_timeout_add now interval w) = effects w"
  "next_effect (g_timeout_add now interval w) = next_effect w"
  "timelines (g_timeout_add now interval w) = timelines w"
  "Orientation_change (g_timeout_add now interval w) = (Orientation_change w)\<lparr>timeout_id := Suc (source_count w)\<rparr>"
  "timeout_sources (g_timeout_add now interval w) = (timeout_sources w)(Suc (source_count w) := Some (now + real interval / 1000))"
  "source_count (g_timeout_add now interval w) = Suc (source_count w)"
  "effects_running (g_timeout_add now interval w) = effects_running w"
  "cfg (g_timeout_add now interval w) = cfg w"
  "trace (g_timeout_add now interval w) = trace w"
  by (simp_all add: g_timeout_add_def upd_oc_def Let_def)

lemma g_source_remove_proj [simp]:
  "clients (g_source_remove sid w) = clients w"
  "actors (g_source_remove sid w) = actors w"
  "effects (g_source_remove sid w) = effects w"
  "next_effect (g_source_remove sid w) = next_effect w"
  "timelines (g_source_remove sid w) = timelines w"
  "Orientation_change (g_source_remove sid w) = Orientation_change w"
  "timeout_sources (g_source_remove sid w) = (timeout_sources w)(sid := None)"
  "source_count (g_source_remove sid w) = source_count w"
  "effects_running (g_source_remove sid w) = effects_running w"
  "cfg (g_source_remove sid w) = cfg w"
  "trace (g_source_remove sid w) = trace w"
  by (simp_all add: g_source_remove_def)

lemmas proj_distribs [simp] =
  if_distrib [of clients] option.case_distrib [of clients]
  if_distrib [of actors] option.case_distrib [of actors]
  if_distrib [of effects] option.case_distrib [of effects]
  if_distrib [of next_effect] option.case_distrib [of next_effect]
  if_distrib [of timelines] option.case_distrib [of timelines]
  if_distrib [of Orientation_change] option.case_distrib [of Orientation_change]
  if_distrib [of timeout_sources] option.case_distrib [of timeout_sources]
  if_distrib [of source_count] option.case_distrib [of source_count]
  if_distrib [of effects_running] option.case_distrib [of effects_running]
  if_distrib [of cfg] option.case_distrib [of cfg]
  if_distrib [of trace] option.case_distrib [of trace]

lemmas derived_defs =
  mb_wm_comp_mgr_clutter_client_set_flags_def mb_wm_comp_mgr_clutter_client_unset_flags_def
  set_effect_pointer_def mb_wm_object_ref_def mb_wm_object_unref_def g_object_ref_def
  g_object_unref_def clutter_actor_show_def clutter_actor_hide_def
  clutter_actor_set_anchor_point_def clutter_container_add_actor_def remove_from_parent_def
  clutter_actor_reparent_def actor_created_def hd_transition_play_sound_def
  clutter_timeline_start_def clutter_timeline_stop_def timeline_unref_def

lemmas world_defs =
  call_out_def upd_client_def upd_actor_def on_actor_def upd_oc_def
  hd_comp_mgr_set_effect_running_def timeline_connected_def upd_timeline_def
  clutter_timeline_get_n_frames_def g_timeout_add_def g_source_remove_def g_new0_def
  store_effect_def g_free_def derived_defs

lemma fsm_entries_simps [simp]:
  "fsm_entries [] = []"
  "fsm_entries (xs @ ys) = fsm_entries xs @ fsm_entries ys"
  "fsm_entries (Fsm_debug p nd dr # xs) = (p, nd, dr) # fsm_entries xs"
  "fsm_entries (New_frame h d n # xs) = fsm_entries xs"
  "fsm_entries (Timeline_start t # xs) = fsm_entries xs"
  "fsm_entries (Timeline_stop t # xs) = fsm_entries xs"
  "fsm_entries (Completed d # xs) = fsm_entries xs"
  "fsm_entries (Particle_unref a # xs) = fsm_entries xs"
  "fsm_entries (Set_effect_running d b # xs) = fsm_entries xs"
  "fsm_entries (Change_screen_orientation b # xs) = fsm_entries xs"
  "fsm_entries (Render_manager_set_state st # xs) = fsm_entries xs"
  "fsm_entries (Render_manager_restack # xs) = fsm_entries xs"
  "fsm_entries (Play_sound # xs) = fsm_entries xs"
  "fsm_entries (G_critical # xs) = fsm_entries xs"
  by (simp_all add: fsm_entries_def List.map_filter_def)

lemma orientation_changes_simps [simp]:
  "orientation_changes [] = []"
  "orientation_changes (xs @ ys) = orientation_changes xs @ orientation_changes ys"
  "orientation_changes (Fsm_debug p nd dr # xs) = orientation_changes xs"
  "orientation_changes (New_frame h d n # xs) = orientation_changes xs"
  "orientation_changes (Timeline_start t # xs) = orientation_changes xs"
  "orientation_changes (Timeline_stop t # xs) = orientation_changes xs"
  "orientation_changes (Completed d # xs) = orientation_changes xs"
  "orientation_changes (Particle_unref a # xs) = orientation_changes xs"
  "orientation_changes (Set_effect_running d b # xs) = orientation_changes xs"
  "orientation_changes (Change_screen_orientation b # xs) = b # orientation_changes xs"
  "orientation_changes (Render_manager_set_state st # xs) = orientation_changes xs"
  "orientation_changes (Render_manager_restack # xs) = orientation_changes xs"
  "orientation_changes (Play_sound # xs) = orientation_changes xs"
  "orientation_changes (G_critical # xs) = orientation_changes xs"
  by (simp_all add: orientation_changes_def List.map_filter_def)

lemma particle_unrefs_simps [simp]:
  "particle_unrefs [] = []"
  "particle_unrefs (None # ps) = particle_unrefs ps"
  "particle_unrefs (Some a # ps) = Particle_unref a # particle_unrefs ps"
  by (simp_all add: particle_unrefs_def)

lemma release_particle_explicit:
  "release_particle p w =
     w\<lparr>actors := actors (release_particle p w), trace := trace w @ particle_unrefs [p]\<rparr>"
  by (cases p) (simp_all add: release_particle_def derived_defs)

lemma release_particles_explicit:
  "steps (map release_particle ps) w =
     w\<lparr>actors := actors (steps (map release_particle ps) w),
       trace := trace w @ particle_unrefs ps\<rparr>"
proof (induction ps arbitrary: w)
  case Nil
  show ?case by simp
next
  case (Cons p ps)
  have "steps (map release_particle (p # ps)) w = steps (map release_particle ps) (release_particle p w)"
    by simp
  also have "\<dots> = (release_particle p w)\<lparr>actors := actors (steps (map release_particle ps) (release_particle p w)),
       trace := trace (release_particle p w) @ particle_unrefs ps\<rparr>"
    by (rule Cons.IH)
  also have "\<dots> = w\<lparr>actors := actors (steps (map release_particle (p # ps)) w),
       trace := trace w @ particle_unrefs (p # ps)\<rparr>"
    by (subst (1 3) release_particle_explicit) (cases p; simp)
  finally show ?case .
qed

lemma release_particles_proj [simp]:
  "clients (steps (map release_particle ps) w) = clients w"
  "effects (steps (map release_particle ps) w) = effects w"
  "next_effect (steps (map release_particle ps) w) = next_effect w"
  "timelines (steps (map release_particle ps) w) = timelines w"
  "Orientation_change (steps (map release_particle ps) w) = Orientation_change w"
  "timeout_sources (steps (map release_particle ps) w) = timeout_sources w"
  "source_count (steps (map release_particle ps) w) = source_count w"
  "effects_running (steps (map release_particle ps) w) = effects_running w"
  "cfg (steps (map release_particle ps) w) = cfg w"
  "trace (steps (map release_particle ps) w) = trace w @ particle_unrefs ps"
  using release_particles_explicit [of ps w, THEN arg_cong [where f = clients]]
    release_particles_explicit [of ps w, THEN arg_cong [where f = effects]]
    release_particles_explicit [of ps w, THEN arg_cong [where f = next_effect]]
    release_particles_explicit [of ps w, THEN arg_cong [where f = timelines]]
    release_particles_explicit [of ps w, THEN arg_cong [where f = Orientation_change]]
    release_particles_explicit [of ps w, THEN arg_cong [where f = timeout_sources]]
    release_particles_explicit [of ps w, THEN arg_cong [where f = source_count]]
    release_particles_explicit [of ps w, THEN arg_cong [where f = effects_running]]
    release_particles_explicit [of ps w, THEN arg_cong [where f = cfg]]
    release_particles_explicit [of ps w, THEN arg_cong [where f = trace]]
  by simp_all

lemma completed_proj [simp]:
  "next_effect (hd_transition_completed tm d w) = next_effect w"
  "Orientation_change (hd_transition_completed tm d w) = Orientation_change w"
  "timeout_sources (hd_transition_completed tm d w) = timeout_sources w"
  "source_count (hd_transition_completed tm d w) = source_count w"
  "cfg (hd_transition_completed tm d w) = cfg w"
  by (cases "effects w d";
      simp add: hd_transition_completed_def Let_def derived_defs
        cong: option.case_cong if_cong)+

lemma completed_trace [simp]:
  "trace (hd_transition_completed tm d w) = trace w @ completed_calls w d"
  by (cases "effects w d")
    (simp_all add: hd_transition_completed_def completed_calls_def Let_def derived_defs
      cong: option.case_cong if_cong)

lemma completed_effects [simp]:
  "effects (hd_transition_completed tm d w) = (effects w)(d := None)"
  by (cases "effects w d")
    (simp_all add: hd_transition_completed_def Let_def derived_defs fun_upd_idem
      cong: option.case_cong if_cong)

lemma completed_timelines_None [simp]:
  "timelines (hd_transition_completed None d w) = timelines w"
  by (cases "effects w d")
    (simp_all add: hd_transition_completed_def Let_def derived_defs
      cong: option.case_cong if_cong)


text \<open>Projections of the waiting-effects loop.\<close>

lemma complete_effects_waiting_proj [simp]:
  "next_effect (complete_effects_waiting ds w) = next_effect w"
  "timeout_sources (complete_effects_waiting ds w) = timeout_sources w"
  "source_count (complete_effects_waiting ds w) = source_count w"
  "cfg (complete_effects_waiting ds w) = cfg w"
  "timelines (complete_effects_waiting ds w) = timelines w"
  by (induction ds arbitrary: w; simp)+

lemma complete_effects_waiting_oc [simp]:
  "Orientation_change (complete_effects_waiting ds w) =
     (Orientation_change w)\<lparr>effects_waiting :=
        (if ds = [] then effects_waiting (Orientation_change w) else [])\<rparr>"
  by (induction ds arbitrary: w) simp_all

lemma particle_unrefs_no_fsm_entries [simp]: "fsm_entries (particle_unrefs ps) = []"
proof (induction ps)
  case Nil
  show ?case by simp
next
  case (Cons p ps)
  then show ?case by (cases p) simp_all
qed

lemma particle_unrefs_no_orientation_changes [simp]:
  "orientation_changes (particle_unrefs ps) = []"
proof (induction ps)
  case Nil
  show ?case by simp
next
  case (Cons p ps)
  then show ?case by (cases p) simp_all
qed

lemma completed_calls_no_entries [simp]:
  "fsm_entries (completed_calls w d) = []"
  "orientation_changes (completed_calls w d) = []"
  by (simp_all add: completed_calls_def split: option.splits)

lemma complete_effects_waiting_entries [simp]:
  "fsm_entries (trace (complete_effects_waiting ds w)) = fsm_entries (trace w)"
  "orientation_changes (trace (complete_effects_waiting ds w)) = orientation_changes (trace w)"
  by (induction ds arbitrary: w; simp)+

text \<open>Per-frame handlers touch actors and the trace only.\<close>

lemma subview_new_frame_proj [simp]:
  "clients (subview_new_frame t n d w) = clients w"
  "effects (subview_new_frame t n d w) = effects w"
  "next_effect (subview_new_frame t n d w) = next_effect w"
  "timelines (subview_new_frame t n d w) = timelines w"
  "Orientation_change (subview_new_frame t n d w) = Orientation_change w"
  "timeout_sources (subview_new_frame t n d w) = timeout_sources w"
  "source_count (subview_new_frame t n d w) = source_count w"
  "effects_running (subview_new_frame t n d w) = effects_running w"
  "cfg (subview_new_frame t n d w) = cfg w"
  "trace (subview_new_frame t n d w) = trace w"
  by (cases "effects w d"; simp add: subview_new_frame_def Let_def derived_defs)+

lemma new_frame_proj [simp]:
  "clients (new_frame h t n d w) = clients w"
  "effects (new_frame h t n d w) = effects w"
  "next_effect (new_frame h t n d w) = next_effect w"
  "timelines (new_frame h t n d w) = timelines w"
  "Orientation_change (new_frame h t n d w) = Orientation_change w"
  "timeout_sources (new_frame h t n d w) = timeout_sources w"
  "source_count (new_frame h t n d w) = source_count w"
  "effects_running (new_frame h t n d w) = effects_running w"
  "cfg (new_frame h t n d w) = cfg w"
  "trace (new_frame h t n d w) = trace w @ [New_frame h d n]"
  by (simp_all add: new_frame_def Let_def)

lemma emit_new_frame_proj [simp]:
  "clients (emit_new_frame tm n w) = clients w"
  "effects (emit_new_frame tm n w) = effects w"
  "next_effect (emit_new_frame tm n w) = next_effect w"
  "timelines (emit_new_frame tm n w) = timelines w"
  "Orientation_change (emit_new_frame tm n w) = Orientation_change w"
  "timeout_sources (emit_new_frame tm n w) = timeout_sources w"
  "source_count (emit_new_frame tm n w) = source_count w"
  "effects_running (emit_new_frame tm n w) = effects_running w"
  "cfg (emit_new_frame tm n w) = cfg w"
  "fsm_entries (trace (emit_new_frame tm n w)) = fsm_entries (trace w)"
  "orientation_changes (trace (emit_new_frame tm n w)) = orientation_changes (trace w)"
  by (simp_all add: emit_new_frame_def split: option.splits)

text \<open>What \<open>hd_transition_fade_and_rotate\<close> leaves behind.\<close>

lemma get_double_cfg:
  "cfg w' = cfg w \<Longrightarrow> hd_transition_get_double w' = hd_transition_get_double w"
  by (intro ext) (simp add: hd_transition_get_double_def)

lemma timeline_new_cfg:
  "cfg w' = cfg w \<Longrightarrow> hd_transition_timeline_new w' = hd_transition_timeline_new w"
  by (intro ext)
    (simp add: hd_transition_timeline_new_def clutter_timeline_new_for_duration_def
      hd_transition_get_int_def)

lemma fade_and_rotate_proj [simp]:
  "clients (hd_transition_fade_and_rotate fp gp cb w) = clients w"
  "next_effect (hd_transition_fade_and_rotate fp gp cb w) = Suc (next_effect w)"
  "Orientation_change (hd_transition_fade_and_rotate fp gp cb w) = Orientation_change w"
  "timeout_sources (hd_transition_fade_and_rotate fp gp cb w) = timeout_sources w"
  "source_count (hd_transition_fade_and_rotate fp gp cb w) = source_count w"
  "effects_running (hd_transition_fade_and_rotate fp gp cb w) = effects_running w"
  "cfg (hd_transition_fade_and_rotate fp gp cb w) = cfg w"
  "trace (hd_transition_fade_and_rotate fp gp cb w) =
     trace w @ [New_frame on_rotate_screen_timeline_new_frame (next_effect w) 0,
                Timeline_start (next_effect w)]"
  by (simp_all add: hd_transition_fade_and_rotate_def Let_def derived_defs)

lemma fade_and_rotate_timelines [simp]:
  "timelines (hd_transition_fade_and_rotate fp gp cb w) =
     (timelines w)(next_effect w := Some \<lparr>n_frames =
         hd_transition_timeline_new w ''rotate''
           (if fp then MBWMCompMgrClientEventMap else MBWMCompMgrClientEventUnmap) 300,
       running = True, new_frame_handler = on_rotate_screen_timeline_new_frame,
       handler_data = next_effect w, finished_callback = cb, timeline_refs = 2\<rparr>)"
  by (simp add: hd_transition_fade_and_rotate_def Let_def derived_defs)

lemma fade_and_rotate_effects [simp]:
  "effects (hd_transition_fade_and_rotate fp gp cb w) =
     (effects w)(next_effect w := Some \<lparr>event =
         (if fp then MBWMCompMgrClientEventMap else MBWMCompMgrClientEventUnmap),
       timeline = Some (next_effect w), cclient = None, cclient_actor = None, cclient2 = None,
       cclient2_actor = None, hmgr = False, geo = no_geometry,
       angle = (if fp = gp then - hd_transition_get_double w ''rotate'' ''angle'' 40
                else hd_transition_get_double w ''rotate'' ''angle'' 40),
       particles = Some (ParticleActor (next_effect w) 0) #
         (if \<not> gp \<and> fp then [Some (ParticleActor (next_effect w) 1)] else [])\<rparr>)"
  by (simp add: hd_transition_fade_and_rotate_def Let_def derived_defs)

text \<open>The state machine without its recursion.\<close>

lemma fsm_enter_oc [simp]:
  "Orientation_change (fsm_enter w) = (Orientation_change w)\<lparr>timeout_id := 0, timer := None\<rparr>"
  by (simp add: fsm_enter_def)

lemma fsm_IDLE:
  "phase (Orientation_change w) = IDLE \<Longrightarrow>
     hd_transition_rotating_fsm now w = fsm_case_IDLE (fsm_enter w)"
  by (subst hd_transition_rotating_fsm.simps) (simp add: Let_def)

lemma fsm_FADE_OUT:
  "phase (Orientation_change w) = FADE_OUT \<Longrightarrow>
     hd_transition_rotating_fsm now w =
       (let w1 = fsm_complete_waiting (fsm_change_state (fsm_enter w))
        in if direction (Orientation_change w1) = new_direction (Orientation_change w1)
           then fsm_start_WAITING now w1
           else fsm_fade_back_in (upd_oc (\<lambda>oc. oc\<lparr>direction := new_direction oc\<rparr>) w1))"
  by (subst hd_transition_rotating_fsm.simps) (simp add: Let_def)

lemmas cfg_reads =
  hd_transition_get_double_def hd_transition_get_int_def hd_transition_timeline_new_def
  clutter_timeline_new_for_duration_def

lemma fsm_enter_proj [simp]:
  "clients (fsm_enter w) = clients w"
  "actors (fsm_enter w) = actors w"
  "effects (fsm_enter w) = effects w"
  "next_effect (fsm_enter w) = next_effect w"
  "timelines (fsm_enter w) = timelines w"
  "timeout_sources (fsm_enter w) = timeout_sources w"
  "source_count (fsm_enter w) = source_count w"
  "effects_running (fsm_enter w) = effects_running w"
  "cfg (fsm_enter w) = cfg w"
  "trace (fsm_enter w) =
     trace w @ [Fsm_debug (phase (Orientation_change w)) (new_direction (Orientation_change w))
       (direction (Orientation_change w))]"
  by (simp_all add: fsm_enter_def)

lemma fsm_change_state_proj [simp]:
  "clients (fsm_change_state w) = clients w"
  "actors (fsm_change_state w) = actors w"
  "effects (fsm_change_state w) = effects w"
  "next_effect (fsm_change_state w) = next_effect w"
  "timelines (fsm_change_state w) = timelines w"
  "timeout_sources (fsm_change_state w) = timeout_sources w"
  "source_count (fsm_change_state w) = source_count w"
  "effects_running (fsm_change_state w) = effects_running w"
  "cfg (fsm_change_state w) = cfg w"
  "fsm_entries (trace (fsm_change_state w)) = fsm_entries (trace w)"
  "orientation_changes (trace (fsm_change_state w)) = orientation_changes (trace w)"
  "direction (Orientation_change (fsm_change_state w)) = direction (Orientation_change w)"
  "new_direction (Orientation_change (fsm_change_state w)) = new_direction (Orientation_change w)"
  "phase (Orientation_change (fsm_change_state w)) = phase (Orientation_change w)"
  "timeout_id (Orientation_change (fsm_change_state w)) = timeout_id (Orientation_change w)"
  "timer (Orientation_change (fsm_change_state w)) = timer (Orientation_change w)"
  "effects_waiting (Orientation_change (fsm_change_state w)) = effects_waiting (Orientation_change w)"
  "wm (Orientation_change (fsm_change_state w)) = wm (Orientation_change w)"
  by (simp_all add: fsm_change_state_def Let_def)

lemma fsm_complete_waiting_proj [simp]:
  "next_effect (fsm_complete_waiting w) = next_effect w"
  "timelines (fsm_complete_waiting w) = timelines w"
  "timeout_sources (fsm_complete_waiting w) = timeout_sources w"
  "source_count (fsm_complete_waiting w) = source_count w"
  "cfg (fsm_complete_waiting w) = cfg w"
  "fsm_entries (trace (fsm_complete_waiting w)) = fsm_entries (trace w)"
  "orientation_changes (trace (fsm_complete_waiting w)) = orientation_changes (trace w)"
  "Orientation_change (fsm_complete_waiting w) = (Orientation_change w)\<lparr>effects_waiting := []\<rparr>"
  by (simp_all add: fsm_complete_waiting_def)

lemma fsm_start_WAITING_proj [simp]:
  "clients (fsm_start_WAITING now w) = clients w"
  "effects (fsm_start_WAITING now w) = effects w"
  "next_effect (fsm_start_WAITING now w) = next_effect w"
  "timelines (fsm_start_WAITING now w) = timelines w"
  "effects_running (fsm_start_WAITING now w) = effects_running w"
  "cfg (fsm_start_WAITING now w) = cfg w"
  "source_count (fsm_start_WAITING now w) = Suc (source_count w)"
  "timeout_sources (fsm_start_WAITING now w) =
     (timeout_sources w)(Suc (source_count w) := Some (now + real (c_double_to_guint
        (hd_transition_get_double w ''rotate'' ''damage_timeout'' 50)) / 1000))"
  "Orientation_change (fsm_start_WAITING now w) =
     (Orientation_change w)\<lparr>phase := WAITING, timeout_id := Suc (source_count w),
        timer := Some now\<rparr>"
  "trace (fsm_start_WAITING now w) =
     trace w @ [Change_screen_orientation (direction (Orientation_change w) = GOTO_PORTRAIT)]"
  by (simp_all add: fsm_start_WAITING_def derived_defs cfg_reads)

lemma fsm_fade_back_in_proj [simp]:
  "clients (fsm_fade_back_in w) = clients w"
  "next_effect (fsm_fade_back_in w) = Suc (next_effect w)"
  "effects_running (fsm_fade_back_in w) = effects_running w"
  "cfg (fsm_fade_back_in w) = cfg w"
  "source_count (fsm_fade_back_in w) = source_count w"
  "timeout_sources (fsm_fade_back_in w) = timeout_sources w"
  "Orientation_change (fsm_fade_back_in w) = (Orientation_change w)\<lparr>phase := FADE_IN\<rparr>"
  "trace (fsm_fade_back_in w) =
     trace w @ [New_frame on_rotate_screen_timeline_new_frame (next_effect w) 0,
                Timeline_start (next_effect w), Render_manager_restack]"
  "timelines (fsm_fade_back_in w) =
     (timelines w)(next_effect w := Some \<lparr>n_frames =
         hd_transition_timeline_new w ''rotate'' MBWMCompMgrClientEventUnmap 300,
       running = True, new_frame_handler = on_rotate_screen_timeline_new_frame,
       handler_data = next_effect w, finished_callback = True, timeline_refs = 2\<rparr>)"
  by (simp_all add: fsm_fade_back_in_def derived_defs cfg_reads)

lemma fsm_case_IDLE_proj [simp]:
  "clients (fsm_case_IDLE w) = clients w"
  "next_effect (fsm_case_IDLE w) = Suc (next_effect w)"
  "effects_running (fsm_case_IDLE w) = effects_running w"
  "cfg (fsm_case_IDLE w) = cfg w"
  "source_count (fsm_case_IDLE w) = source_count w"
  "timeout_sources (fsm_case_IDLE w) = timeout_sources w"
  "Orientation_change (fsm_case_IDLE w) =
     (Orientation_change w)\<lparr>phase := FADE_OUT,
        direction := new_direction (Orientation_change w)\<rparr>"
  "trace (fsm_case_IDLE w) =
     trace w @ [New_frame on_rotate_screen_timeline_new_frame (next_effect w) 0,
                Timeline_start (next_effect w)]"
  "timelines (fsm_case_IDLE w) =
     (timelines w)(next_effect w := Some \<lparr>n_frames =
         hd_transition_timeline_new w ''rotate'' MBWMCompMgrClientEventMap 300,
       running = True, new_frame_handler = on_rotate_screen_timeline_new_frame,
       handler_data = next_effect w, finished_callback = True, timeline_refs = 2\<rparr>)"
  by (simp_all add: fsm_case_IDLE_def Let_def cfg_reads)

lemma fsm_WAITING:
  "phase (Orientation_change w) = WAITING \<Longrightarrow>
     hd_transition_rotating_fsm now w =
       (if direction (Orientation_change w) = new_direction (Orientation_change w)
        then fsm_fade_back_in (fsm_enter w)
        else fsm_start_WAITING now
               (fsm_complete_waiting (fsm_change_state (fsm_enter (fsm_divert (fsm_enter w))))))"
  by (subst hd_transition_rotating_fsm.simps)
    (simp add: Let_def fsm_FADE_OUT fsm_divert_def)

lemma fsm_FADE_IN:
  "phase (Orientation_change w) = FADE_IN \<Longrightarrow>
     hd_transition_rotating_fsm now w =
       (if direction (Orientation_change w) = new_direction (Orientation_change w)
        then upd_oc (\<lambda>oc. oc\<lparr>phase := IDLE\<rparr>) (fsm_enter w)
        else fsm_case_IDLE (fsm_enter (upd_oc (\<lambda>oc. oc\<lparr>phase := IDLE\<rparr>) (fsm_enter w))))"
  by (subst hd_transition_rotating_fsm.simps) (simp add: Let_def fsm_IDLE)

lemma upd_timeline_Some_apply:
  "timelines w t = Some r \<Longrightarrow>
     upd_timeline (Some t) f w = w\<lparr>timelines := (timelines w)(t := Some (f r))\<rparr>"
  by (simp add: upd_timeline_def)

section \<open>The rotation state machine\<close>

text \<open>
  C3. Starting from phase IDLE with the screen in landscape (\<open>is_portrait = False\<close>), a
  request to rotate to portrait is accepted and, with no further request arriving, the
  four callbacks that follow (end of the fade-out timeline, the debounce timeout at or
  after its deadline, end of the fade-in timeline) take the machine through FADE_OUT,
  WAITING and FADE_IN back to IDLE; the driver is entered in the phases IDLE, FADE_OUT,
  WAITING, FADE_IN in this order, \<open>direction\<close> ends as portrait, and
  \<^verbatim>\<open>hd_util_change_screen_orientation\<close> is called exactly once, for portrait.
\<close>

theorem rotate_to_portrait_run:
  fixes w w1 w2 w3 w4 :: world and t_req t_faded t_fire t_done :: real and wm_ptr :: nat
  assumes idle: "phase (Orientation_change w) = IDLE"
    and late: "t_faded + real (c_double_to_guint
                 (hd_transition_get_double w ''rotate'' ''damage_timeout'' 50)) / 1000 \<le> t_fire"
  defines "w1 \<equiv> snd (hd_transition_rotate_screen t_req False wm_ptr True w)"
    and "w2 \<equiv> timeline_completed t_faded (next_effect w) w1"
    and "w3 \<equiv> timeout_dispatch t_fire (Suc (source_count w)) w2"
    and "w4 \<equiv> timeline_completed t_done (Suc (next_effect w)) w3"
  shows "fst (hd_transition_rotate_screen t_req False wm_ptr True w)
    \<and> phase (Orientation_change w1) = FADE_OUT
    \<and> phase (Orientation_change w2) = WAITING
    \<and> phase (Orientation_change w3) = FADE_IN
    \<and> phase (Orientation_change w4) = IDLE
    \<and> direction (Orientation_change w4) = GOTO_PORTRAIT
    \<and> map fst (fsm_entries (trace w4)) =
        map fst (fsm_entries (trace w)) @ [IDLE, FADE_OUT, WAITING, FADE_IN]
    \<and> orientation_changes (trace w4) = orientation_changes (trace w) @ [True]"
proof -
  have r: "hd_transition_rotate_screen t_req False wm_ptr True w =
      (True, fsm_case_IDLE (fsm_enter (upd_oc (\<lambda>oc. oc\<lparr>wm := wm_ptr,
         new_direction := GOTO_PORTRAIT\<rparr>) w)))"
    by (simp add: hd_transition_rotate_screen_def Let_def idle fsm_IDLE)
  have oc1: "Orientation_change w1 = (Orientation_change w)\<lparr>wm := wm_ptr,
      new_direction := GOTO_PORTRAIT, timeout_id := 0, timer := None, phase := FADE_OUT,
      direction := GOTO_PORTRAIT\<rparr>"
    by (simp add: w1_def r)
  have tl1: "timelines w1 (next_effect w) = Some \<lparr>n_frames =
         hd_transition_timeline_new w ''rotate'' MBWMCompMgrClientEventMap 300,
       running = True, new_frame_handler = on_rotate_screen_timeline_new_frame,
       handler_data = next_effect w, finished_callback = True, timeline_refs = 2\<rparr>"
    by (simp add: w1_def r cfg_reads)
  have misc1: "next_effect w1 = Suc (next_effect w)" "source_count w1 = source_count w"
    "cfg w1 = cfg w"
    "fsm_entries (trace w1) = fsm_entries (trace w) @ [(IDLE, GOTO_PORTRAIT, direction (Orientation_change w))]"
    "orientation_changes (trace w1) = orientation_changes (trace w)"
    by (simp_all add: w1_def r idle)
  have oc2: "phase (Orientation_change w2) = WAITING"
    "direction (Orientation_change w2) = GOTO_PORTRAIT"
    "new_direction (Orientation_change w2) = GOTO_PORTRAIT"
    by (simp_all add: w2_def timeline_completed_def tl1 upd_timeline_Some_apply fsm_FADE_OUT oc1
        misc1 Let_def)
  have misc2: "next_effect w2 = Suc (next_effect w)" "source_count w2 = Suc (source_count w)"
    "cfg w2 = cfg w"
    "fsm_entries (trace w2) = fsm_entries (trace w1) @ [(FADE_OUT, GOTO_PORTRAIT, GOTO_PORTRAIT)]"
    "orientation_changes (trace w2) = orientation_changes (trace w1) @ [True]"
    "timeout_sources w2 (Suc (source_count w)) = Some (t_faded + real (c_double_to_guint
        (hd_transition_get_double w ''rotate'' ''damage_timeout'' 50)) / 1000)"
    by (simp_all add: w2_def timeline_completed_def tl1 upd_timeline_Some_apply fsm_FADE_OUT oc1
        misc1 Let_def cfg_reads)
  have oc3: "phase (Orientation_change w3) = FADE_IN"
    "direction (Orientation_change w3) = GOTO_PORTRAIT"
    "new_direction (Orientation_change w3) = GOTO_PORTRAIT"
    using late
    by (simp_all add: w3_def timeout_dispatch_def misc2 fsm_WAITING oc2)
  have misc3: "fsm_entries (trace w3) = fsm_entries (trace w2) @ [(WAITING, GOTO_PORTRAIT, GOTO_PORTRAIT)]"
    "orientation_changes (trace w3) = orientation_changes (trace w2)"
    "timelines w3 (Suc (next_effect w)) = Some \<lparr>n_frames =
         hd_transition_timeline_new w ''rotate'' MBWMCompMgrClientEventUnmap 300,
       running = True, new_frame_handler = on_rotate_screen_timeline_new_frame,
       handler_data = Suc (next_effect w), finished_callback = True, timeline_refs = 2\<rparr>"
    using late
    by (simp_all add: w3_def timeout_dispatch_def misc2 fsm_WAITING oc2 cfg_reads)
  have oc4: "phase (Orientation_change w4) = IDLE"
    "direction (Orientation_change w4) = GOTO_PORTRAIT"
    by (simp_all add: w4_def timeline_completed_def misc3 upd_timeline_Some_apply fsm_FADE_IN oc3)
  have misc4: "fsm_entries (trace w4) = fsm_entries (trace w3) @ [(FADE_IN, GOTO_PORTRAIT, GOTO_PORTRAIT)]"
    "orientation_changes (trace w4) = orientation_changes (trace w3)"
    by (simp_all add: w4_def timeline_completed_def misc3 upd_timeline_Some_apply fsm_FADE_IN oc3)
  show ?thesis
    by (simp add: r oc1 oc2 oc3 oc4 misc1 misc2 misc3 misc4)
qed

lemma demo_world_simps [simp]:
  "clients demo_world = (\<lambda>c. (demo_client c)\<lparr>effect := None\<rparr>)"
  "actors demo_world = demo_actor"
  "effects demo_world = (\<lambda>d. None)"
  "next_effect demo_world = 0"
  "timelines demo_world = (\<lambda>t. None)"
  "Orientation_change demo_world = Orientation_change_initial"
  "timeout_sources demo_world = (\<lambda>s. None)"
  "source_count demo_world = 0"
  "effects_running demo_world = 0"
  "cfg demo_world = demo_config"
  "trace demo_world = []"
  by (simp_all add: demo_world_def initial_world_def)

lemma Orientation_change_initial_simps [simp]:
  "wm Orientation_change_initial = 0"
  "direction Orientation_change_initial = GOTO_LANDSCAPE"
  "new_direction Orientation_change_initial = GOTO_LANDSCAPE"
  "phase Orientation_change_initial = IDLE"
  "goto_state Orientation_change_initial = HDRM_STATE_UNDEFINED"
  "timeout_id Orientation_change_initial = 0"
  "timer Orientation_change_initial = None"
  "effects_waiting Orientation_change_initial = []"
  by (simp_all add: Orientation_change_initial_def)

lemma demo_config_simps [simp]:
  "ini_int demo_config = (\<lambda>k. None)"
  "ini_double demo_config = (\<lambda>k. None)"
  "frame_rate demo_config = 60"
  "screen_width demo_config = 800"
  "STATE_IS_PORTRAIT demo_config = (\<lambda>s. s = HDRM_STATE_other 1)"
  "STATE_IS_PORTRAIT_CAPABLE demo_config = (\<lambda>s. s = HDRM_STATE_other 0)"
  "STATE_IS_APP demo_config = (\<lambda>s. s = HDRM_STATE_other 0 \<or> s = HDRM_STATE_other 1)"
  by (simp_all add: demo_config_def)

lemma c_double_to_guint_numeral [simp]: "c_double_to_guint 50 = 50"
  by (simp add: c_double_to_guint_def)

lemma c_int_to_guint_numeral [simp]:
  "c_int_to_guint 250 = 250" "c_int_to_guint 300 = 300" "c_int_to_guint 500 = 500"
  by (simp_all add: c_int_to_guint_def)

theorem rotate_to_portrait_run_witness:
  "phase (Orientation_change demo_world) = IDLE
   \<and> (0 :: real) + real (c_double_to_guint
        (hd_transition_get_double demo_world ''rotate'' ''damage_timeout'' 50)) / 1000 \<le> 1
   \<and> phase (Orientation_change
        (timeline_completed 2 1 (timeout_dispatch 1 1 (timeline_completed 0 0
           (snd (hd_transition_rotate_screen 0 False 0 True demo_world)))))) = IDLE
   \<and> direction (Orientation_change
        (timeline_completed 2 1 (timeout_dispatch 1 1 (timeline_completed 0 0
           (snd (hd_transition_rotate_screen 0 False 0 True demo_world)))))) = GOTO_PORTRAIT
   \<and> orientation_changes (trace
        (timeline_completed 2 1 (timeout_dispatch 1 1 (timeline_completed 0 0
           (snd (hd_transition_rotate_screen 0 False 0 True demo_world)))))) = [True]"
proof -
  have h1: "phase (Orientation_change demo_world) = IDLE" by simp
  have h2: "(0 :: real) + real (c_double_to_guint
        (hd_transition_get_double demo_world ''rotate'' ''damage_timeout'' 50)) / 1000 \<le> 1"
    by (simp add: hd_transition_get_double_def)
  show ?thesis
    using rotate_to_portrait_run [OF h1 h2, where t_req = 0 and wm_ptr = 0 and t_done = 2] h1 h2
    by simp
qed

text \<open>
  C7 (amended). A request for the orientation that is already active, made in phase IDLE,
  returns FALSE and changes nothing but two fields of \<open>Orientation_change\<close>, which
  are written before the check: \<open>wm\<close> and \<open>new_direction\<close> take the values of the
  request. \<open>direction\<close>, \<open>phase\<close>, \<open>goto_state\<close>, the timers and the waiting effects
  are unchanged, and so is the rest of the world.
\<close>

theorem rotate_screen_rejects_active_orientation:
  "phase (Orientation_change w) = IDLE \<Longrightarrow> goto_portrait = is_portrait \<Longrightarrow>
     hd_transition_rotate_screen now is_portrait wm_ptr goto_portrait w =
       (False, w\<lparr>Orientation_change := (Orientation_change w)\<lparr>wm := wm_ptr,
          new_direction := (if goto_portrait then GOTO_PORTRAIT else GOTO_LANDSCAPE)\<rparr>\<rparr>)"
  by (simp add: hd_transition_rotate_screen_def Let_def upd_oc_def)

theorem rotate_screen_rejects_witness:
  "phase (Orientation_change demo_world) = IDLE \<and>
   hd_transition_rotate_screen 0 False 0 False demo_world = (False, demo_world)"
proof -
  have h: "phase (Orientation_change demo_world) = IDLE" by simp
  show ?thesis
    using rotate_screen_rejects_active_orientation [OF h, of False False 0 0] h
    by (simp add: demo_world_def initial_world_def Orientation_change_initial_def)
qed

text \<open>
  C7 (as stated, refuted): the claim says a rejected request mutates no state of the
  singleton, \<open>new_direction\<close> included. At start-up \<open>new_direction\<close> is landscape; a
  request for portrait while the screen is already in portrait is rejected and leaves
  \<open>new_direction\<close> at portrait.
\<close>

theorem rotate_screen_rejection_writes_new_direction:
  "phase (Orientation_change demo_world) = IDLE
   \<and> fst (hd_transition_rotate_screen 0 True 0 True demo_world) = False
   \<and> new_direction (Orientation_change demo_world) = GOTO_LANDSCAPE
   \<and> new_direction (Orientation_change
        (snd (hd_transition_rotate_screen 0 True 0 True demo_world))) = GOTO_PORTRAIT"
  by (simp add: hd_transition_rotate_screen_def Let_def)




text \<open>
  One call of the driver: the entries it logs, and the directions it leaves behind.
\<close>

lemma fsm_call_entries:
  "fsm_entries (trace (hd_transition_rotating_fsm now w)) =
     fsm_entries (trace w) @
       (if direction (Orientation_change w) = new_direction (Orientation_change w)
           \<or> phase (Orientation_change w) = IDLE \<or> phase (Orientation_change w) = FADE_OUT
        then [(phase (Orientation_change w), new_direction (Orientation_change w),
               direction (Orientation_change w))]
        else if phase (Orientation_change w) = WAITING
        then [(WAITING, new_direction (Orientation_change w), direction (Orientation_change w)),
              (FADE_OUT, new_direction (Orientation_change w),
               new_direction (Orientation_change w))]
        else [(FADE_IN, new_direction (Orientation_change w), direction (Orientation_change w)),
              (IDLE, new_direction (Orientation_change w), direction (Orientation_change w))])"
  by (cases "phase (Orientation_change w)")
    (simp_all add: fsm_IDLE fsm_FADE_OUT fsm_WAITING fsm_FADE_IN Let_def fsm_divert_def)

lemma fsm_call_directions:
  "direction (Orientation_change (hd_transition_rotating_fsm now w)) =
     new_direction (Orientation_change w)"
  "new_direction (Orientation_change (hd_transition_rotating_fsm now w)) =
     new_direction (Orientation_change w)"
  by (cases "phase (Orientation_change w)";
      simp add: fsm_IDLE fsm_FADE_OUT fsm_WAITING fsm_FADE_IN Let_def fsm_divert_def)+

text \<open>
  C6 (amended). The driver always returns, and one call enters it at most twice: it
  calls itself only from WAITING and from FADE_IN, only when \<open>direction\<close> differs from
  \<open>new_direction\<close>, and the nested call makes no further call. From WAITING the nested
  call is made in phase FADE_OUT after \<open>direction\<close> has been set to \<open>new_direction\<close>;
  from FADE_IN it is made in phase IDLE with \<open>direction\<close> still different, and it is the
  nested call that adopts \<open>new_direction\<close>. FADE_OUT falls through to the fade-in without
  a nested call. On return \<open>direction\<close> equals \<open>new_direction\<close>, which the driver never
  writes.
\<close>

theorem fsm_reentry_is_bounded:
  "fsm_entries (trace (hd_transition_rotating_fsm now w)) =
     fsm_entries (trace w) @
       (if direction (Orientation_change w) = new_direction (Orientation_change w)
           \<or> phase (Orientation_change w) = IDLE \<or> phase (Orientation_change w) = FADE_OUT
        then [(phase (Orientation_change w), new_direction (Orientation_change w),
               direction (Orientation_change w))]
        else if phase (Orientation_change w) = WAITING
        then [(WAITING, new_direction (Orientation_change w), direction (Orientation_change w)),
              (FADE_OUT, new_direction (Orientation_change w),
               new_direction (Orientation_change w))]
        else [(FADE_IN, new_direction (Orientation_change w), direction (Orientation_change w)),
              (IDLE, new_direction (Orientation_change w), direction (Orientation_change w))])
   \<and> direction (Orientation_change (hd_transition_rotating_fsm now w)) =
       new_direction (Orientation_change w)
   \<and> new_direction (Orientation_change (hd_transition_rotating_fsm now w)) =
       new_direction (Orientation_change w)"
  using fsm_call_entries [of now w] fsm_call_directions [of now w] by simp

text \<open>
  A run for examples: portrait is requested and the machine has come to FADE_IN when
  landscape is requested.
\<close>

lemma fading_in_world_facts:
  "phase (Orientation_change fading_in_world) = FADE_IN"
  "direction (Orientation_change fading_in_world) = GOTO_PORTRAIT"
  "new_direction (Orientation_change fading_in_world) = GOTO_LANDSCAPE"
  "fsm_entries (trace fading_in_world) =
     [(IDLE, GOTO_PORTRAIT, GOTO_LANDSCAPE), (FADE_OUT, GOTO_PORTRAIT, GOTO_PORTRAIT),
      (WAITING, GOTO_PORTRAIT, GOTO_PORTRAIT)]"
  "timelines fading_in_world (Suc 0) = Some \<lparr>n_frames = 18, running = True,
       new_frame_handler = on_rotate_screen_timeline_new_frame,
       handler_data = Suc 0, finished_callback = True, timeline_refs = 2\<rparr>"
  by (simp_all add: fading_in_world_def hd_transition_rotate_screen_def timeline_completed_def
      timeout_dispatch_def Let_def fsm_IDLE fsm_FADE_OUT fsm_WAITING upd_timeline_Some_apply
      cfg_reads c_double_to_guint_def)

theorem fsm_reentry_is_bounded_witness:
  "fsm_entries (trace (hd_transition_rotating_fsm 4 fading_in_world)) =
     [(IDLE, GOTO_PORTRAIT, GOTO_LANDSCAPE), (FADE_OUT, GOTO_PORTRAIT, GOTO_PORTRAIT),
      (WAITING, GOTO_PORTRAIT, GOTO_PORTRAIT), (FADE_IN, GOTO_LANDSCAPE, GOTO_PORTRAIT),
      (IDLE, GOTO_LANDSCAPE, GOTO_PORTRAIT)]
   \<and> direction (Orientation_change (hd_transition_rotating_fsm 4 fading_in_world)) =
       GOTO_LANDSCAPE"
  using fsm_reentry_is_bounded [of 4 fading_in_world] by (simp add: fading_in_world_facts)

text \<open>
  C6 (as stated, refuted): the claim says \<open>direction\<close> equals \<open>new_direction\<close> before
  every re-entrant call, the restart from FADE_IN included. When the fade-in timeline of
  the run above ends, the driver is entered in FADE_IN and enters itself again in IDLE;
  at that second entry \<open>direction\<close> is portrait and \<open>new_direction\<close> is landscape.
\<close>

theorem fsm_restart_from_fade_in_before_direction_update:
  "fsm_entries (trace (timeline_completed 4 1 fading_in_world)) =
     [(IDLE, GOTO_PORTRAIT, GOTO_LANDSCAPE), (FADE_OUT, GOTO_PORTRAIT, GOTO_PORTRAIT),
      (WAITING, GOTO_PORTRAIT, GOTO_PORTRAIT), (FADE_IN, GOTO_LANDSCAPE, GOTO_PORTRAIT),
      (IDLE, GOTO_LANDSCAPE, GOTO_PORTRAIT)]"
  by (simp add: timeline_completed_def fading_in_world_facts upd_timeline_Some_apply
      fsm_call_entries)

section \<open>The debounce timer\<close>

lemma ignore_damage_WAITING:
  "phase (Orientation_change w) = WAITING \<Longrightarrow>
     hd_transition_rotate_ignore_damage now w =
       (True,
        if g_timer_elapsed now (timer (Orientation_change w)) < damage_timeout_max w
        then g_timeout_add now
               (c_double_to_guint (hd_transition_get_double w ''rotate'' ''damage_timeout'' 50))
               (if timeout_id (Orientation_change w) \<noteq> 0
                then g_source_remove (timeout_id (Orientation_change w)) w else w)
        else w)"
  by (simp add: hd_transition_rotate_ignore_damage_def damage_timeout_max_def)

lemma damage_timeouts_cfg:
  "cfg v = cfg w \<Longrightarrow> damage_timeout_max v = damage_timeout_max w"
  "cfg v = cfg w \<Longrightarrow> damage_timeout v = damage_timeout w"
  by (simp_all add: damage_timeout_max_def damage_timeout_def cfg_reads)

lemma ignore_damage_keeps_armed:
  assumes armed: "waiting_armed t0 bound w"
    and budget: "t0 + damage_timeout_max w + damage_timeout w \<le> bound"
  shows "waiting_armed t0 bound (snd (hd_transition_rotate_ignore_damage now w))"
    and "cfg (snd (hd_transition_rotate_ignore_damage now w)) = cfg w"
    and "direction (Orientation_change (snd (hd_transition_rotate_ignore_damage now w))) =
         direction (Orientation_change w)"
    and "new_direction (Orientation_change (snd (hd_transition_rotate_ignore_damage now w))) =
         new_direction (Orientation_change w)"
    and "trace (snd (hd_transition_rotate_ignore_damage now w)) = trace w"
proof -
  have ph: "phase (Orientation_change w) = WAITING" using armed by (simp add: waiting_armed_def)
  show "waiting_armed t0 bound (snd (hd_transition_rotate_ignore_damage now w))"
  proof (cases "g_timer_elapsed now (timer (Orientation_change w)) < damage_timeout_max w")
    case True
    have tm: "timer (Orientation_change w) = Some t0" using armed by (simp add: waiting_armed_def)
    have "now + damage_timeout w \<le> bound"
      using True budget by (simp add: tm g_timer_elapsed_def)
    then show ?thesis
      using armed True
      by (simp add: ignore_damage_WAITING [OF ph] waiting_armed_def damage_timeout_def
          split: option.splits)
  next
    case False
    then show ?thesis using armed by (simp add: ignore_damage_WAITING [OF ph])
  qed
  show "cfg (snd (hd_transition_rotate_ignore_damage now w)) = cfg w"
    by (simp add: ignore_damage_WAITING [OF ph])
  show "direction (Orientation_change (snd (hd_transition_rotate_ignore_damage now w))) =
         direction (Orientation_change w)"
    by (simp add: ignore_damage_WAITING [OF ph])
  show "new_direction (Orientation_change (snd (hd_transition_rotate_ignore_damage now w))) =
         new_direction (Orientation_change w)"
    by (simp add: ignore_damage_WAITING [OF ph])
  show "trace (snd (hd_transition_rotate_ignore_damage now w)) = trace w"
    by (simp add: ignore_damage_WAITING [OF ph])
qed

lemma damage_queries_keep_armed:
  "waiting_armed t0 bound w \<Longrightarrow> t0 + damage_timeout_max w + damage_timeout w \<le> bound \<Longrightarrow>
     waiting_armed t0 bound (damage_queries ts w)
     \<and> cfg (damage_queries ts w) = cfg w
     \<and> direction (Orientation_change (damage_queries ts w)) = direction (Orientation_change w)
     \<and> new_direction (Orientation_change (damage_queries ts w)) =
         new_direction (Orientation_change w)
     \<and> trace (damage_queries ts w) = trace w"
proof (induction ts arbitrary: w)
  case Nil
  then show ?case by (simp add: damage_queries_def)
next
  case (Cons t ts)
  let ?v = "snd (hd_transition_rotate_ignore_damage t w)"
  note step = ignore_damage_keeps_armed [OF Cons.prems, of t]
  have budget: "t0 + damage_timeout_max ?v + damage_timeout ?v \<le> bound"
    using Cons.prems(2) by (simp add: damage_timeouts_cfg [OF step(2)])
  have "damage_queries (t # ts) w = damage_queries ts ?v"
    by (simp add: damage_queries_def)
  then show ?case
    using Cons.IH [OF step(1) budget] step by simp
qed

lemma timeout_fires_when_armed:
  assumes armed: "waiting_armed t0 bound w" and due: "bound \<le> t_fire"
  shows "timeout_dispatch t_fire (timeout_id (Orientation_change w)) w =
           g_source_remove (timeout_id (Orientation_change w)) (hd_transition_rotating_fsm t_fire w)"
  using armed due by (auto simp add: timeout_dispatch_def waiting_armed_def split: option.splits)

lemma fsm_leaves_WAITING:
  assumes ph: "phase (Orientation_change w) = WAITING"
  shows "phase (Orientation_change (hd_transition_rotating_fsm t_fire w)) =
           (if direction (Orientation_change w) = new_direction (Orientation_change w)
            then FADE_IN else WAITING)"
    and "direction (Orientation_change w) \<noteq> new_direction (Orientation_change w) \<Longrightarrow>
           timer (Orientation_change (hd_transition_rotating_fsm t_fire w)) = Some t_fire"
  by (simp_all add: fsm_WAITING [OF ph] fsm_divert_def)

lemma waiting_world_facts:
  "phase (Orientation_change waiting_world) = WAITING"
  "timer (Orientation_change waiting_world) = Some 1"
  "timeout_id (Orientation_change waiting_world) = Suc 0"
  "source_count waiting_world = Suc 0"
  "timeout_sources waiting_world (Suc 0) = Some (21 / 20)"
  "direction (Orientation_change waiting_world) = GOTO_PORTRAIT"
  "new_direction (Orientation_change waiting_world) = GOTO_PORTRAIT"
  "cfg waiting_world = demo_config"
  by (simp_all add: waiting_world_def hd_transition_rotate_screen_def timeline_completed_def
      Let_def fsm_IDLE fsm_FADE_OUT upd_timeline_Some_apply cfg_reads)

lemma redirected_waiting_world_facts:
  "phase (Orientation_change redirected_waiting_world) = WAITING"
  "timer (Orientation_change redirected_waiting_world) = Some 1"
  "timeout_id (Orientation_change redirected_waiting_world) = Suc 0"
  "source_count redirected_waiting_world = Suc 0"
  "timeout_sources redirected_waiting_world (Suc 0) = Some (21 / 20)"
  "direction (Orientation_change redirected_waiting_world) = GOTO_PORTRAIT"
  "new_direction (Orientation_change redirected_waiting_world) = GOTO_LANDSCAPE"
  "cfg redirected_waiting_world = demo_config"
  "orientation_changes (trace redirected_waiting_world) = [True]"
  by (simp_all add: redirected_waiting_world_def waiting_world_def
      hd_transition_rotate_screen_def timeline_completed_def
      Let_def fsm_IDLE fsm_FADE_OUT upd_timeline_Some_apply cfg_reads)

text \<open>
  C4 (as stated, refuted): the claim says that once the elapsed time has reached the
  ceiling, the next fire of the debounce timer takes the machine out of WAITING. In the
  run below the machine waits since time 1 with a ceiling of one second, and landscape
  has been requested while it waits. The damage queries at times 5/2 and 3 are granted
  no reset. The timeout fires at time 3: the driver goes through the code of FADE_OUT,
  reconfigures the screen for landscape and is in WAITING again, with a new timeout.
\<close>

theorem debounce_fire_reenters_waiting:
  "phase (Orientation_change redirected_waiting_world) = WAITING
   \<and> damage_timeout_max redirected_waiting_world
       \<le> g_timer_elapsed (5 / 2) (timer (Orientation_change redirected_waiting_world))
   \<and> damage_queries [5 / 2, 3] redirected_waiting_world = redirected_waiting_world
   \<and> phase (Orientation_change
         (timeout_dispatch 3 (timeout_id (Orientation_change redirected_waiting_world))
            redirected_waiting_world)) = WAITING
   \<and> timer (Orientation_change
         (timeout_dispatch 3 (timeout_id (Orientation_change redirected_waiting_world))
            redirected_waiting_world)) = Some 3
   \<and> orientation_changes (trace
         (timeout_dispatch 3 (timeout_id (Orientation_change redirected_waiting_world))
            redirected_waiting_world)) = [True, False]"
proof -
  have ph: "phase (Orientation_change redirected_waiting_world) = WAITING"
    by (simp add: redirected_waiting_world_facts)
  have q: "snd (hd_transition_rotate_ignore_damage t redirected_waiting_world) =
      redirected_waiting_world" if "2 \<le> t" for t
    using that
    by (simp add: ignore_damage_WAITING [OF ph] redirected_waiting_world_facts
        damage_timeout_max_def g_timer_elapsed_def cfg_reads)
  have fire: "timeout_dispatch 3 (Suc 0) redirected_waiting_world =
      g_source_remove (Suc 0) (hd_transition_rotating_fsm 3 redirected_waiting_world)"
    by (simp add: timeout_dispatch_def redirected_waiting_world_facts)
  show ?thesis
    by (simp add: ph q damage_queries_def fire fsm_WAITING [OF ph] fsm_divert_def
        redirected_waiting_world_facts damage_timeout_max_def g_timer_elapsed_def cfg_reads)
qed

text \<open>
  C4 (amended). While the machine is in WAITING with its debounce timeout armed, every
  damage query answers TRUE and re-arms the
  debounce timeout (removing the old source) exactly when the time elapsed since WAITING
  was entered is below the ceiling \<^verbatim>\<open>damage_timeout_max\<close>; at or beyond the ceiling the
  query changes nothing. Hence, whatever damage queries arrive and however fast, a
  timeout armed for no later than \<open>bound\<close>, where \<open>bound\<close> is at least the entry time plus
  ceiling plus debounce interval, stays armed for no later than \<open>bound\<close>; when it
  fires, the driver runs in WAITING: it goes to FADE_IN when the direction is unchanged;
  when the direction has changed it goes through the code of FADE_OUT and is in WAITING
  again, in a new waiting period that starts at the time of the fire.
\<close>

theorem waiting_debounce_has_a_ceiling:
  assumes armed: "waiting_armed t_enter bound w"
    and budget: "t_enter + damage_timeout_max w + damage_timeout w \<le> bound"
    and due: "bound \<le> t_fire"
  shows "fst (hd_transition_rotate_ignore_damage now w)
    \<and> snd (hd_transition_rotate_ignore_damage now w) =
        (if g_timer_elapsed now (timer (Orientation_change w)) < damage_timeout_max w
         then g_timeout_add now
                (c_double_to_guint (hd_transition_get_double w ''rotate'' ''damage_timeout'' 50))
                (g_source_remove (timeout_id (Orientation_change w)) w)
         else w)
    \<and> waiting_armed t_enter bound (damage_queries ts w)
    \<and> phase (Orientation_change
          (timeout_dispatch t_fire (timeout_id (Orientation_change (damage_queries ts w)))
             (damage_queries ts w))) =
        (if direction (Orientation_change w) = new_direction (Orientation_change w)
         then FADE_IN else WAITING)
    \<and> (if direction (Orientation_change w) = new_direction (Orientation_change w) then True
        else timer (Orientation_change
          (timeout_dispatch t_fire (timeout_id (Orientation_change (damage_queries ts w)))
             (damage_queries ts w))) = Some t_fire)
    \<and> map fst (fsm_entries (trace
          (timeout_dispatch t_fire (timeout_id (Orientation_change (damage_queries ts w)))
             (damage_queries ts w)))) =
        map fst (fsm_entries (trace w)) @
          (if direction (Orientation_change w) = new_direction (Orientation_change w)
           then [WAITING] else [WAITING, FADE_OUT])"
proof -
  let ?v = "damage_queries ts w"
  have waiting: "phase (Orientation_change w) = WAITING"
    using armed by (simp add: waiting_armed_def)
  note q = damage_queries_keep_armed [OF armed budget, of ts]
  have armed_v: "waiting_armed t_enter bound ?v" using q by simp
  have ph_v: "phase (Orientation_change ?v) = WAITING"
    using armed_v by (simp add: waiting_armed_def)
  have nonzero: "timeout_id (Orientation_change w) \<noteq> 0"
    using armed by (simp add: waiting_armed_def)
  have fire: "timeout_dispatch t_fire (timeout_id (Orientation_change ?v)) ?v =
      g_source_remove (timeout_id (Orientation_change ?v)) (hd_transition_rotating_fsm t_fire ?v)"
    by (rule timeout_fires_when_armed [OF armed_v due])
  show ?thesis
    using q nonzero fsm_leaves_WAITING [OF ph_v, of t_fire] fsm_call_entries [of t_fire ?v] ph_v
    by (simp add: ignore_damage_WAITING [OF waiting] fire)
qed

theorem waiting_debounce_witness:
  "phase (Orientation_change waiting_world) = WAITING
   \<and> waiting_armed 1 (41 / 20) waiting_world
   \<and> 1 + damage_timeout_max waiting_world + damage_timeout waiting_world \<le> 41 / 20
   \<and> (41 / 20 :: real) \<le> 3
   \<and> waiting_armed 1 (41 / 20) (damage_queries [101 / 100, 104 / 100, 2, 5 / 2] waiting_world)
   \<and> phase (Orientation_change
         (timeout_dispatch 3
            (timeout_id (Orientation_change
               (damage_queries [101 / 100, 104 / 100, 2, 5 / 2] waiting_world)))
            (damage_queries [101 / 100, 104 / 100, 2, 5 / 2] waiting_world))) = FADE_IN"
proof -
  have h1: "phase (Orientation_change waiting_world) = WAITING"
    by (simp add: waiting_world_facts)
  have h2: "waiting_armed 1 (41 / 20) waiting_world"
    by (simp add: waiting_armed_def waiting_world_facts)
  have h3: "1 + damage_timeout_max waiting_world + damage_timeout waiting_world \<le> 41 / 20"
    by (simp add: damage_timeout_max_def damage_timeout_def waiting_world_facts cfg_reads)
  have h4: "(41 / 20 :: real) \<le> 3" by simp
  show ?thesis
    using waiting_debounce_has_a_ceiling [OF h2 h3 h4,
        of 0 "[101 / 100, 104 / 100, 2, 5 / 2]"] h1 h2 h3
    by (simp add: waiting_world_facts)
qed

section \<open>Starting transitions\<close>

lemma popup_trace:
  "client_actor (clients w c) = Some a \<Longrightarrow>
     trace (hd_transition_popup c ev w) =
       trace w @ [Set_effect_running (next_effect w) True,
                  New_frame on_popup_timeline_new_frame (next_effect w) 0,
                  Timeline_start (next_effect w)]"
  by (simp add: hd_transition_popup_def Let_def derived_defs)

lemma fade_trace:
  "trace (hd_transition_fade c ev w) =
     trace w @ [Set_effect_running (next_effect w) True,
                New_frame on_fade_timeline_new_frame (next_effect w) 0,
                Timeline_start (next_effect w)]"
  by (simp add: hd_transition_fade_def Let_def derived_defs)

lemma notification_trace:
  "trace (hd_transition_notification c ev w) =
     trace w @ [Set_effect_running (next_effect w) True,
                New_frame on_notification_timeline_new_frame (next_effect w) 0,
                Timeline_start (next_effect w)]"
  by (simp add: hd_transition_notification_def Let_def derived_defs)

lemma subview_start_trace:
  "trace (subview_start sv mv ev w) =
     trace w @ [Set_effect_running (next_effect w) True,
                New_frame on_subview_timeline_new_frame (next_effect w) 0,
                Timeline_start (next_effect w)]"
  by (simp add: subview_start_def Let_def derived_defs)

lemma subview_fresh:
  "sv \<noteq> mv \<Longrightarrow> has_cm_client (clients w sv) \<Longrightarrow> has_cm_client (clients w mv) \<Longrightarrow>
   STATE_IS_APP (cfg w) state \<Longrightarrow>
   MBWMCompMgrClutterClientEffectRunning \<notin> flags (clients w sv) \<Longrightarrow>
   MBWMCompMgrClutterClientEffectRunning \<notin> flags (clients w mv) \<Longrightarrow>
     hd_transition_subview state (Some sv) (Some mv) ev w = subview_start sv mv ev w"
  by (simp add: hd_transition_subview_def Let_def)

text \<open>
  C10 (amended). \<open>hd_transition_popup\<close> (for a client with an actor),
  \<open>hd_transition_fade\<close>, \<open>hd_transition_notification\<close> and \<open>hd_transition_subview\<close> (when
  it starts a new effect), and the rotation's own \<open>hd_transition_fade_and_rotate\<close>, call
  their new-frame handler for frame 0 synchronously and start the timeline right after
  it: these are the last two calls they make.
\<close>

theorem first_frame_before_timeline_start:
  "(client_actor (clients w c) = Some a \<longrightarrow>
      trace (hd_transition_popup c ev w) =
        trace w @ [Set_effect_running (next_effect w) True,
                   New_frame on_popup_timeline_new_frame (next_effect w) 0,
                   Timeline_start (next_effect w)])
   \<and> trace (hd_transition_fade c ev w) =
        trace w @ [Set_effect_running (next_effect w) True,
                   New_frame on_fade_timeline_new_frame (next_effect w) 0,
                   Timeline_start (next_effect w)]
   \<and> trace (hd_transition_notification c ev w) =
        trace w @ [Set_effect_running (next_effect w) True,
                   New_frame on_notification_timeline_new_frame (next_effect w) 0,
                   Timeline_start (next_effect w)]
   \<and> (sv \<noteq> mv \<and> has_cm_client (clients w sv) \<and> has_cm_client (clients w mv)
        \<and> STATE_IS_APP (cfg w) state
        \<and> MBWMCompMgrClutterClientEffectRunning \<notin> flags (clients w sv)
        \<and> MBWMCompMgrClutterClientEffectRunning \<notin> flags (clients w mv) \<longrightarrow>
      trace (hd_transition_subview state (Some sv) (Some mv) ev w) =
        trace w @ [Set_effect_running (next_effect w) True,
                   New_frame on_subview_timeline_new_frame (next_effect w) 0,
                   Timeline_start (next_effect w)])
   \<and> trace (hd_transition_fade_and_rotate first_part goto_portrait cb w) =
        trace w @ [New_frame on_rotate_screen_timeline_new_frame (next_effect w) 0,
                   Timeline_start (next_effect w)]"
  by (simp add: popup_trace fade_trace notification_trace subview_fresh subview_start_trace)

lemma demo_client_simps [simp]:
  "flags (demo_client c) = {}"
  "effect (demo_client c) = None"
  "client_actor (demo_client c) = Some (ClientActor c)"
  "client_refs (demo_client c) = 1"
  "has_cm_client (demo_client c)"
  "client_type (demo_client c) = MBWMClientTypeApp"
  "stack_index (demo_client c) = 0"
  "is_leader (demo_client c)"
  by (simp_all add: demo_client_def)

lemma demo_actor_simps [simp]:
  "visible (demo_actor a)"
  "geo_width (geometry (demo_actor a)) = 800"
  "geo_height (geometry (demo_actor a)) = 480"
  "parent (demo_actor a) = None"
  "ref_count (demo_actor a) = 1"
  "anchor_x (demo_actor a) = 0"
  "anchor_y (demo_actor a) = 0"
  by (simp_all add: demo_actor_def)

theorem first_frame_before_timeline_start_witness:
  "client_actor (clients demo_world 1) = Some (ClientActor 1)
   \<and> trace (hd_transition_popup 1 MBWMCompMgrClientEventMap demo_world) =
        [Set_effect_running 0 True, New_frame on_popup_timeline_new_frame 0 0, Timeline_start 0]
   \<and> (1 :: nat) \<noteq> 2 \<and> has_cm_client (clients demo_world 1) \<and> has_cm_client (clients demo_world 2)
   \<and> STATE_IS_APP (cfg demo_world) (HDRM_STATE_other 0)
   \<and> MBWMCompMgrClutterClientEffectRunning \<notin> flags (clients demo_world 1)
   \<and> MBWMCompMgrClutterClientEffectRunning \<notin> flags (clients demo_world 2)
   \<and> trace (hd_transition_subview (HDRM_STATE_other 0) (Some 1) (Some 2)
        MBWMCompMgrClientEventMap demo_world) =
        [Set_effect_running 0 True, New_frame on_subview_timeline_new_frame 0 0,
         Timeline_start 0]"
  using first_frame_before_timeline_start [of demo_world 1 "ClientActor 1"
      MBWMCompMgrClientEventMap 1 2 "HDRM_STATE_other 0"]
  by simp

text \<open>
  C10 (as stated, refuted): the claim counts app-close among the operations that apply
  the first frame before starting the timer. \<open>hd_transition_close_app\<close> on a visible
  application window of 800x480 creates its effect and starts the timeline, and makes
  no new-frame call at all.
\<close>

theorem close_app_starts_without_first_frame:
  "trace (hd_transition_close_app (HDRM_STATE_other 0) [True, True] 1 demo_world) =
     [Set_effect_running 0 True, Timeline_start 0, Play_sound]
   \<and> map_option running
        (timelines (hd_transition_close_app (HDRM_STATE_other 0) [True, True] 1 demo_world) 0)
      = Some True"
  by (simp add: hd_transition_close_app_def Let_def derived_defs close_particle_def
      upt_conv_Cons)

section \<open>Subview transitions\<close>

lemma effect_flags_member [simp]:
  "MBWMCompMgrClutterClientEffectRunning \<in> effect_flags"
  by (simp add: effect_flags_def)

lemma subview_start_proj [simp]:
  "next_effect (subview_start sv mv ev w) = Suc (next_effect w)"
  "Orientation_change (subview_start sv mv ev w) = Orientation_change w"
  "timeout_sources (subview_start sv mv ev w) = timeout_sources w"
  "source_count (subview_start sv mv ev w) = source_count w"
  "cfg (subview_start sv mv ev w) = cfg w"
  "effects_running (subview_start sv mv ev w) = effects_running w + 1"
  "effects (subview_start sv mv ev w) =
     (effects w)(next_effect w := Some \<lparr>event = ev, timeline = Some (next_effect w),
        cclient = Some sv, cclient_actor = client_actor (clients w sv),
        cclient2 = Some mv, cclient2_actor = client_actor (clients w mv),
        hmgr = True, geo = no_geometry, angle = 0, particles = []\<rparr>)"
  "timelines (subview_start sv mv ev w) =
     (timelines w)(next_effect w := Some \<lparr>n_frames = hd_transition_timeline_new w ''subview'' ev 250,
        running = True, new_frame_handler = on_subview_timeline_new_frame,
        handler_data = next_effect w, finished_callback = False, timeline_refs = 2\<rparr>)"
  by (simp_all add: subview_start_def Let_def derived_defs cfg_reads)

lemma subview_start_clients:
  "sv \<noteq> mv \<Longrightarrow>
   clients (subview_start sv mv ev w) =
     (clients w)
       (sv := (clients w sv)\<lparr>flags := flags (clients w sv) \<union> effect_flags,
                effect := Some (next_effect w), client_refs := client_refs (clients w sv) + 1\<rparr>,
        mv := (clients w mv)\<lparr>flags := flags (clients w mv) \<union> effect_flags,
                effect := Some (next_effect w), client_refs := client_refs (clients w mv) + 1\<rparr>)"
  by (auto simp add: subview_start_def Let_def derived_defs fun_eq_iff)

lemma subview_replace_cclient_proj [simp]:
  "next_effect (subview_replace_cclient d data sv w) = next_effect w"
  "Orientation_change (subview_replace_cclient d data sv w) = Orientation_change w"
  "timeout_sources (subview_replace_cclient d data sv w) = timeout_sources w"
  "source_count (subview_replace_cclient d data sv w) = source_count w"
  "cfg (subview_replace_cclient d data sv w) = cfg w"
  "effects_running (subview_replace_cclient d data sv w) = effects_running w"
  "timelines (subview_replace_cclient d data sv w) = timelines w"
  "trace (subview_replace_cclient d data sv w) = trace w"
  "effects (subview_replace_cclient d data sv w) =
     (effects w)(d := Some (data\<lparr>cclient := Some sv,
        cclient_actor := client_actor (clients w sv)\<rparr>))"
  by (simp_all add: subview_replace_cclient_def derived_defs cong: option.case_cong)

lemma subview_replace_cclient_clients:
  "cclient data = Some mv \<Longrightarrow> sv \<noteq> mv \<Longrightarrow>
   clients (subview_replace_cclient d data sv w) =
     (clients w)
       (mv := (clients w mv)\<lparr>flags := flags (clients w mv) - effect_flags,
                effect := None, client_refs := client_refs (clients w mv) - 1\<rparr>,
        sv := (clients w sv)\<lparr>flags := flags (clients w sv) \<union> effect_flags,
                effect := Some d, client_refs := client_refs (clients w sv) + 1\<rparr>)"
  by (auto simp add: subview_replace_cclient_def derived_defs fun_eq_iff cong: option.case_cong)

lemma subview_dropped:
  "sv \<noteq> mv \<Longrightarrow>
   MBWMCompMgrClutterClientEffectRunning \<in> flags (clients w sv) \<Longrightarrow>
   MBWMCompMgrClutterClientEffectRunning \<in> flags (clients w mv) \<Longrightarrow>
     hd_transition_subview state (Some sv) (Some mv) ev w = w"
  by (simp add: hd_transition_subview_def Let_def)

lemma subview_swaps:
  "sv \<noteq> mv \<Longrightarrow> has_cm_client (clients w sv) \<Longrightarrow> has_cm_client (clients w mv) \<Longrightarrow>
   STATE_IS_APP (cfg w) state \<Longrightarrow>
   MBWMCompMgrClutterClientEffectRunning \<notin> flags (clients w sv) \<Longrightarrow>
   MBWMCompMgrClutterClientEffectRunning \<in> flags (clients w mv) \<Longrightarrow>
   effect (clients w mv) = Some d \<Longrightarrow> effects w d = Some data \<Longrightarrow>
   event data = MBWMCompMgrClientEventMap \<Longrightarrow> cclient data = Some mv \<Longrightarrow>
     hd_transition_subview state (Some sv) (Some mv) MBWMCompMgrClientEventMap w =
       subview_replace_cclient d data sv w"
  by (simp add: hd_transition_subview_def Let_def)

lemma subview_push_push:
  assumes distinct: "a \<noteq> b" "b \<noteq> c" "a \<noteq> c"
    and cm: "has_cm_client (clients w a)" "has_cm_client (clients w b)"
      "has_cm_client (clients w c)"
    and app: "STATE_IS_APP (cfg w) state"
    and idle: "MBWMCompMgrClutterClientEffectRunning \<notin> flags (clients w a)"
      "MBWMCompMgrClutterClientEffectRunning \<notin> flags (clients w b)"
      "MBWMCompMgrClutterClientEffectRunning \<notin> flags (clients w c)"
  defines "w1 \<equiv> hd_transition_subview state (Some b) (Some a) MBWMCompMgrClientEventMap w"
  defines "w2 \<equiv> hd_transition_subview state (Some c) (Some b) MBWMCompMgrClientEventMap w1"
  shows "next_effect w2 = Suc (next_effect w)"
    and "effects w2 = (effects w)(next_effect w := Some \<lparr>event = MBWMCompMgrClientEventMap,
           timeline = Some (next_effect w), cclient = Some c,
           cclient_actor = client_actor (clients w c), cclient2 = Some a,
           cclient2_actor = client_actor (clients w a), hmgr = True, geo = no_geometry,
           angle = 0, particles = []\<rparr>)"
    and "map_option running (timelines w2 (next_effect w)) = Some True"
    and "effects_running w2 = effects_running w + 1"
    and "clients w2 a = (clients w a)\<lparr>flags := flags (clients w a) \<union> effect_flags,
           effect := Some (next_effect w), client_refs := client_refs (clients w a) + 1\<rparr>"
    and "clients w2 b = (clients w b)\<lparr>flags := flags (clients w b) - effect_flags,
           effect := None, client_refs := client_refs (clients w b)\<rparr>"
    and "clients w2 c = (clients w c)\<lparr>flags := flags (clients w c) \<union> effect_flags,
           effect := Some (next_effect w), client_refs := client_refs (clients w c) + 1\<rparr>"
proof -
  let ?d = "next_effect w"
  let ?data = "\<lparr>event = MBWMCompMgrClientEventMap, timeline = Some ?d, cclient = Some b,
     cclient_actor = client_actor (clients w b), cclient2 = Some a,
     cclient2_actor = client_actor (clients w a), hmgr = True, geo = no_geometry,
     angle = 0, particles = []\<rparr>"
  have w1: "w1 = subview_start b a MBWMCompMgrClientEventMap w"
    unfolding w1_def using distinct cm app idle by (simp add: subview_fresh)
  have cl1: "clients w1 = (clients w)
       (b := (clients w b)\<lparr>flags := flags (clients w b) \<union> effect_flags,
                effect := Some ?d, client_refs := client_refs (clients w b) + 1\<rparr>,
        a := (clients w a)\<lparr>flags := flags (clients w a) \<union> effect_flags,
                effect := Some ?d, client_refs := client_refs (clients w a) + 1\<rparr>)"
    unfolding w1 using distinct by (simp add: subview_start_clients)
  have eff1: "effects w1 ?d = Some ?data" unfolding w1 by simp
  have w2: "w2 = subview_replace_cclient ?d ?data c w1"
    unfolding w2_def
    using distinct cm app idle
    by (intro subview_swaps) (simp_all add: cl1 eff1, simp_all add: w1)
  show "next_effect w2 = Suc (next_effect w)" by (simp add: w2 w1)
  show "effects w2 = (effects w)(next_effect w := Some \<lparr>event = MBWMCompMgrClientEventMap,
           timeline = Some (next_effect w), cclient = Some c,
           cclient_actor = client_actor (clients w c), cclient2 = Some a,
           cclient2_actor = client_actor (clients w a), hmgr = True, geo = no_geometry,
           angle = 0, particles = []\<rparr>)"
    using distinct by (simp add: w2 cl1) (simp add: w1)
  show "map_option running (timelines w2 (next_effect w)) = Some True" by (simp add: w2 w1)
  show "effects_running w2 = effects_running w + 1" by (simp add: w2 w1)
  have cl2: "clients w2 = (clients w1)
       (b := (clients w1 b)\<lparr>flags := flags (clients w1 b) - effect_flags,
                effect := None, client_refs := client_refs (clients w1 b) - 1\<rparr>,
        c := (clients w1 c)\<lparr>flags := flags (clients w1 c) \<union> effect_flags,
                effect := Some ?d, client_refs := client_refs (clients w1 c) + 1\<rparr>)"
    unfolding w2 using distinct by (subst subview_replace_cclient_clients) simp_all
  show "clients w2 a = (clients w a)\<lparr>flags := flags (clients w a) \<union> effect_flags,
           effect := Some (next_effect w), client_refs := client_refs (clients w a) + 1\<rparr>"
    using distinct by (simp add: cl2 cl1)
  show "clients w2 b = (clients w b)\<lparr>flags := flags (clients w b) - effect_flags,
           effect := None, client_refs := client_refs (clients w b)\<rparr>"
    using distinct by (simp add: cl2 cl1 Un_Diff)
  show "clients w2 c = (clients w c)\<lparr>flags := flags (clients w c) \<union> effect_flags,
           effect := Some (next_effect w), client_refs := client_refs (clients w c) + 1\<rparr>"
    using distinct by (simp add: cl2 cl1)
qed

text \<open>
  C5. For subview transitions between two different clients: (1) if both the subview and
  the mainview of a request have the effect-running flag, the request is dropped and the
  world is unchanged; (2) if only the mainview has it, the request is a map, and the
  mainview's effect is a map effect whose \<^verbatim>\<open>cclient\<close> is the mainview, then no record is
  created and that record's \<^verbatim>\<open>cclient\<close> and \<^verbatim>\<open>cclient_actor\<close> become the subview and
  its actor, the mainview loses the two effect flags, its effect pointer and one
  reference, the subview gains them; (3) so pushing a to b and then b to c, from three
  different clients none of which is in a transition, leaves exactly one record, running,
  that slides in c over a, with the flags and the effect pointer set on a and c and
  cleared on b.
\<close>

theorem subview_requests_coalesce:
  "(sv \<noteq> mv \<and> MBWMCompMgrClutterClientEffectRunning \<in> flags (clients w sv)
      \<and> MBWMCompMgrClutterClientEffectRunning \<in> flags (clients w mv) \<longrightarrow>
      hd_transition_subview state (Some sv) (Some mv) ev w = w)
   \<and> (sv \<noteq> mv \<and> has_cm_client (clients w sv) \<and> has_cm_client (clients w mv)
      \<and> STATE_IS_APP (cfg w) state
      \<and> MBWMCompMgrClutterClientEffectRunning \<notin> flags (clients w sv)
      \<and> MBWMCompMgrClutterClientEffectRunning \<in> flags (clients w mv)
      \<and> effect (clients w mv) = Some d \<and> effects w d = Some data
      \<and> event data = MBWMCompMgrClientEventMap \<and> cclient data = Some mv \<longrightarrow>
      next_effect (hd_transition_subview state (Some sv) (Some mv) MBWMCompMgrClientEventMap w)
        = next_effect w
      \<and> effects (hd_transition_subview state (Some sv) (Some mv) MBWMCompMgrClientEventMap w)
        = (effects w)(d := Some (data\<lparr>cclient := Some sv,
             cclient_actor := client_actor (clients w sv)\<rparr>))
      \<and> clients (hd_transition_subview state (Some sv) (Some mv) MBWMCompMgrClientEventMap w)
        = (clients w)
            (mv := (clients w mv)\<lparr>flags := flags (clients w mv) - effect_flags,
               effect := None, client_refs := client_refs (clients w mv) - 1\<rparr>,
             sv := (clients w sv)\<lparr>flags := flags (clients w sv) \<union> effect_flags,
               effect := Some d, client_refs := client_refs (clients w sv) + 1\<rparr>)
      \<and> actors (hd_transition_subview state (Some sv) (Some mv) MBWMCompMgrClientEventMap w)
        = actors (g_object_ref (client_actor (clients w sv))
            (g_object_unref (cclient_actor data)
              (clutter_actor_set_anchor_point (cclient_actor data) 0 0
                (clutter_actor_hide (cclient_actor data) w))))
      \<and> timelines (hd_transition_subview state (Some sv) (Some mv) MBWMCompMgrClientEventMap w)
        = timelines w
      \<and> effects_running
          (hd_transition_subview state (Some sv) (Some mv) MBWMCompMgrClientEventMap w)
        = effects_running w)
   \<and> (a \<noteq> b \<and> b \<noteq> c \<and> a \<noteq> c
      \<and> has_cm_client (clients w a) \<and> has_cm_client (clients w b)
      \<and> has_cm_client (clients w c) \<and> STATE_IS_APP (cfg w) state
      \<and> MBWMCompMgrClutterClientEffectRunning \<notin> flags (clients w a)
      \<and> MBWMCompMgrClutterClientEffectRunning \<notin> flags (clients w b)
      \<and> MBWMCompMgrClutterClientEffectRunning \<notin> flags (clients w c) \<longrightarrow>
      next_effect (hd_transition_subview state (Some c) (Some b) MBWMCompMgrClientEventMap
          (hd_transition_subview state (Some b) (Some a) MBWMCompMgrClientEventMap w))
        = Suc (next_effect w)
      \<and> effects (hd_transition_subview state (Some c) (Some b) MBWMCompMgrClientEventMap
          (hd_transition_subview state (Some b) (Some a) MBWMCompMgrClientEventMap w))
        = (effects w)(next_effect w := Some \<lparr>event = MBWMCompMgrClientEventMap,
             timeline = Some (next_effect w), cclient = Some c,
             cclient_actor = client_actor (clients w c), cclient2 = Some a,
             cclient2_actor = client_actor (clients w a), hmgr = True, geo = no_geometry,
             angle = 0, particles = []\<rparr>)
      \<and> map_option running
          (timelines (hd_transition_subview state (Some c) (Some b) MBWMCompMgrClientEventMap
             (hd_transition_subview state (Some b) (Some a) MBWMCompMgrClientEventMap w))
             (next_effect w))
        = Some True
      \<and> effects_running (hd_transition_subview state (Some c) (Some b)
          MBWMCompMgrClientEventMap
          (hd_transition_subview state (Some b) (Some a) MBWMCompMgrClientEventMap w))
        = effects_running w + 1
      \<and> clients (hd_transition_subview state (Some c) (Some b) MBWMCompMgrClientEventMap
          (hd_transition_subview state (Some b) (Some a) MBWMCompMgrClientEventMap w)) a
        = (clients w a)\<lparr>flags := flags (clients w a) \<union> effect_flags,
             effect := Some (next_effect w), client_refs := client_refs (clients w a) + 1\<rparr>
      \<and> clients (hd_transition_subview state (Some c) (Some b) MBWMCompMgrClientEventMap
          (hd_transition_subview state (Some b) (Some a) MBWMCompMgrClientEventMap w)) b
        = (clients w b)\<lparr>flags := flags (clients w b) - effect_flags,
             effect := None, client_refs := client_refs (clients w b)\<rparr>
      \<and> clients (hd_transition_subview state (Some c) (Some b) MBWMCompMgrClientEventMap
          (hd_transition_subview state (Some b) (Some a) MBWMCompMgrClientEventMap w)) c
        = (clients w c)\<lparr>flags := flags (clients w c) \<union> effect_flags,
             effect := Some (next_effect w), client_refs := client_refs (clients w c) + 1\<rparr>)"
proof (intro conjI impI)
  assume "sv \<noteq> mv \<and> MBWMCompMgrClutterClientEffectRunning \<in> flags (clients w sv)
      \<and> MBWMCompMgrClutterClientEffectRunning \<in> flags (clients w mv)"
  then show "hd_transition_subview state (Some sv) (Some mv) ev w = w"
    by (simp add: subview_dropped)
next
  assume h: "sv \<noteq> mv \<and> has_cm_client (clients w sv) \<and> has_cm_client (clients w mv)
      \<and> STATE_IS_APP (cfg w) state
      \<and> MBWMCompMgrClutterClientEffectRunning \<notin> flags (clients w sv)
      \<and> MBWMCompMgrClutterClientEffectRunning \<in> flags (clients w mv)
      \<and> effect (clients w mv) = Some d \<and> effects w d = Some data
      \<and> event data = MBWMCompMgrClientEventMap \<and> cclient data = Some mv"
  then have sw: "hd_transition_subview state (Some sv) (Some mv) MBWMCompMgrClientEventMap w =
      subview_replace_cclient d data sv w"
    by (intro subview_swaps) simp_all
  show "next_effect (hd_transition_subview state (Some sv) (Some mv) MBWMCompMgrClientEventMap w)
        = next_effect w"
    by (simp add: sw)
  show "effects (hd_transition_subview state (Some sv) (Some mv) MBWMCompMgrClientEventMap w)
        = (effects w)(d := Some (data\<lparr>cclient := Some sv,
             cclient_actor := client_actor (clients w sv)\<rparr>))"
    by (simp add: sw)
  show "clients (hd_transition_subview state (Some sv) (Some mv) MBWMCompMgrClientEventMap w)
        = (clients w)
            (mv := (clients w mv)\<lparr>flags := flags (clients w mv) - effect_flags,
               effect := None, client_refs := client_refs (clients w mv) - 1\<rparr>,
             sv := (clients w sv)\<lparr>flags := flags (clients w sv) \<union> effect_flags,
               effect := Some d, client_refs := client_refs (clients w sv) + 1\<rparr>)"
    using h by (simp add: sw subview_replace_cclient_clients)
  show "actors (hd_transition_subview state (Some sv) (Some mv) MBWMCompMgrClientEventMap w)
        = actors (g_object_ref (client_actor (clients w sv))
            (g_object_unref (cclient_actor data)
              (clutter_actor_set_anchor_point (cclient_actor data) 0 0
                (clutter_actor_hide (cclient_actor data) w))))"
    using h by (simp add: sw subview_replace_cclient_def derived_defs cong: option.case_cong)
  show "timelines (hd_transition_subview state (Some sv) (Some mv) MBWMCompMgrClientEventMap w)
        = timelines w"
    by (simp add: sw)
  show "effects_running
          (hd_transition_subview state (Some sv) (Some mv) MBWMCompMgrClientEventMap w)
        = effects_running w"
    by (simp add: sw)
qed (simp_all add: subview_push_push)

theorem subview_requests_coalesce_witness:
  "(1 :: nat) \<noteq> 2 \<and> (2 :: nat) \<noteq> 3 \<and> (1 :: nat) \<noteq> 3
   \<and> STATE_IS_APP (cfg demo_world) (HDRM_STATE_other 0)
   \<and> MBWMCompMgrClutterClientEffectRunning \<notin> flags (clients demo_world 1)
   \<and> next_effect (hd_transition_subview (HDRM_STATE_other 0) (Some 3) (Some 2)
         MBWMCompMgrClientEventMap
         (hd_transition_subview (HDRM_STATE_other 0) (Some 2) (Some 1)
            MBWMCompMgrClientEventMap demo_world)) = 1
   \<and> map_option cclient (effects (hd_transition_subview (HDRM_STATE_other 0) (Some 3) (Some 2)
         MBWMCompMgrClientEventMap
         (hd_transition_subview (HDRM_STATE_other 0) (Some 2) (Some 1)
            MBWMCompMgrClientEventMap demo_world)) 0) = Some (Some 3)
   \<and> flags (clients (hd_transition_subview (HDRM_STATE_other 0) (Some 3) (Some 2)
         MBWMCompMgrClientEventMap
         (hd_transition_subview (HDRM_STATE_other 0) (Some 2) (Some 1)
            MBWMCompMgrClientEventMap demo_world)) 2) = {}
   \<and> flags (clients (hd_transition_subview (HDRM_STATE_other 0) (Some 3) (Some 2)
         MBWMCompMgrClientEventMap
         (hd_transition_subview (HDRM_STATE_other 0) (Some 2) (Some 1)
            MBWMCompMgrClientEventMap demo_world)) 3) = effect_flags
   \<and> hd_transition_subview (HDRM_STATE_other 0) (Some 3) (Some 1) MBWMCompMgrClientEventMap
         (hd_transition_subview (HDRM_STATE_other 0) (Some 3) (Some 2)
            MBWMCompMgrClientEventMap
            (hd_transition_subview (HDRM_STATE_other 0) (Some 2) (Some 1)
               MBWMCompMgrClientEventMap demo_world)) =
       hd_transition_subview (HDRM_STATE_other 0) (Some 3) (Some 2)
            MBWMCompMgrClientEventMap
            (hd_transition_subview (HDRM_STATE_other 0) (Some 2) (Some 1)
               MBWMCompMgrClientEventMap demo_world)"
  using subview_requests_coalesce [where w = demo_world and a = 1 and b = 2 and c = 3
      and state = "HDRM_STATE_other 0" and sv = 0 and mv = 0]
    subview_requests_coalesce [where sv = 3 and mv = 1 and state = "HDRM_STATE_other 0"
      and ev = MBWMCompMgrClientEventMap and a = 0 and b = 0 and c = 0
      and w = "hd_transition_subview (HDRM_STATE_other 0) (Some 3) (Some 2)
            MBWMCompMgrClientEventMap
            (hd_transition_subview (HDRM_STATE_other 0) (Some 2) (Some 1)
               MBWMCompMgrClientEventMap demo_world)"]
  by simp

section \<open>Teardown happens once\<close>

lemma completed_log_simps [simp]:
  "completed_log [] = []"
  "completed_log (xs @ ys) = completed_log xs @ completed_log ys"
  "completed_log (Fsm_debug p nd dr # xs) = completed_log xs"
  "completed_log (New_frame h d n # xs) = completed_log xs"
  "completed_log (Timeline_start t # xs) = completed_log xs"
  "completed_log (Timeline_stop t # xs) = completed_log xs"
  "completed_log (Completed d # xs) = d # completed_log xs"
  "completed_log (Particle_unref a # xs) = completed_log xs"
  "completed_log (Set_effect_running d b # xs) = completed_log xs"
  "completed_log (Change_screen_orientation b # xs) = completed_log xs"
  "completed_log (Render_manager_set_state st # xs) = completed_log xs"
  "completed_log (Render_manager_restack # xs) = completed_log xs"
  "completed_log (Play_sound # xs) = completed_log xs"
  "completed_log (G_critical # xs) = completed_log xs"
  by (simp_all add: completed_log_def List.map_filter_def)

lemma unref_log_simps [simp]:
  "unref_log [] = []"
  "unref_log (xs @ ys) = unref_log xs @ unref_log ys"
  "unref_log (Fsm_debug p nd dr # xs) = unref_log xs"
  "unref_log (New_frame h d n # xs) = unref_log xs"
  "unref_log (Timeline_start t # xs) = unref_log xs"
  "unref_log (Timeline_stop t # xs) = unref_log xs"
  "unref_log (Completed d # xs) = unref_log xs"
  "unref_log (Particle_unref a # xs) = a # unref_log xs"
  "unref_log (Set_effect_running d b # xs) = unref_log xs"
  "unref_log (Change_screen_orientation b # xs) = unref_log xs"
  "unref_log (Render_manager_set_state st # xs) = unref_log xs"
  "unref_log (Render_manager_restack # xs) = unref_log xs"
  "unref_log (Play_sound # xs) = unref_log xs"
  "unref_log (G_critical # xs) = unref_log xs"
  by (simp_all add: unref_log_def List.map_filter_def)

lemma decrement_log_simps [simp]:
  "decrement_log [] = []"
  "decrement_log (xs @ ys) = decrement_log xs @ decrement_log ys"
  "decrement_log (Fsm_debug p nd dr # xs) = decrement_log xs"
  "decrement_log (New_frame h d n # xs) = decrement_log xs"
  "decrement_log (Timeline_start t # xs) = decrement_log xs"
  "decrement_log (Timeline_stop t # xs) = decrement_log xs"
  "decrement_log (Completed d # xs) = decrement_log xs"
  "decrement_log (Particle_unref a # xs) = decrement_log xs"
  "decrement_log (Set_effect_running d True # xs) = decrement_log xs"
  "decrement_log (Set_effect_running d False # xs) = d # decrement_log xs"
  "decrement_log (Change_screen_orientation b # xs) = decrement_log xs"
  "decrement_log (Render_manager_set_state st # xs) = decrement_log xs"
  "decrement_log (Render_manager_restack # xs) = decrement_log xs"
  "decrement_log (Play_sound # xs) = decrement_log xs"
  "decrement_log (G_critical # xs) = decrement_log xs"
  by (simp_all add: decrement_log_def List.map_filter_def)

text \<open>Counting calls in the trace is counting in the logs.\<close>

lemma count_completed: "count_list cs (Completed d) = count_list (completed_log cs) d"
proof (induction cs)
  case Nil
  show ?case by simp
next
  case (Cons e cs)
  then show ?case by (cases e) simp_all
qed

lemma count_unref: "count_list cs (Particle_unref a) = count_list (unref_log cs) a"
proof (induction cs)
  case Nil
  show ?case by simp
next
  case (Cons e cs)
  then show ?case by (cases e) simp_all
qed

lemma count_decrement:
  "count_list cs (Set_effect_running d False) = count_list (decrement_log cs) d"
proof (induction cs)
  case Nil
  show ?case by simp
next
  case (Cons e cs)
  show ?case
  proof (cases e)
    case (Set_effect_running d' b)
    then show ?thesis using Cons by (cases b) simp_all
  qed (simp_all add: Cons)
qed

lemma distinct_count_le_one: "distinct xs \<Longrightarrow> count_list xs v \<le> 1"
  by (induction xs) (auto simp add: count_list_0_iff)

text \<open>The logs of a teardown.\<close>

lemma particle_unrefs_logs [simp]:
  "completed_log (particle_unrefs ps) = []"
  "decrement_log (particle_unrefs ps) = []"
  by (induction ps; simp add: particle_unrefs_def split: option.splits)+

lemma unref_log_particle_unrefs:
  "unref_log (particle_unrefs ps) = List.map_filter (\<lambda>p. p) ps"
proof (induction ps)
  case Nil
  show ?case by (simp add: List.map_filter_def)
next
  case (Cons p ps)
  then show ?case by (cases p) (simp_all add: List.map_filter_def)
qed

lemma own_particles_released:
  "own_particles d ps \<Longrightarrow>
     distinct (List.map_filter (\<lambda>p. p) ps)
     \<and> (\<forall>a \<in> set (List.map_filter (\<lambda>p. p) ps). \<exists>i < length ps. a = ParticleActor d i)"
proof (induction ps rule: rev_induct)
  case Nil
  show ?case by (simp add: List.map_filter_def)
next
  case (snoc p ps)
  have own: "own_particles d ps"
    using snoc.prems by (auto simp add: own_particles_def nth_append split: if_splits)
  have last: "p = None \<or> p = Some (ParticleActor d (length ps))"
    using snoc.prems by (auto simp add: own_particles_def dest: spec [of _ "length ps"])
  note IH = snoc.IH [OF own]
  show ?case
  proof (cases p)
    case None
    then show ?thesis using IH by (auto simp add: List.map_filter_def less_Suc_eq)
  next
    case (Some a)
    with last have a: "a = ParticleActor d (length ps)" by simp
    have "a \<notin> set (List.map_filter (\<lambda>p. p) ps)" using IH a by auto
    then show ?thesis using IH Some a by (auto simp add: List.map_filter_def less_Suc_eq)
  qed
qed

text \<open>What a teardown does to the \<^verbatim>\<open>effect\<close> pointers and to the timelines.\<close>

lemma completed_pointers:
  "effect (clients (hd_transition_completed tm d w) c) =
     (case effects w d of
        None \<Rightarrow> effect (clients w c)
      | Some data \<Rightarrow> if cclient data = Some c \<or> cclient2 data = Some c then None
                     else effect (clients w c))"
proof (cases "effects w d")
  case None
  then show ?thesis by (simp add: hd_transition_completed_def Let_def)
next
  case (Some data)
  then show ?thesis
    by (cases "cclient data"; cases "cclient2 data")
      (simp_all add: hd_transition_completed_def Let_def derived_defs
        cong: option.case_cong if_cong)
qed

lemma completed_timelines:
  "timelines (hd_transition_completed tm d w) t =
     (if effects w d \<noteq> None \<and> tm = Some t
      then map_option (\<lambda>r. r\<lparr>timeline_refs := timeline_refs r - 1\<rparr>) (timelines w t)
      else timelines w t)"
proof (cases "effects w d")
  case None
  then show ?thesis by (simp add: hd_transition_completed_def Let_def)
next
  case (Some data)
  then show ?thesis
    by (cases tm; cases "timelines w (the tm)")
      (auto simp add: hd_transition_completed_def Let_def derived_defs
        cong: option.case_cong if_cong)
qed

lemma completed_logs:
  "effects w d = Some data \<Longrightarrow>
     completed_log (trace (hd_transition_completed tm d w)) = completed_log (trace w) @ [d]"
  "effects w d = Some data \<Longrightarrow>
     unref_log (trace (hd_transition_completed tm d w)) =
       unref_log (trace w) @ List.map_filter (\<lambda>p. p) (particles data)"
  "effects w d = Some data \<Longrightarrow>
     decrement_log (trace (hd_transition_completed tm d w)) =
       decrement_log (trace w) @ (if hmgr data then [d] else [])"
  by (simp_all add: completed_calls_def unref_log_particle_unrefs)

text \<open>A teardown of a record in the heap keeps the invariant.\<close>

lemma teardown_heap_ok:
  assumes "heap_ok w"
  shows "heap_ok (upd_oc f (hd_transition_completed tm d w))"
  using assms unfolding heap_ok_def
  by (auto simp add: completed_timelines split: if_splits)

lemma teardown_pointers_ok:
  assumes ok: "pointers_ok w" and live: "effects w d = Some data"
  shows "pointers_ok (upd_oc f (hd_transition_completed tm d w))"
  unfolding pointers_ok_def
proof (intro allI impI)
  fix c d'
  let ?w = "upd_oc f (hd_transition_completed tm d w)"
  assume "effect (clients ?w c) = Some d'"
  then have c: "cclient data \<noteq> Some c" "cclient2 data \<noteq> Some c"
    and p: "effect (clients w c) = Some d'"
    using live by (auto simp add: completed_pointers split: if_splits)
  from ok p obtain data' r where r: "effects w d' = Some data'"
    "cclient data' = Some c \<or> cclient2 data' = Some c" "timeline data' = Some d'"
    "timelines w d' = Some r" "new_frame_handler r = on_subview_timeline_new_frame"
    "\<not> finished_callback r"
    unfolding pointers_ok_def by blast
  have ne: "d' \<noteq> d" using r(1,2) c live by auto
  have "effects ?w d' = Some data'" using r(1) ne by simp
  moreover have "\<exists>r'. timelines ?w d' = Some r'
      \<and> new_frame_handler r' = on_subview_timeline_new_frame \<and> \<not> finished_callback r'"
    using r(4,5,6) by (simp add: completed_timelines)
  ultimately show "\<exists>data r. effects ?w d' = Some data
      \<and> (cclient data = Some c \<or> cclient2 data = Some c)
      \<and> timeline data = Some d' \<and> timelines ?w d' = Some r
      \<and> new_frame_handler r = on_subview_timeline_new_frame \<and> \<not> finished_callback r"
    using r(2,3) by auto
qed

lemma teardown_running_ok:
  assumes ok: "running_ok w" and stopped: "\<forall>r. timelines w d = Some r \<longrightarrow> \<not> running r"
  shows "running_ok (upd_oc f (hd_transition_completed tm d w))"
  unfolding running_ok_def
proof (intro allI impI)
  fix t r
  let ?w = "upd_oc f (hd_transition_completed tm d w)"
  assume a: "timelines ?w t = Some r \<and> running r"
  then obtain r0 where r0: "timelines w t = Some r0" "running r0"
    by (auto simp add: completed_timelines split: if_splits)
  with stopped have ne: "t \<noteq> d" by auto
  from ok r0 obtain data where "effects w t = Some data" "timeline data = Some t"
    unfolding running_ok_def by blast
  then show "\<exists>data. effects ?w t = Some data \<and> timeline data = Some t"
    using ne by simp
qed

lemma teardown_waiting_ok:
  assumes ok: "waiting_ok w" and ws: "distinct ws"
    "set ws \<subseteq> set (effects_waiting (Orientation_change w)) - {d}"
  shows "waiting_ok (upd_oc (\<lambda>oc. oc\<lparr>effects_waiting := ws\<rparr>) (hd_transition_completed tm d w))"
  using assms unfolding waiting_ok_def by auto

lemma teardown_log_ok:
  assumes ok: "log_ok w" and heap: "heap_ok w" and live: "effects w d = Some data"
  shows "log_ok (upd_oc f (hd_transition_completed tm d w))"
proof -
  let ?w = "upd_oc f (hd_transition_completed tm d w)"
  let ?new = "List.map_filter (\<lambda>p. p) (particles data)"
  from heap live have d: "d < next_effect w" and own: "own_particles d (particles data)"
    unfolding heap_ok_def by blast+
  from ok have old: "\<forall>d \<in> set (completed_log (trace w)). effects w d = None \<and> d < next_effect w"
    "distinct (completed_log (trace w))"
    "\<forall>a \<in> set (unref_log (trace w)).
       \<exists>d i. a = ParticleActor d i \<and> d \<in> set (completed_log (trace w))"
    "distinct (unref_log (trace w))" "distinct (decrement_log (trace w))"
    "set (decrement_log (trace w)) \<subseteq> set (completed_log (trace w))"
    unfolding log_ok_def by blast+
  have fresh: "d \<notin> set (completed_log (trace w))" using old(1) live by auto
  note new = own_particles_released [OF own]
  have cl: "completed_log (trace ?w) = completed_log (trace w) @ [d]"
    and ul: "unref_log (trace ?w) = unref_log (trace w) @ ?new"
    and dl: "decrement_log (trace ?w) = decrement_log (trace w) @ (if hmgr data then [d] else [])"
    using completed_logs [OF live, of tm] by simp_all
  have 1: "\<forall>d \<in> set (completed_log (trace ?w)). effects ?w d = None \<and> d < next_effect ?w"
    unfolding cl using old(1) d by auto
  have 2: "distinct (completed_log (trace ?w))"
    unfolding cl using old(2) fresh by simp
  have 3: "\<forall>a \<in> set (unref_log (trace ?w)).
       \<exists>d i. a = ParticleActor d i \<and> d \<in> set (completed_log (trace ?w))"
    unfolding cl ul using old(3) new by auto
  have "set (unref_log (trace w)) \<inter> set ?new = {}"
    using old(3) new fresh by fastforce
  then have 4: "distinct (unref_log (trace ?w))"
    unfolding ul using old(4) new by simp
  have 5: "distinct (decrement_log (trace ?w))"
    unfolding dl using old(5,6) fresh by auto
  have 6: "set (decrement_log (trace ?w)) \<subseteq> set (completed_log (trace ?w))"
    unfolding dl cl using old(6) by auto
  show ?thesis unfolding log_ok_def using 1 2 3 4 5 6 by blast
qed

lemma teardown_invariant:
  assumes inv: "invariant w" and live: "effects w d = Some data"
    and stopped: "\<forall>r. timelines w d = Some r \<longrightarrow> \<not> running r"
    and ws: "distinct ws" "set ws \<subseteq> set (effects_waiting (Orientation_change w)) - {d}"
  shows "invariant (upd_oc (\<lambda>oc. oc\<lparr>effects_waiting := ws\<rparr>) (hd_transition_completed tm d w))"
  using inv teardown_heap_ok [of w] teardown_pointers_ok [OF _ live]
    teardown_running_ok [OF _ stopped] teardown_waiting_ok [OF _ ws]
    teardown_log_ok [OF _ _ live]
  unfolding invariant_def by blast

lemma upd_oc_same:
  "Orientation_change w' = Orientation_change w \<Longrightarrow>
     upd_oc (\<lambda>oc. oc\<lparr>effects_waiting := effects_waiting (Orientation_change w)\<rparr>) w' = w'"
  by (simp add: upd_oc_def)

lemma teardown_invariant_plain:
  assumes inv: "invariant w" and live: "effects w d = Some data"
    and stopped: "\<forall>r. timelines w d = Some r \<longrightarrow> \<not> running r"
    and nw: "d \<notin> set (effects_waiting (Orientation_change w))"
  shows "invariant (hd_transition_completed tm d w)"
proof -
  have "distinct (effects_waiting (Orientation_change w))"
    using inv unfolding invariant_def waiting_ok_def by blast
  from teardown_invariant [OF inv live stopped this, of tm] nw show ?thesis
    by (simp add: upd_oc_same)
qed

text \<open>Changes the invariant does not see.\<close>

lemma invariant_cong:
  assumes "effects w' = effects w" "next_effect w' = next_effect w"
    "timelines w' = timelines w" "\<forall>c. effect (clients w' c) = effect (clients w c)"
    "effects_waiting (Orientation_change w') = effects_waiting (Orientation_change w)"
    "completed_log (trace w') = completed_log (trace w)"
    "unref_log (trace w') = unref_log (trace w)"
    "decrement_log (trace w') = decrement_log (trace w)"
  shows "invariant w' = invariant w"
  unfolding invariant_def heap_ok_def pointers_ok_def running_ok_def waiting_ok_def log_ok_def
  using assms by simp

lemma stopped_invariant:
  assumes inv: "invariant w"
  shows "invariant (upd_timeline t (\<lambda>r. r\<lparr>running := False\<rparr>) w)"
proof (cases t)
  case None
  then show ?thesis using inv by (simp add: upd_timeline_def)
next
  case (Some i)
  show ?thesis
  proof (cases "timelines w i")
    case None
    then show ?thesis using inv Some by (simp add: upd_timeline_def)
  next
    case (Some r)
    let ?w = "upd_timeline (Some i) (\<lambda>r. r\<lparr>running := False\<rparr>) w"
    have tl: "\<And>j. timelines ?w j = (if j = i then Some (r\<lparr>running := False\<rparr>) else timelines w j)"
      using Some by simp
    have h: "heap_ok w" and p: "pointers_ok w" and ru: "running_ok w"
      using inv unfolding invariant_def by blast+
    have "heap_ok ?w" unfolding heap_ok_def
    proof (intro conjI allI impI)
      fix d data assume a: "effects ?w d = Some data"
      then have e: "effects w d = Some data" by simp
      from h e show "d < next_effect ?w" unfolding heap_ok_def by simp
      from h e show "own_particles d (particles data)" unfolding heap_ok_def by blast
      from h e have "timeline data = Some d \<or> timeline data = None \<and> timelines w d = None"
        unfolding heap_ok_def by blast
      then show "timeline data = Some d \<or> timeline data = None \<and> timelines ?w d = None"
        using Some unfolding tl by auto
    next
      fix t' r' assume a: "timelines ?w t' = Some r'"
      then obtain r0 where "timelines w t' = Some r0" "handler_data r' = handler_data r0"
        using Some unfolding tl by (auto split: if_splits)
      with h show "t' < next_effect ?w" "handler_data r' = t'"
        unfolding heap_ok_def by auto
    qed
    moreover have "pointers_ok ?w" unfolding pointers_ok_def
    proof (intro allI impI)
      fix c d assume "effect (clients ?w c) = Some d"
      then have "effect (clients w c) = Some d" by simp
      with p obtain data r0 where r: "effects w d = Some data"
        "cclient data = Some c \<or> cclient2 data = Some c" "timeline data = Some d"
        "timelines w d = Some r0" "new_frame_handler r0 = on_subview_timeline_new_frame"
        "\<not> finished_callback r0"
        unfolding pointers_ok_def by blast
      have "\<exists>r'. timelines ?w d = Some r'
          \<and> new_frame_handler r' = on_subview_timeline_new_frame \<and> \<not> finished_callback r'"
        using r(4,5,6) Some unfolding tl by auto
      then show "\<exists>data r. effects ?w d = Some data
          \<and> (cclient data = Some c \<or> cclient2 data = Some c)
          \<and> timeline data = Some d \<and> timelines ?w d = Some r
          \<and> new_frame_handler r = on_subview_timeline_new_frame \<and> \<not> finished_callback r"
        using r(1,2,3) by auto
    qed
    moreover have "running_ok ?w" unfolding running_ok_def
    proof (intro allI impI)
      fix t' r' assume "timelines ?w t' = Some r' \<and> running r'"
      then have "timelines w t' = Some r' \<and> running r'"
        unfolding tl by (auto split: if_splits)
      with ru show "\<exists>data. effects ?w t' = Some data \<and> timeline data = Some t'"
        unfolding running_ok_def by simp
    qed
    moreover have "waiting_ok ?w" using inv unfolding invariant_def waiting_ok_def
      by simp
    moreover have "log_ok ?w" using inv unfolding invariant_def log_ok_def
      by simp
    ultimately show ?thesis using \<open>t = Some i\<close> unfolding invariant_def by simp
  qed
qed

text \<open>Allocating a record keeps the invariant.\<close>

lemma allocated_invariant:
  assumes inv: "invariant w" and al: "allocated w w'"
  shows "invariant w'"
proof -
  define d where "d = next_effect w"
  from al obtain data where
    n: "next_effect w' = Suc d"
    and e: "effects w' = (effects w)(d := Some data)"
    and own: "own_particles d (particles data)"
    and tl: "timeline data = None \<and> timelines w' = timelines w
            \<or> timeline data = Some d
              \<and> (\<exists>r. timelines w' = (timelines w)(d := Some r)
                     \<and> handler_data r = d
                     \<and> (new_frame_handler r = on_subview_timeline_new_frame
                          \<and> \<not> finished_callback r
                        \<or> (\<forall>c. effect (clients w' c) = effect (clients w c))))"
    and ptr: "\<forall>c. effect (clients w' c) = effect (clients w c)
               \<or> effect (clients w' c) = Some d
                 \<and> (cclient data = Some c \<or> cclient2 data = Some c)
                 \<and> timeline data = Some d"
    and wt: "effects_waiting (Orientation_change w') = effects_waiting (Orientation_change w)
            \<or> timeline data = None
              \<and> effects_waiting (Orientation_change w') =
                  effects_waiting (Orientation_change w) @ [d]"
    and logs: "completed_log (trace w') = completed_log (trace w)"
      "unref_log (trace w') = unref_log (trace w)"
      "decrement_log (trace w') = decrement_log (trace w)"
    unfolding allocated_def d_def by blast
  have h: "heap_ok w" and p: "pointers_ok w" and ru: "running_ok w"
    and wa: "waiting_ok w" and l: "log_ok w"
    using inv unfolding invariant_def by blast+
  have fresh: "effects w d = None"
  proof (cases "effects w d")
    case (Some x)
    with h have "d < next_effect w" unfolding heap_ok_def by blast
    then show ?thesis by (simp add: d_def)
  qed simp
  have fresh_tl: "timelines w d = None"
  proof (cases "timelines w d")
    case (Some x)
    with h have "d < next_effect w" unfolding heap_ok_def by blast
    then show ?thesis by (simp add: d_def)
  qed simp
  have old: "\<And>d' x. effects w d' = Some x \<Longrightarrow> d' \<noteq> d" using fresh by auto
  have old_tl: "\<And>t x. timelines w t = Some x \<Longrightarrow> t \<noteq> d" using fresh_tl by auto
  have tl_other: "\<And>t. t \<noteq> d \<Longrightarrow> timelines w' t = timelines w t" using tl by auto
  have tl_new: "timeline data = None \<and> timelines w' d = None
      \<or> timeline data = Some d \<and> (\<exists>r. timelines w' d = Some r \<and> handler_data r = d)"
    using tl fresh_tl by auto
  have "heap_ok w'" unfolding heap_ok_def
  proof (intro conjI allI impI)
    fix d' x assume a: "effects w' d' = Some x"
    show "d' < next_effect w'"
    proof (cases "d' = d")
      case False
      with a e have "effects w d' = Some x" by simp
      with h have "d' < next_effect w" unfolding heap_ok_def by blast
      then show ?thesis by (simp add: n d_def)
    qed (simp add: n)
    show "timeline x = Some d' \<or> timeline x = None \<and> timelines w' d' = None"
    proof (cases "d' = d")
      case True
      with a e have "x = data" by simp
      with tl_new True show ?thesis by auto
    next
      case False
      with a e have "effects w d' = Some x" by simp
      with h have "timeline x = Some d' \<or> timeline x = None \<and> timelines w d' = None"
        unfolding heap_ok_def by blast
      then show ?thesis using tl_other [OF False] by simp
    qed
    show "own_particles d' (particles x)"
    proof (cases "d' = d")
      case True
      with a e have "x = data" by simp
      with own True show ?thesis by simp
    next
      case False
      with a e have "effects w d' = Some x" by simp
      with h show ?thesis unfolding heap_ok_def by blast
    qed
  next
    fix t r assume a: "timelines w' t = Some r"
    have "t < next_effect w' \<and> handler_data r = t"
    proof (cases "t = d")
      case True
      with a tl_new show ?thesis by (auto simp add: n)
    next
      case False
      with a have "timelines w t = Some r" by (simp add: tl_other)
      with h have "t < next_effect w \<and> handler_data r = t" unfolding heap_ok_def by blast
      then show ?thesis by (simp add: n d_def)
    qed
    then show "t < next_effect w'" "handler_data r = t" by simp_all
  qed
  moreover have "pointers_ok w'" unfolding pointers_ok_def
  proof (intro allI impI)
    fix c d' assume a: "effect (clients w' c) = Some d'"
    have oldp: "effect (clients w c) = Some d' \<Longrightarrow>
       \<exists>x r. effects w' d' = Some x \<and> (cclient x = Some c \<or> cclient2 x = Some c)
          \<and> timeline x = Some d' \<and> timelines w' d' = Some r
          \<and> new_frame_handler r = on_subview_timeline_new_frame \<and> \<not> finished_callback r"
    proof -
      assume "effect (clients w c) = Some d'"
      with p obtain x r where r: "effects w d' = Some x"
        "cclient x = Some c \<or> cclient2 x = Some c" "timeline x = Some d'"
        "timelines w d' = Some r" "new_frame_handler r = on_subview_timeline_new_frame"
        "\<not> finished_callback r"
        unfolding pointers_ok_def by blast
      from old [OF r(1)] have ne: "d' \<noteq> d" .
      have "effects w' d' = Some x" using r(1) ne e by simp
      moreover have "timelines w' d' = Some r" using r(4) tl_other [OF ne] by simp
      ultimately show ?thesis using r(2,3,5,6) by blast
    qed
    from ptr have "effect (clients w' c) = effect (clients w c)
               \<or> effect (clients w' c) = Some d
                 \<and> (cclient data = Some c \<or> cclient2 data = Some c)
                 \<and> timeline data = Some d" by blast
    then show "\<exists>x r. effects w' d' = Some x \<and> (cclient x = Some c \<or> cclient2 x = Some c)
          \<and> timeline x = Some d' \<and> timelines w' d' = Some r
          \<and> new_frame_handler r = on_subview_timeline_new_frame \<and> \<not> finished_callback r"
    proof
      assume "effect (clients w' c) = effect (clients w c)"
      with a oldp show ?thesis by simp
    next
      assume b: "effect (clients w' c) = Some d
                 \<and> (cclient data = Some c \<or> cclient2 data = Some c)
                 \<and> timeline data = Some d"
      with a have dd: "d' = d" by simp
      from b tl obtain r where r: "timelines w' = (timelines w)(d := Some r)"
        "new_frame_handler r = on_subview_timeline_new_frame \<and> \<not> finished_callback r
           \<or> (\<forall>c. effect (clients w' c) = effect (clients w c))"
        by auto
      from r(2) show ?thesis
      proof
        assume "new_frame_handler r = on_subview_timeline_new_frame \<and> \<not> finished_callback r"
        moreover have "effects w' d = Some data" using e by simp
        moreover have "timelines w' d = Some r" using r(1) by simp
        ultimately show ?thesis using b dd by blast
      next
        assume "\<forall>c. effect (clients w' c) = effect (clients w c)"
        with a oldp show ?thesis by simp
      qed
    qed
  qed
  moreover have "running_ok w'" unfolding running_ok_def
  proof (intro allI impI)
    fix t r assume a: "timelines w' t = Some r \<and> running r"
    show "\<exists>x. effects w' t = Some x \<and> timeline x = Some t"
    proof (cases "t = d")
      case True
      with a tl_new have "timeline data = Some d" by auto
      then show ?thesis using True e by simp
    next
      case False
      with a have "timelines w t = Some r \<and> running r" by (simp add: tl_other)
      with ru obtain x where "effects w t = Some x" "timeline x = Some t"
        unfolding running_ok_def by blast
      then show ?thesis using False e by simp
    qed
  qed
  moreover have "waiting_ok w'"
  proof -
    have dist: "distinct (effects_waiting (Orientation_change w))"
      and lv: "\<forall>d' \<in> set (effects_waiting (Orientation_change w)).
                 \<exists>x. effects w d' = Some x \<and> timeline x = None"
      using wa unfolding waiting_ok_def by blast+
    have nd: "d \<notin> set (effects_waiting (Orientation_change w))"
      using lv fresh by auto
    have lv': "\<forall>d' \<in> set (effects_waiting (Orientation_change w)).
                 \<exists>x. effects w' d' = Some x \<and> timeline x = None"
      using lv nd e by auto
    from wt show ?thesis
    proof
      assume "effects_waiting (Orientation_change w') = effects_waiting (Orientation_change w)"
      then show ?thesis unfolding waiting_ok_def using dist lv' by simp
    next
      assume b: "timeline data = None
              \<and> effects_waiting (Orientation_change w') =
                  effects_waiting (Orientation_change w) @ [d]"
      have "effects w' d = Some data" using e by simp
      then show ?thesis unfolding waiting_ok_def using dist lv' nd b by auto
    qed
  qed
  moreover have "log_ok w'"
  proof -
    have c: "\<forall>d' \<in> set (completed_log (trace w)). effects w d' = None \<and> d' < next_effect w"
      using l unfolding log_ok_def by blast
    have "\<forall>d' \<in> set (completed_log (trace w')). effects w' d' = None \<and> d' < next_effect w'"
      using c e n by (auto simp add: logs d_def)
    then show ?thesis using l unfolding log_ok_def logs by blast
  qed
  ultimately show ?thesis unfolding invariant_def by blast
qed

text \<open>The operations that start an effect allocate a record.\<close>

lemma allocatedI:
  assumes "next_effect w' = Suc (next_effect w)"
    and "effects w' = (effects w)(next_effect w := Some data)"
    and "own_particles (next_effect w) (particles data)"
    and "timeline data = Some (next_effect w)"
    and "timelines w' = (timelines w)(next_effect w := Some r)"
    and "handler_data r = next_effect w"
    and "\<forall>c. effect (clients w' c) = effect (clients w c)"
    and "Orientation_change w' = Orientation_change w"
    and "trace w' = trace w @ xs"
    and "completed_log xs = []" "unref_log xs = []" "decrement_log xs = []"
  shows "allocated w w'"
  unfolding allocated_def using assms by (intro exI [of _ data]) auto

lemma own_particles_simps [simp]:
  "own_particles d []"
  "own_particles d [Some (ParticleActor d 0)]"
  "own_particles d [Some (ParticleActor d 0), Some (ParticleActor d (Suc 0))]"
  by (auto simp add: own_particles_def less_Suc_eq)

lemma own_particles_map [simp]:
  "own_particles d (map (\<lambda>i. if P i then Some (ParticleActor d i) else None) [0 ..< n])"
  by (simp add: own_particles_def)

lemma popup_allocated:
  "hd_transition_popup c ev w = w \<or> allocated w (hd_transition_popup c ev w)"
proof (cases "client_actor (clients w c)")
  case None
  then show ?thesis by (simp add: hd_transition_popup_def)
next
  case (Some a)
  have "allocated w (hd_transition_popup c ev w)"
    by (rule allocatedI [where data = "\<lparr>event = ev, timeline = Some (next_effect w),
          cclient = Some c, cclient_actor = Some a, cclient2 = None, cclient2_actor = None,
          hmgr = True, geo = geometry (actors w a), angle = 0,
          particles = [Some (ParticleActor (next_effect w) 0)]\<rparr>"
        and r = "\<lparr>n_frames = hd_transition_timeline_new w ''popup'' ev 250,
          running = True, new_frame_handler = on_popup_timeline_new_frame,
          handler_data = next_effect w, finished_callback = False, timeline_refs = 2\<rparr>"
        and xs = "[Set_effect_running (next_effect w) True,
                  New_frame on_popup_timeline_new_frame (next_effect w) 0,
                  Timeline_start (next_effect w)]"])
      (simp_all add: Some hd_transition_popup_def Let_def derived_defs cfg_reads)
  then show ?thesis ..
qed

lemma fade_allocated: "allocated w (hd_transition_fade c ev w)"
  by (rule allocatedI [where data = "\<lparr>event = ev, timeline = Some (next_effect w),
        cclient = Some c, cclient_actor = client_actor (clients w c), cclient2 = None,
        cclient2_actor = None, hmgr = True, geo = no_geometry, angle = 0, particles = []\<rparr>"
      and r = "\<lparr>n_frames = hd_transition_timeline_new w ''fade'' ev 250,
        running = True, new_frame_handler = on_fade_timeline_new_frame,
        handler_data = next_effect w, finished_callback = False, timeline_refs = 2\<rparr>"
      and xs = "[Set_effect_running (next_effect w) True,
                New_frame on_fade_timeline_new_frame (next_effect w) 0,
                Timeline_start (next_effect w)]"])
    (simp_all add: hd_transition_fade_def Let_def derived_defs cfg_reads)

lemma notification_allocated: "allocated w (hd_transition_notification c ev w)"
  by (rule allocatedI [where data = "\<lparr>event = ev, timeline = Some (next_effect w),
        cclient = Some c, cclient_actor = client_actor (clients w c), cclient2 = None,
        cclient2_actor = None, hmgr = True, geo = no_geometry, angle = 0, particles = []\<rparr>"
      and r = "\<lparr>n_frames = hd_transition_timeline_new w ''notification'' ev 500,
        running = True, new_frame_handler = on_notification_timeline_new_frame,
        handler_data = next_effect w, finished_callback = False, timeline_refs = 2\<rparr>"
      and xs = "[Set_effect_running (next_effect w) True,
                New_frame on_notification_timeline_new_frame (next_effect w) 0,
                Timeline_start (next_effect w)]"])
    (simp_all add: hd_transition_notification_def Let_def derived_defs cfg_reads)

lemma fade_and_rotate_allocated: "allocated w (hd_transition_fade_and_rotate fp gp cb w)"
  by (rule allocatedI [where xs = "[New_frame on_rotate_screen_timeline_new_frame (next_effect w) 0,
                Timeline_start (next_effect w)]", OF fade_and_rotate_proj(2)
        fade_and_rotate_effects _ _ fade_and_rotate_timelines])
    simp_all

text \<open>The loop of \<open>hd_transition_close_app\<close> over the decoration slots changes actors only.\<close>

lemma close_particle_explicit:
  "(if b then close_particle d i else skip) w =
     w\<lparr>actors := actors ((if b then close_particle d i else skip) w)\<rparr>"
  by (simp add: close_particle_def derived_defs)

lemma close_particles_explicit:
  "steps (map (\<lambda>i. if P i then close_particle d i else skip) xs) w =
     w\<lparr>actors := actors (steps (map (\<lambda>i. if P i then close_particle d i else skip) xs) w)\<rparr>"
proof (induction xs arbitrary: w)
  case Nil
  show ?case by simp
next
  case (Cons x xs)
  let ?f = "\<lambda>i. if P i then close_particle d i else skip"
  have "steps (map ?f (x # xs)) w = steps (map ?f xs) (?f x w)" by simp
  also have "\<dots> = (?f x w)\<lparr>actors := actors (steps (map ?f xs) (?f x w))\<rparr>"
    by (rule Cons.IH)
  also have "\<dots> = w\<lparr>actors := actors (steps (map ?f (x # xs)) w)\<rparr>"
    by (subst close_particle_explicit) simp
  finally show ?case .
qed

lemma close_particles_proj [simp]:
  "clients (steps (map (\<lambda>i. if P i then close_particle d i else skip) xs) w) = clients w"
  "effects (steps (map (\<lambda>i. if P i then close_particle d i else skip) xs) w) = effects w"
  "next_effect (steps (map (\<lambda>i. if P i then close_particle d i else skip) xs) w) = next_effect w"
  "timelines (steps (map (\<lambda>i. if P i then close_particle d i else skip) xs) w) = timelines w"
  "Orientation_change (steps (map (\<lambda>i. if P i then close_particle d i else skip) xs) w) =
     Orientation_change w"
  "effects_running (steps (map (\<lambda>i. if P i then close_particle d i else skip) xs) w) =
     effects_running w"
  "cfg (steps (map (\<lambda>i. if P i then close_particle d i else skip) xs) w) = cfg w"
  "trace (steps (map (\<lambda>i. if P i then close_particle d i else skip) xs) w) = trace w"
  using close_particles_explicit [of P d xs w, THEN arg_cong [where f = clients]]
    close_particles_explicit [of P d xs w, THEN arg_cong [where f = effects]]
    close_particles_explicit [of P d xs w, THEN arg_cong [where f = next_effect]]
    close_particles_explicit [of P d xs w, THEN arg_cong [where f = timelines]]
    close_particles_explicit [of P d xs w, THEN arg_cong [where f = Orientation_change]]
    close_particles_explicit [of P d xs w, THEN arg_cong [where f = effects_running]]
    close_particles_explicit [of P d xs w, THEN arg_cong [where f = cfg]]
    close_particles_explicit [of P d xs w, THEN arg_cong [where f = trace]]
  by simp_all

lemma close_app_allocated:
  "hd_transition_close_app state textures c w = w
   \<or> allocated w (hd_transition_close_app state textures c w)"
proof (cases "hd_transition_close_app state textures c w = w")
  case False
  then obtain a where a: "client_actor (clients w c) = Some a"
    by (cases "client_actor (clients w c)") (auto simp add: hd_transition_close_app_def)
  from False a have c: "client_type (clients w c) = MBWMClientTypeApp"
    "state \<noteq> HDRM_STATE_TASK_NAV"
    "\<not> (stack_index (clients w c) > 0 \<and> \<not> is_leader (clients w c))"
    "visible (actors w a)"
    "\<not> (geo_width (geometry (actors w a)) < 16 \<or> geo_height (geometry (actors w a)) < 16)"
    by (auto simp add: hd_transition_close_app_def split: if_splits)
  have "allocated w (hd_transition_close_app state textures c w)"
    by (rule allocatedI [where data = "\<lparr>event = MBWMCompMgrClientEventUnmap,
          timeline = Some (next_effect w),
          cclient = Some c, cclient_actor = Some a, cclient2 = None,
          cclient2_actor = None, hmgr = True, geo = geometry (actors w a), angle = 0,
          particles = map (\<lambda>i. if textures ! i then Some (ParticleActor (next_effect w) i)
                                else None) [0 ..< length textures]\<rparr>"
        and r = "\<lparr>n_frames = clutter_timeline_new_for_duration w
             (hd_transition_get_int w ''app_close'' ''duration'' 500),
          running = True, new_frame_handler = on_close_timeline_new_frame,
          handler_data = next_effect w, finished_callback = False, timeline_refs = 2\<rparr>"
        and xs = "[Set_effect_running (next_effect w) True, Timeline_start (next_effect w),
                  Play_sound]"])
      (simp_all add: a c hd_transition_close_app_def Let_def derived_defs cfg_reads
         del: upt_Suc)
  then show ?thesis ..
qed simp

lemma close_app_before_rotate_allocated:
  "hd_transition_close_app_before_rotate state c w = w
   \<or> allocated w (hd_transition_close_app_before_rotate state c w)"
proof (cases "hd_transition_close_app_before_rotate state c w = w")
  case False
  then obtain a where a: "client_actor (clients w c) = Some a"
    by (cases "client_actor (clients w c)")
      (auto simp add: hd_transition_close_app_before_rotate_def)
  from False a have c: "client_type (clients w c) = MBWMClientTypeApp"
    "state \<noteq> HDRM_STATE_TASK_NAV" "visible (actors w a)"
    by (auto simp add: hd_transition_close_app_before_rotate_def split: if_splits)
  let ?w = "hd_transition_close_app_before_rotate state c w"
  let ?data = "\<lparr>event = MBWMCompMgrClientEventUnmap, timeline = None,
          cclient = Some c, cclient_actor = Some a, cclient2 = None,
          cclient2_actor = None, hmgr = True, geo = no_geometry, angle = 0,
          particles = [Some (ParticleActor (next_effect w) 0)]\<rparr>"
  have "next_effect ?w = Suc (next_effect w)"
    "effects ?w = (effects w)(next_effect w := Some ?data)"
    "timelines ?w = timelines w"
    "\<forall>c'. effect (clients ?w c') = effect (clients w c')"
    "effects_waiting (Orientation_change ?w) =
       effects_waiting (Orientation_change w) @ [next_effect w]"
    "trace ?w = trace w @ [Set_effect_running (next_effect w) True, Play_sound]"
    by (simp_all add: a c hd_transition_close_app_before_rotate_def Let_def derived_defs)
  then have "allocated w ?w"
    unfolding allocated_def by (intro exI [of _ ?data]) simp
  then show ?thesis ..
qed simp

lemma subview_start_pointers:
  "effect (clients (subview_start sv mv ev w) c) =
     (if c = sv \<or> c = mv then Some (next_effect w) else effect (clients w c))"
  by (simp add: subview_start_def Let_def derived_defs)

lemma subview_start_allocated: "allocated w (subview_start sv mv ev w)"
proof -
  let ?w = "subview_start sv mv ev w"
  let ?data = "\<lparr>event = ev, timeline = Some (next_effect w),
        cclient = Some sv, cclient_actor = client_actor (clients w sv),
        cclient2 = Some mv, cclient2_actor = client_actor (clients w mv),
        hmgr = True, geo = no_geometry, angle = 0, particles = []\<rparr>"
  show ?thesis unfolding allocated_def
    by (intro exI [of _ ?data])
      (auto simp add: subview_start_pointers subview_start_trace)
qed

text \<open>Steps the invariant does not see.\<close>

lemma invariant_upd_oc:
  "effects_waiting (f (Orientation_change w)) = effects_waiting (Orientation_change w) \<Longrightarrow>
     invariant (upd_oc f w) = invariant w"
  by (rule invariant_cong) simp_all

lemma invariant_call_out:
  "completed_log [e] = [] \<Longrightarrow> unref_log [e] = [] \<Longrightarrow> decrement_log [e] = [] \<Longrightarrow>
     invariant (call_out e w) = invariant w"
  by (rule invariant_cong) simp_all

lemma invariant_on_actor: "invariant (on_actor a f w) = invariant w"
  by (rule invariant_cong) simp_all

lemma emit_new_frame_trace:
  "trace (emit_new_frame t n w) =
     trace w @ (case t of None \<Rightarrow> []
                | Some i \<Rightarrow> (case timelines w i of None \<Rightarrow> []
                    | Some r \<Rightarrow> [New_frame (new_frame_handler r) (handler_data r) n]))"
  by (simp add: emit_new_frame_def split: option.splits)

lemma emit_new_frame_logs [simp]:
  "completed_log (trace (emit_new_frame t n w)) = completed_log (trace w)"
  "unref_log (trace (emit_new_frame t n w)) = unref_log (trace w)"
  "decrement_log (trace (emit_new_frame t n w)) = decrement_log (trace w)"
  by (simp_all add: emit_new_frame_trace split: option.splits)

lemma invariant_emit_new_frame: "invariant (emit_new_frame t n w) = invariant w"
  by (rule invariant_cong) simp_all

lemma invariant_timeline_stop:
  "invariant w \<Longrightarrow> invariant (clutter_timeline_stop t w)"
  by (cases t) (simp_all add: clutter_timeline_stop_def invariant_call_out stopped_invariant)

lemma invariant_fsm_enter: "invariant (fsm_enter w) = invariant w"
  by (rule invariant_cong) simp_all

lemma invariant_fsm_change_state: "invariant (fsm_change_state w) = invariant w"
  by (rule invariant_cong) (simp_all add: fsm_change_state_def Let_def)

lemma invariant_fsm_start_WAITING: "invariant (fsm_start_WAITING now w) = invariant w"
  by (rule invariant_cong) simp_all

lemma invariant_fsm_divert: "invariant (fsm_divert w) = invariant w"
  by (simp add: fsm_divert_def invariant_upd_oc)

lemma invariant_g_source_remove: "invariant (g_source_remove sid w) = invariant w"
  by (rule invariant_cong) simp_all

lemma invariant_g_timeout_add: "invariant (g_timeout_add now n w) = invariant w"
  by (rule invariant_cong) simp_all

text \<open>The state machine keeps the invariant.\<close>

lemma invariant_fsm_case_IDLE:
  "invariant w \<Longrightarrow> invariant (fsm_case_IDLE w)"
  by (simp add: fsm_case_IDLE_def Let_def
      allocated_invariant [OF _ fade_and_rotate_allocated] invariant_upd_oc)

lemma invariant_fsm_fade_back_in:
  "invariant w \<Longrightarrow> invariant (fsm_fade_back_in w)"
  by (simp add: fsm_fade_back_in_def invariant_call_out clutter_actor_show_def
      allocated_invariant [OF _ fade_and_rotate_allocated] invariant_upd_oc invariant_on_actor)

lemma invariant_complete_effects_waiting:
  "invariant w \<Longrightarrow> effects_waiting (Orientation_change w) = ds \<Longrightarrow>
     invariant (complete_effects_waiting ds w)"
proof (induction ds arbitrary: w)
  case Nil
  then show ?case by simp
next
  case (Cons d ds)
  let ?w = "upd_oc (\<lambda>oc. oc\<lparr>effects_waiting := ds\<rparr>) (hd_transition_completed None d w)"
  from Cons.prems have wa: "waiting_ok w" and h: "heap_ok w"
    unfolding invariant_def by blast+
  from wa Cons.prems(2) obtain data where data: "effects w d = Some data" "timeline data = None"
    and dist: "distinct (d # ds)"
    unfolding waiting_ok_def by auto
  from h data have "timelines w d = None" unfolding heap_ok_def by fastforce
  then have stopped: "\<forall>r. timelines w d = Some r \<longrightarrow> \<not> running r" by simp
  have "invariant ?w"
    using dist Cons.prems(2)
    by (intro teardown_invariant [OF Cons.prems(1) data(1) stopped]) auto
  moreover have "effects_waiting (Orientation_change ?w) = ds" by simp
  ultimately have "invariant (complete_effects_waiting ds ?w)" by (rule Cons.IH)
  then show ?case by simp
qed

lemma invariant_fsm_complete_waiting:
  assumes "invariant w"
  shows "invariant (fsm_complete_waiting w)"
proof -
  let ?w = "complete_effects_waiting (effects_waiting (Orientation_change w)) w"
  have "invariant ?w" using assms by (rule invariant_complete_effects_waiting) simp
  moreover have "effects_waiting (Orientation_change ?w) = []" by simp
  ultimately show ?thesis by (simp add: fsm_complete_waiting_def invariant_upd_oc)
qed

lemma invariant_fsm:
  assumes inv: "invariant w"
  shows "invariant (hd_transition_rotating_fsm now w)"
proof (cases "phase (Orientation_change w)")
  case IDLE
  then show ?thesis using inv
    by (simp add: fsm_IDLE invariant_fsm_case_IDLE invariant_fsm_enter)
next
  case FADE_OUT
  have "invariant (fsm_complete_waiting (fsm_change_state (fsm_enter w)))"
    using inv
    by (intro invariant_fsm_complete_waiting)
      (simp add: invariant_fsm_change_state invariant_fsm_enter)
  then show ?thesis using FADE_OUT
    by (simp add: fsm_FADE_OUT Let_def invariant_fsm_start_WAITING
        invariant_fsm_fade_back_in invariant_upd_oc)
next
  case WAITING
  have "invariant (fsm_complete_waiting (fsm_change_state (fsm_enter (fsm_divert (fsm_enter w)))))"
    using inv
    by (intro invariant_fsm_complete_waiting)
      (simp add: invariant_fsm_change_state invariant_fsm_enter invariant_fsm_divert)
  then show ?thesis using WAITING inv
    by (simp add: fsm_WAITING invariant_fsm_start_WAITING invariant_fsm_fade_back_in
        invariant_fsm_enter)
next
  case FADE_IN
  then show ?thesis using inv
    by (simp add: fsm_FADE_IN invariant_fsm_case_IDLE invariant_fsm_enter invariant_upd_oc)
qed

text \<open>Handing a running subview effect to another client keeps the invariant.\<close>

lemma subview_replace_cclient_pointers:
  "effect (clients (subview_replace_cclient d data sv w) c) =
     (if c = sv then Some d else if cclient data = Some c then None else effect (clients w c))"
  by (cases "cclient data")
    (simp_all add: subview_replace_cclient_def derived_defs cong: option.case_cong)

lemma subview_replace_cclient2_proj [simp]:
  "next_effect (subview_replace_cclient2 d data mv w) = next_effect w"
  "Orientation_change (subview_replace_cclient2 d data mv w) = Orientation_change w"
  "timelines (subview_replace_cclient2 d data mv w) = timelines w"
  "trace (subview_replace_cclient2 d data mv w) = trace w"
  "effects (subview_replace_cclient2 d data mv w) =
     (effects w)(d := Some (data\<lparr>cclient2 := Some mv,
        cclient2_actor := client_actor (clients w mv)\<rparr>))"
  by (simp_all add: subview_replace_cclient2_def derived_defs cong: option.case_cong)

lemma subview_replace_cclient2_pointers:
  "effect (clients (subview_replace_cclient2 d data mv w) c) =
     (if c = mv then Some d else if cclient2 data = Some c then None else effect (clients w c))"
  by (cases "cclient2 data")
    (simp_all add: subview_replace_cclient2_def derived_defs cong: option.case_cong)

lemma handed_over_invariant:
  assumes inv: "invariant w"
    and e: "effects w' = (effects w)(d := Some data')"
    and live: "effects w d = Some data"
    and same: "timeline data' = timeline data" "particles data' = particles data"
    and n: "next_effect w' = next_effect w" and tl: "timelines w' = timelines w"
    and oc: "Orientation_change w' = Orientation_change w" and tr: "trace w' = trace w"
    and ptr: "\<forall>c. effect (clients w' c) =
        (if c = new then Some d else if c = old then None else effect (clients w c))"
    and names: "cclient data = Some old \<and> cclient data' = Some new \<and> cclient2 data' = cclient2 data
       \<or> cclient2 data = Some old \<and> cclient2 data' = Some new \<and> cclient data' = cclient data"
    and was: "effect (clients w old) = Some d"
  shows "invariant w'"
proof -
  have h: "heap_ok w" and p: "pointers_ok w" and ru: "running_ok w"
    and wa: "waiting_ok w" and l: "log_ok w"
    using inv unfolding invariant_def by blast+
  have other: "\<And>d'. d' \<noteq> d \<Longrightarrow> effects w' d' = effects w d'" using e by simp
  have here: "effects w' d = Some data'" using e by simp
  from p was obtain r where r: "timeline data = Some d" "timelines w d = Some r"
    "new_frame_handler r = on_subview_timeline_new_frame" "\<not> finished_callback r"
    unfolding pointers_ok_def using live by fastforce
  have "heap_ok w'" unfolding heap_ok_def
  proof (intro conjI allI impI)
    fix d' x assume a: "effects w' d' = Some x"
    have "d' < next_effect w
          \<and> (timeline x = Some d' \<or> timeline x = None \<and> timelines w d' = None)
          \<and> own_particles d' (particles x)"
    proof (cases "d' = d")
      case True
      with a here have x: "x = data'" by simp
      from h live have "d < next_effect w
          \<and> (timeline data = Some d \<or> timeline data = None \<and> timelines w d = None)
          \<and> own_particles d (particles data)" unfolding heap_ok_def by blast
      then show ?thesis using True x same by simp
    next
      case False
      with a have "effects w d' = Some x" by (simp add: other)
      with h show ?thesis unfolding heap_ok_def by blast
    qed
    then show "d' < next_effect w'"
      "timeline x = Some d' \<or> timeline x = None \<and> timelines w' d' = None"
      "own_particles d' (particles x)" by (simp_all add: n tl)
  next
    fix t r' assume "timelines w' t = Some r'"
    with h show "t < next_effect w'" "handler_data r' = t"
      unfolding heap_ok_def by (simp_all add: n tl)
  qed
  moreover have "pointers_ok w'" unfolding pointers_ok_def
  proof (intro allI impI)
    fix c d' assume a: "effect (clients w' c) = Some d'"
    show "\<exists>x r. effects w' d' = Some x \<and> (cclient x = Some c \<or> cclient2 x = Some c)
          \<and> timeline x = Some d' \<and> timelines w' d' = Some r
          \<and> new_frame_handler r = on_subview_timeline_new_frame \<and> \<not> finished_callback r"
    proof (cases "c = new")
      case True
      with a ptr have "d' = d" by simp
      then show ?thesis using here True names r same by (auto simp add: tl)
    next
      case False
      with a ptr have c: "c \<noteq> old" "effect (clients w c) = Some d'"
        by (auto split: if_splits)
      with p obtain x r' where x: "effects w d' = Some x"
        "cclient x = Some c \<or> cclient2 x = Some c" "timeline x = Some d'"
        "timelines w d' = Some r'" "new_frame_handler r' = on_subview_timeline_new_frame"
        "\<not> finished_callback r'"
        unfolding pointers_ok_def by blast
      show ?thesis
      proof (cases "d' = d")
        case True
        with x(1) live have "x = data" by simp
        with x(2) c(1) names have "cclient data' = Some c \<or> cclient2 data' = Some c" by auto
        then show ?thesis using True here r same by (auto simp add: tl)
      next
        case False
        then show ?thesis using x by (auto simp add: other tl)
      qed
    qed
  qed
  moreover have "running_ok w'" unfolding running_ok_def
  proof (intro allI impI)
    fix t r' assume "timelines w' t = Some r' \<and> running r'"
    with ru obtain x where x: "effects w t = Some x" "timeline x = Some t"
      unfolding running_ok_def tl by blast
    show "\<exists>x. effects w' t = Some x \<and> timeline x = Some t"
    proof (cases "t = d")
      case True
      with x live same here show ?thesis by simp
    next
      case False
      with x show ?thesis by (simp add: other)
    qed
  qed
  moreover have "waiting_ok w'" unfolding waiting_ok_def oc
  proof (intro conjI ballI)
    show "distinct (effects_waiting (Orientation_change w))"
      using wa unfolding waiting_ok_def by blast
  next
    fix d' assume "d' \<in> set (effects_waiting (Orientation_change w))"
    with wa obtain x where x: "effects w d' = Some x" "timeline x = None"
      unfolding waiting_ok_def by blast
    show "\<exists>x. effects w' d' = Some x \<and> timeline x = None"
    proof (cases "d' = d")
      case True
      with x live same here show ?thesis by simp
    next
      case False
      with x show ?thesis by (simp add: other)
    qed
  qed
  moreover have "log_ok w'"
  proof -
    have c: "\<forall>d' \<in> set (completed_log (trace w)). effects w d' = None \<and> d' < next_effect w"
      using l unfolding log_ok_def by blast
    have "\<forall>d' \<in> set (completed_log (trace w')). effects w' d' = None \<and> d' < next_effect w'"
      using c live e by (auto simp add: tr n)
    then show ?thesis using l unfolding log_ok_def tr by blast
  qed
  ultimately show ?thesis unfolding invariant_def by blast
qed

lemma invariant_subview:
  assumes inv: "invariant w"
  shows "invariant (hd_transition_subview state subview mainview ev w)"
proof -
  have start: "\<And>sv mv. invariant (subview_start sv mv ev w)"
    using inv subview_start_allocated by (rule allocated_invariant)
  have first: "invariant (subview_replace_cclient d data sv w)"
    if "effect (clients w mv) = Some d" "effects w d = Some data" "cclient data = Some mv"
    for d data sv mv
    by (rule handed_over_invariant [OF inv _ that(2), where old = mv and new = sv
          and data' = "data\<lparr>cclient := Some sv, cclient_actor := client_actor (clients w sv)\<rparr>"])
      (simp_all add: that subview_replace_cclient_pointers)
  have second: "invariant (subview_replace_cclient2 d data mv w)"
    if "effect (clients w sv) = Some d" "effects w d = Some data" "cclient2 data = Some sv"
    for d data sv mv
    by (rule handed_over_invariant [OF inv _ that(2), where old = sv and new = mv
          and data' = "data\<lparr>cclient2 := Some mv, cclient2_actor := client_actor (clients w mv)\<rparr>"])
      (simp_all add: that subview_replace_cclient2_pointers)
  show ?thesis
    using inv start first second
    by (auto simp add: hd_transition_subview_def Let_def invariant_call_out
        split: option.splits)
qed

text \<open>A forced stop and the end of a timeline keep the invariant.\<close>

lemma invariant_stop:
  assumes inv: "invariant w"
  shows "invariant (hd_transition_stop c w)"
proof (cases "effect (clients w c)")
  case None
  then show ?thesis using inv by (simp add: hd_transition_stop_def)
next
  case (Some d)
  from inv have p: "pointers_ok w" and wa: "waiting_ok w" unfolding invariant_def by blast+
  from p Some obtain data r where r: "effects w d = Some data" "timeline data = Some d"
    "timelines w d = Some r"
    unfolding pointers_ok_def by blast
  let ?n = "clutter_timeline_get_n_frames w (Some d)"
  let ?w = "emit_new_frame (Some d) ?n (clutter_timeline_stop (Some d) w)"
  have eq: "hd_transition_stop c w = hd_transition_completed (Some d) d ?w"
    using Some r by (simp add: hd_transition_stop_def Let_def)
  have 1: "invariant ?w"
    using inv by (simp add: invariant_emit_new_frame invariant_timeline_stop)
  have 2: "effects ?w d = Some data"
    using r by (simp add: clutter_timeline_stop_def)
  have 3: "\<forall>x. timelines ?w d = Some x \<longrightarrow> \<not> running x"
    using r by (simp add: clutter_timeline_stop_def)
  have 4: "d \<notin> set (effects_waiting (Orientation_change ?w))"
    using wa r unfolding waiting_ok_def by (auto simp add: clutter_timeline_stop_def)
  show ?thesis unfolding eq using 1 2 3 4 by (rule teardown_invariant_plain)
qed

lemma invariant_timeline_new_frame:
  "invariant w \<Longrightarrow> invariant (timeline_new_frame t f w)"
  by (simp add: timeline_new_frame_def invariant_emit_new_frame split: option.splits)

lemma invariant_timeline_completed:
  assumes inv: "invariant w"
  shows "invariant (timeline_completed now t w)"
proof (cases "timelines w t")
  case None
  then show ?thesis using inv by (simp add: timeline_completed_def)
next
  case (Some r)
  show ?thesis
  proof (cases "running r")
    case False
    then show ?thesis using inv Some by (simp add: timeline_completed_def)
  next
    case True
    from inv have h: "heap_ok w" and ru: "running_ok w" and wa: "waiting_ok w"
      unfolding invariant_def by blast+
    from h Some have hd: "handler_data r = t" unfolding heap_ok_def by blast
    from ru Some True obtain data where data: "effects w t = Some data" "timeline data = Some t"
      unfolding running_ok_def by blast
    let ?w = "emit_new_frame (Some t) (n_frames r)
                (upd_timeline (Some t) (\<lambda>r. r\<lparr>running := False\<rparr>) w)"
    have 1: "invariant ?w"
      using inv by (simp add: invariant_emit_new_frame stopped_invariant)
    have 2: "effects ?w t = Some data" using data by simp
    have 3: "\<forall>x. timelines ?w t = Some x \<longrightarrow> \<not> running x" using Some by simp
    have 4: "t \<notin> set (effects_waiting (Orientation_change ?w))"
      using wa data unfolding waiting_ok_def by auto
    have "invariant (hd_transition_completed (Some t) t ?w)"
      using 1 2 3 4 by (rule teardown_invariant_plain)
    then show ?thesis using Some True hd
      by (simp add: timeline_completed_def invariant_fsm)
  qed
qed

text \<open>Every run of the module keeps the invariant.\<close>

lemma invariant_rotate_screen:
  "invariant w \<Longrightarrow> invariant (snd (hd_transition_rotate_screen now ip wm_ptr gp w))"
  by (simp add: hd_transition_rotate_screen_def Let_def invariant_fsm invariant_upd_oc)

lemma invariant_ignore_damage:
  "invariant w \<Longrightarrow> invariant (snd (hd_transition_rotate_ignore_damage now w))"
  by (simp add: hd_transition_rotate_ignore_damage_def invariant_g_source_remove
      invariant_g_timeout_add)

lemma invariant_timeout_dispatch:
  "invariant w \<Longrightarrow> invariant (timeout_dispatch now sid w)"
  by (simp add: timeout_dispatch_def invariant_g_source_remove invariant_fsm
      split: option.splits)

lemma invariant_initial: "invariant (initial_world cf cs acs)"
  by (simp add: invariant_def heap_ok_def pointers_ok_def running_ok_def waiting_ok_def
      log_ok_def initial_world_def Orientation_change_initial_def)

lemma invariant_happen:
  assumes inv: "invariant w"
  shows "invariant (happen h w)"
proof (cases h)
  case (Popup c ev)
  then show ?thesis
    using popup_allocated [of c ev w] inv by (auto intro: allocated_invariant)
next
  case (Fade c ev)
  then show ?thesis
    using fade_allocated [of w c ev] inv by (auto intro: allocated_invariant)
next
  case (Close_app state textures c)
  then show ?thesis
    using close_app_allocated [of state textures c w] inv by (auto intro: allocated_invariant)
next
  case (Close_app_before_rotate state c)
  then show ?thesis
    using close_app_before_rotate_allocated [of state c w] inv
    by (auto intro: allocated_invariant)
next
  case (Notification c ev)
  then show ?thesis
    using notification_allocated [of w c ev] inv by (auto intro: allocated_invariant)
next
  case (Subview state sv mv ev)
  then show ?thesis using inv by (simp add: invariant_subview)
next
  case (Stop c)
  then show ?thesis using inv by (simp add: invariant_stop)
next
  case (Timeline_frame t f)
  then show ?thesis using inv by (simp add: invariant_timeline_new_frame)
next
  case (Timeline_end now t)
  then show ?thesis using inv by (simp add: invariant_timeline_completed)
next
  case (Rotate_screen now ip wm_ptr gp)
  then show ?thesis using inv by (simp add: invariant_rotate_screen)
next
  case (Change_state state)
  then show ?thesis using inv
    by (simp add: hd_transition_rotate_screen_and_change_state_def invariant_upd_oc)
next
  case (Damage now)
  then show ?thesis using inv by (simp add: invariant_ignore_damage)
next
  case (Timeout now sid)
  then show ?thesis using inv by (simp add: invariant_timeout_dispatch)
qed

lemma reachable_invariant: "reachable w \<Longrightarrow> invariant w"
  by (induction rule: reachable.induct) (simp_all add: invariant_initial invariant_happen)

text \<open>
  C1. In every run of the module, whatever starts the teardowns (the "completed" signal of
  a timeline, \<open>hd_transition_stop\<close>, or the state machine going through
  \<open>Orientation_change.effects_waiting\<close>), \<open>hd_transition_completed\<close> runs at most once
  on an effect record, no decoration actor is released twice, and the count of running
  effects is decremented at most once for a record.
\<close>

theorem teardown_at_most_once:
  assumes "reachable w"
  shows "count_list (trace w) (Completed d) \<le> 1
    \<and> count_list (trace w) (Particle_unref a) \<le> 1
    \<and> count_list (trace w) (Set_effect_running d False) \<le> 1"
proof -
  from assms have "log_ok w"
    using reachable_invariant unfolding invariant_def by blast
  then have "distinct (completed_log (trace w))" "distinct (unref_log (trace w))"
    "distinct (decrement_log (trace w))"
    unfolding log_ok_def by blast+
  then show ?thesis
    unfolding count_completed count_unref count_decrement
    by (intro conjI distinct_count_le_one)
qed

lemma popup_run_reachable:
  "reachable (happen (Timeline_end 1 0) (happen (Popup 1 MBWMCompMgrClientEventMap) demo_world))"
  unfolding demo_world_def by (intro reachable.intros)

lemma popup_run_trace:
  "trace (happen (Timeline_end 1 0) (happen (Popup 1 MBWMCompMgrClientEventMap) demo_world)) =
     [Set_effect_running 0 True, New_frame on_popup_timeline_new_frame 0 0, Timeline_start 0,
      New_frame on_popup_timeline_new_frame 0 15, Completed 0, Set_effect_running 0 False,
      Particle_unref (ParticleActor 0 0)]"
  by (simp add: timeline_completed_def hd_transition_popup_def Let_def derived_defs cfg_reads
      emit_new_frame_def completed_calls_def)

theorem teardown_at_most_once_witness:
  "reachable (happen (Timeline_end 1 0) (happen (Popup 1 MBWMCompMgrClientEventMap) demo_world))
   \<and> count_list
       (trace (happen (Timeline_end 1 0) (happen (Popup 1 MBWMCompMgrClientEventMap) demo_world)))
       (Completed 0) = 1
   \<and> count_list
       (trace (happen (Timeline_end 1 0) (happen (Popup 1 MBWMCompMgrClientEventMap) demo_world)))
       (Particle_unref (ParticleActor 0 0)) = 1
   \<and> count_list
       (trace (happen (Timeline_end 1 0) (happen (Popup 1 MBWMCompMgrClientEventMap) demo_world)))
       (Set_effect_running 0 False) = 1"
  using teardown_at_most_once [OF popup_run_reachable, of 0 "ParticleActor 0 0"]
    popup_run_reachable
  by (simp only: popup_run_trace) simp

section \<open>Forced stop\<close>

text \<open>The actors after the release of the decoration actors.\<close>

lemma release_particle_actors:
  "actors (release_particle p w) =
     (case p of None \<Rightarrow> actors w
      | Some a \<Rightarrow> (actors w)(a := (actors w a)\<lparr>parent := None,
          ref_count := ref_count (actors w a) - 1\<rparr>))"
  by (cases p) (simp_all add: release_particle_def derived_defs)

lemma release_particles_actors:
  "actors (steps (map release_particle ps) w) =
     fold (\<lambda>p acts. case p of None \<Rightarrow> acts
             | Some a \<Rightarrow> acts(a := (acts a)\<lparr>parent := None,
                 ref_count := ref_count (acts a) - 1\<rparr>)) ps (actors w)"
proof (induction ps arbitrary: w)
  case Nil
  show ?case by simp
next
  case (Cons p ps)
  have "actors (steps (map release_particle (p # ps)) w) =
      actors (steps (map release_particle ps) (release_particle p w))" by simp
  also note Cons.IH
  also note release_particle_actors
  finally show ?case by simp
qed

text \<open>A teardown does not read the trace.\<close>

lemma completed_ignores_trace:
  "clients (hd_transition_completed tm d (w\<lparr>trace := x\<rparr>)) =
     clients (hd_transition_completed tm d w)"
  "actors (hd_transition_completed tm d (w\<lparr>trace := x\<rparr>)) =
     actors (hd_transition_completed tm d w)"
  "effects (hd_transition_completed tm d (w\<lparr>trace := x\<rparr>)) =
     effects (hd_transition_completed tm d w)"
  "next_effect (hd_transition_completed tm d (w\<lparr>trace := x\<rparr>)) =
     next_effect (hd_transition_completed tm d w)"
  "timelines (hd_transition_completed tm d (w\<lparr>trace := x\<rparr>)) =
     timelines (hd_transition_completed tm d w)"
  "Orientation_change (hd_transition_completed tm d (w\<lparr>trace := x\<rparr>)) =
     Orientation_change (hd_transition_completed tm d w)"
  "timeout_sources (hd_transition_completed tm d (w\<lparr>trace := x\<rparr>)) =
     timeout_sources (hd_transition_completed tm d w)"
  "source_count (hd_transition_completed tm d (w\<lparr>trace := x\<rparr>)) =
     source_count (hd_transition_completed tm d w)"
  "effects_running (hd_transition_completed tm d (w\<lparr>trace := x\<rparr>)) =
     effects_running (hd_transition_completed tm d w)"
  "cfg (hd_transition_completed tm d (w\<lparr>trace := x\<rparr>)) =
     cfg (hd_transition_completed tm d w)"
  by (cases "effects w d";
      simp add: hd_transition_completed_def Let_def derived_defs release_particles_actors
        cong: option.case_cong if_cong)+

text \<open>
  The last frame of a subview transition puts the two actors where they belong,
  wherever earlier frames have left them.
\<close>

lemma on_actor_at:
  "actors (on_actor ao f w) a = (if ao = Some a then f (actors w a) else actors w a)"
  by (cases ao) simp_all

lemma on_actor_same: "on_actor ao (\<lambda>r. r) w = w"
  by (cases ao) (simp_all add: on_actor_def upd_actor_def)

lemma on_actors_at:
  "actors (steps (map (\<lambda>p. on_actor (fst p) (snd p)) ops) w) a =
     fold (\<lambda>p r. if fst p = Some a then snd p r else r) ops (actors w a)"
proof (induction ops arbitrary: w)
  case Nil
  show ?case by simp
next
  case (Cons p ops)
  show ?case by (simp add: Cons.IH on_actor_at del: on_actor_proj(2))
qed

lemma subview_new_frame_ops:
  assumes live: "effects w d = Some data"
    and A: "A = (if cclient data \<noteq> None then cclient_actor data else None)"
    and M: "M = (if cclient2 data \<noteq> None then cclient2_actor data else None)"
    and nf: "nf = clutter_timeline_get_n_frames w (Some t)"
    and x: "x = - ((1 - (if event data = MBWMCompMgrClientEventUnmap
                          then 1 - hd_transition_smooth_ramp (real n / real nf)
                          else hd_transition_smooth_ramp (real n / real nf)))
                   * real_of_int (screen_width (cfg w)))"
    and y: "y = - ((1 - (if event data = MBWMCompMgrClientEventUnmap
                          then 1 - hd_transition_smooth_ramp (real n / real nf)
                          else hd_transition_smooth_ramp (real n / real nf)))
                   * real_of_int (screen_width (cfg w)) - real_of_int (screen_width (cfg w)))"
  shows "subview_new_frame t n d w =
     steps (map (\<lambda>p. on_actor (fst p) (snd p))
       ([(A, \<lambda>r. r\<lparr>anchor_x := x, anchor_y := 0\<rparr>), (A, \<lambda>r. r\<lparr>visible := True\<rparr>),
         (M, \<lambda>r. r\<lparr>anchor_x := y, anchor_y := 0\<rparr>), (M, \<lambda>r. r\<lparr>visible := True\<rparr>)]
        @ (if n = nf
           then [(A, \<lambda>r. r\<lparr>anchor_x := 0, anchor_y := 0\<rparr>),
                 (A, if event data = MBWMCompMgrClientEventUnmap
                     then (\<lambda>r. r\<lparr>visible := False\<rparr>) else (\<lambda>r. r)),
                 (M, \<lambda>r. r\<lparr>anchor_x := 0, anchor_y := 0\<rparr>),
                 (M, if event data = MBWMCompMgrClientEventMap
                     then (\<lambda>r. r\<lparr>visible := False\<rparr>) else (\<lambda>r. r))]
           else []))) w"
  unfolding subview_new_frame_def Let_def live A M nf x y
  by (simp add: derived_defs on_actor_same)

lemma last_frame_absorbs:
  "actors (subview_new_frame t (clutter_timeline_get_n_frames w (Some t)) d
             (subview_new_frame t f d w)) =
   actors (subview_new_frame t (clutter_timeline_get_n_frames w (Some t)) d w)"
proof (cases "effects w d")
  case None
  then show ?thesis by (simp add: subview_new_frame_def)
next
  case (Some data)
  define nf where "nf = clutter_timeline_get_n_frames w (Some t)"
  define w' where "w' = subview_new_frame t f d w"
  define A where "A = (if cclient data \<noteq> None then cclient_actor data else None)"
  define M where "M = (if cclient2 data \<noteq> None then cclient2_actor data else None)"
  define x where "x n = - ((1 - (if event data = MBWMCompMgrClientEventUnmap
                          then 1 - hd_transition_smooth_ramp (real n / real nf)
                          else hd_transition_smooth_ramp (real n / real nf)))
                   * real_of_int (screen_width (cfg w)))" for n :: nat
  define y where "y n = - ((1 - (if event data = MBWMCompMgrClientEventUnmap
                          then 1 - hd_transition_smooth_ramp (real n / real nf)
                          else hd_transition_smooth_ramp (real n / real nf)))
                   * real_of_int (screen_width (cfg w)) - real_of_int (screen_width (cfg w)))"
    for n :: nat
  define ops :: "nat \<Rightarrow> (actor_id option \<times> (ClutterActor \<Rightarrow> ClutterActor)) list"
    where "ops n =
       [(A, \<lambda>r. r\<lparr>anchor_x := x n, anchor_y := 0\<rparr>), (A, \<lambda>r. r\<lparr>visible := True\<rparr>),
         (M, \<lambda>r. r\<lparr>anchor_x := y n, anchor_y := 0\<rparr>), (M, \<lambda>r. r\<lparr>visible := True\<rparr>)]
        @ (if n = nf
           then [(A, \<lambda>r. r\<lparr>anchor_x := 0, anchor_y := 0\<rparr>),
                 (A, if event data = MBWMCompMgrClientEventUnmap
                     then (\<lambda>r. r\<lparr>visible := False\<rparr>) else (\<lambda>r. r)),
                 (M, \<lambda>r. r\<lparr>anchor_x := 0, anchor_y := 0\<rparr>),
                 (M, if event data = MBWMCompMgrClientEventMap
                     then (\<lambda>r. r\<lparr>visible := False\<rparr>) else (\<lambda>r. r))]
           else [])" for n :: nat
  have first: "w' = steps (map (\<lambda>p. on_actor (fst p) (snd p)) (ops f)) w"
    unfolding w'_def ops_def
    by (rule subview_new_frame_ops [OF Some A_def M_def nf_def x_def y_def])
  have e': "effects w' d = Some data" unfolding w'_def using Some by simp
  have nf': "nf = clutter_timeline_get_n_frames w' (Some t)"
    unfolding w'_def nf_def by (simp add: clutter_timeline_get_n_frames_def)
  have c': "cfg w' = cfg w" unfolding w'_def by simp
  have last: "subview_new_frame t nf d w = steps (map (\<lambda>p. on_actor (fst p) (snd p)) (ops nf)) w"
    unfolding ops_def
    by (rule subview_new_frame_ops [OF Some A_def M_def nf_def x_def y_def])
  have last': "subview_new_frame t nf d w' =
      steps (map (\<lambda>p. on_actor (fst p) (snd p)) (ops nf)) w'"
    unfolding ops_def
    by (rule subview_new_frame_ops [OF e' A_def M_def nf' x_def [unfolded c' [symmetric]]
          y_def [unfolded c' [symmetric]]])
  have "actors (subview_new_frame t nf d w') a = actors (subview_new_frame t nf d w) a" for a
    unfolding last last' on_actors_at
    unfolding first on_actors_at
    unfolding ops_def
    by (cases "A = Some a"; cases "M = Some a"; cases "f = nf"; cases "event data") simp_all
  then show ?thesis unfolding nf_def w'_def by (intro ext)
qed

lemma subview_new_frame_actors_cong:
  assumes e: "effects w1 d = effects w2 d"
    and n: "clutter_timeline_get_n_frames w1 (Some t) = clutter_timeline_get_n_frames w2 (Some t)"
    and c: "cfg w1 = cfg w2" and a: "actors w1 = actors w2"
  shows "actors (subview_new_frame t n d w1) = actors (subview_new_frame t n d w2)"
proof (cases "effects w2 d")
  case None
  then show ?thesis using e a by (simp add: subview_new_frame_def)
next
  case (Some data)
  then have e1: "effects w1 d = Some data" using e by simp
  note one = subview_new_frame_ops [OF e1 refl refl refl refl refl, of t n]
  note two = subview_new_frame_ops [OF Some refl refl refl refl refl, of t n]
  show ?thesis
    unfolding one two by (intro ext) (simp only: on_actors_at n c a)
qed

text \<open>The frames of a running timeline change actors and trace only.\<close>

lemma timeline_new_frame_proj [simp]:
  "clients (timeline_new_frame t f w) = clients w"
  "effects (timeline_new_frame t f w) = effects w"
  "next_effect (timeline_new_frame t f w) = next_effect w"
  "timelines (timeline_new_frame t f w) = timelines w"
  "Orientation_change (timeline_new_frame t f w) = Orientation_change w"
  "timeout_sources (timeline_new_frame t f w) = timeout_sources w"
  "source_count (timeline_new_frame t f w) = source_count w"
  "effects_running (timeline_new_frame t f w) = effects_running w"
  "cfg (timeline_new_frame t f w) = cfg w"
  by (simp_all add: timeline_new_frame_def split: option.splits)

lemma timeline_frames_proj [simp]:
  "clients (fold (timeline_new_frame t) fs w) = clients w"
  "effects (fold (timeline_new_frame t) fs w) = effects w"
  "next_effect (fold (timeline_new_frame t) fs w) = next_effect w"
  "timelines (fold (timeline_new_frame t) fs w) = timelines w"
  "Orientation_change (fold (timeline_new_frame t) fs w) = Orientation_change w"
  "timeout_sources (fold (timeline_new_frame t) fs w) = timeout_sources w"
  "source_count (fold (timeline_new_frame t) fs w) = source_count w"
  "effects_running (fold (timeline_new_frame t) fs w) = effects_running w"
  "cfg (fold (timeline_new_frame t) fs w) = cfg w"
  by (induction fs arbitrary: w; simp)+

lemma n_frames_of_timeline:
  "timelines w t = Some r \<Longrightarrow> clutter_timeline_get_n_frames w (Some t) = n_frames r"
  by (simp add: clutter_timeline_get_n_frames_def)

lemma timeline_frames_absorbed:
  assumes "timelines w t = Some r"
    and "new_frame_handler r = on_subview_timeline_new_frame" and "handler_data r = d"
  shows "actors (subview_new_frame t (n_frames r) d (fold (timeline_new_frame t) fs w)) =
     actors (subview_new_frame t (n_frames r) d w)"
  using assms
proof (induction fs arbitrary: w)
  case Nil
  show ?case by simp
next
  case (Cons f fs)
  let ?w = "timeline_new_frame t f w"
  have tl: "timelines ?w t = Some r" using Cons.prems(1) by simp
  have "actors (subview_new_frame t (n_frames r) d (fold (timeline_new_frame t) (f # fs) w)) =
      actors (subview_new_frame t (n_frames r) d ?w)"
    using Cons.IH [OF tl Cons.prems(2,3)] by simp
  also have "\<dots> = actors (subview_new_frame t (n_frames r) d w)"
  proof (cases "running r \<and> f < n_frames r")
    case False
    then show ?thesis using Cons.prems(1) by (auto simp add: timeline_new_frame_def)
  next
    case True
    let ?v = "call_out (New_frame on_subview_timeline_new_frame d f) w"
    have w: "?w = subview_new_frame t f d ?v"
      using True Cons.prems
      by (simp add: timeline_new_frame_def emit_new_frame_def new_frame_def Let_def)
    have n: "clutter_timeline_get_n_frames ?v (Some t) = n_frames r"
      using Cons.prems(1) by (simp add: clutter_timeline_get_n_frames_def)
    have "actors (subview_new_frame t (n_frames r) d ?w) =
        actors (subview_new_frame t (n_frames r) d ?v)"
      unfolding w using last_frame_absorbs [of t ?v d f] unfolding n .
    also have "\<dots> = actors (subview_new_frame t (n_frames r) d w)"
      by (rule subview_new_frame_actors_cong)
        (simp_all add: clutter_timeline_get_n_frames_def)
    finally show ?thesis .
  qed
  finally show ?case .
qed

text \<open>A forced stop and the natural end of a running subview transition.\<close>

lemma emit_subview_frame:
  assumes "timelines w t = Some r"
    and "new_frame_handler r = on_subview_timeline_new_frame" and "handler_data r = d"
  shows "emit_new_frame (Some t) n w =
     subview_new_frame t n d (call_out (New_frame on_subview_timeline_new_frame d n) w)"
  using assms by (simp add: emit_new_frame_def new_frame_def Let_def)

lemma forced_stop_natural:
  assumes live: "effects w d = Some data" and tl: "timeline data = Some d"
    and r: "timelines w d = Some r"
    and h: "new_frame_handler r = on_subview_timeline_new_frame" "handler_data r = d"
    and fc: "\<not> finished_callback r"
    and run: "running r" and ptr: "effect (clients w c) = Some d"
  shows "trace (hd_transition_stop c w) =
      trace w @ [Timeline_stop d, New_frame on_subview_timeline_new_frame d (n_frames r)]
        @ completed_calls w d"
    and "hd_transition_stop c w =
      (timeline_completed now d (fold (timeline_new_frame d) fs w))
        \<lparr>trace := trace (hd_transition_stop c w)\<rparr>"
proof -
  let ?off = "\<lambda>r :: ClutterTimeline. r\<lparr>running := False\<rparr>"
  let ?e = "New_frame on_subview_timeline_new_frame d (n_frames r)"
  let ?s0 = "clutter_timeline_stop (Some d) w"
  let ?wn = "fold (timeline_new_frame d) fs w"
  let ?n0 = "upd_timeline (Some d) ?off ?wn"
  let ?Ws = "emit_new_frame (Some d) (n_frames r) ?s0"
  let ?Wn = "emit_new_frame (Some d) (n_frames r) ?n0"
  have S: "hd_transition_stop c w = hd_transition_completed (Some d) d ?Ws"
    using ptr live tl r
    by (simp add: hd_transition_stop_def Let_def clutter_timeline_get_n_frames_def)
  have N: "timeline_completed now d ?wn = hd_transition_completed (Some d) d ?Wn"
    using r h fc run by (simp add: timeline_completed_def)
  have s0: "timelines ?s0 d = Some (?off r)" using r by (simp add: clutter_timeline_stop_def)
  have n0: "timelines ?n0 d = Some (?off r)" using r by simp
  have Ws: "?Ws = subview_new_frame d (n_frames r) d (call_out ?e ?s0)"
    using h by (intro emit_subview_frame [OF s0]) simp_all
  have Wn: "?Wn = subview_new_frame d (n_frames r) d (call_out ?e ?n0)"
    using h by (intro emit_subview_frame [OF n0]) simp_all
  have "trace ?Ws = trace w @ [Timeline_stop d, ?e]"
    unfolding Ws by (simp add: clutter_timeline_stop_def)
  moreover have "completed_calls ?Ws d = completed_calls w d"
    by (simp add: completed_calls_def clutter_timeline_stop_def)
  ultimately show "trace (hd_transition_stop c w) =
      trace w @ [Timeline_stop d, ?e] @ completed_calls w d"
    unfolding S by simp
  have "actors ?Ws = actors (subview_new_frame d (n_frames r) d w)"
    unfolding Ws using r
    by (intro subview_new_frame_actors_cong)
      (simp_all add: clutter_timeline_stop_def clutter_timeline_get_n_frames_def)
  moreover have "actors ?Wn = actors (subview_new_frame d (n_frames r) d ?wn)"
    unfolding Wn using r
    by (intro subview_new_frame_actors_cong)
      (simp_all add: clutter_timeline_get_n_frames_def)
  moreover note timeline_frames_absorbed [OF r h, of fs]
  ultimately have actors: "actors ?Wn = actors ?Ws" by simp
  have rest: "clients ?Wn = clients ?Ws" "effects ?Wn = effects ?Ws"
    "next_effect ?Wn = next_effect ?Ws" "timelines ?Wn = timelines ?Ws"
    "Orientation_change ?Wn = Orientation_change ?Ws"
    "timeout_sources ?Wn = timeout_sources ?Ws" "source_count ?Wn = source_count ?Ws"
    "effects_running ?Wn = effects_running ?Ws" "cfg ?Wn = cfg ?Ws"
    using r by (simp_all add: clutter_timeline_stop_def)
  have "?Wn = ?Ws\<lparr>trace := trace ?Wn\<rparr>"
    by (rule world.equality) (simp_all add: actors rest del: emit_new_frame_proj)
  then have N': "timeline_completed now d ?wn =
      hd_transition_completed (Some d) d (?Ws\<lparr>trace := trace ?Wn\<rparr>)"
    unfolding N by simp
  show "hd_transition_stop c w =
      (timeline_completed now d ?wn)\<lparr>trace := trace (hd_transition_stop c w)\<rparr>"
    unfolding N' unfolding S
    by (rule world.equality) (simp_all add: completed_ignores_trace del: completed_proj
        completed_effects completed_trace)
qed


lemma subview_run:
  "happen (Subview (HDRM_STATE_other 0) (Some 1) (Some 2) MBWMCompMgrClientEventMap) demo_world =
     subview_start 1 2 MBWMCompMgrClientEventMap demo_world"
  by (simp add: subview_fresh)

lemma subview_run_reachable:
  "reachable (happen (Subview (HDRM_STATE_other 0) (Some 1) (Some 2) MBWMCompMgrClientEventMap)
     demo_world)"
  unfolding demo_world_def by (intro reachable.intros)

lemma subview_run_facts:
  "effect (clients (subview_start 1 2 MBWMCompMgrClientEventMap demo_world) 1) = Some 0"
  "timelines (subview_start 1 2 MBWMCompMgrClientEventMap demo_world) 0 =
     Some \<lparr>n_frames = 15, running = True,
       new_frame_handler = on_subview_timeline_new_frame,
       handler_data = 0, finished_callback = False, timeline_refs = 2\<rparr>"
  "trace (subview_start 1 2 MBWMCompMgrClientEventMap demo_world) =
     [Set_effect_running 0 True, New_frame on_subview_timeline_new_frame 0 0, Timeline_start 0]"
  "completed_calls (subview_start 1 2 MBWMCompMgrClientEventMap demo_world) 0 =
     [Completed 0, Set_effect_running 0 False]"
  by (simp_all add: subview_start_pointers subview_start_trace completed_calls_def cfg_reads)


end
